theory Spec2Isabelle
  imports Complex_Main "HOL-Library.Multiset" "HOL-Library.AList"
begin

section \<open>Conventions of the embedding\<close>

text \<open>
  The development embeds the decision validator of package \<open>decision\<close>
  (\<open>validateDecision\<close>, \<open>validateDecisions\<close>, \<open>parseFullDecisionResponse\<close>,
  \<open>GetFullDecision\<close>) and the automatic trader of package \<open>trader\<close>
  (\<open>runCycle\<close>, \<open>checkStopLossTriggered\<close>, \<open>checkTrailingStopAndPartialTP\<close>,
  \<open>buildTradingContext\<close>, the \<open>execute...WithRecord\<close> dispatchers and
  \<open>sortDecisionsByPriority\<close>), and of the second automatic trader of the repository
  its \<open>sortDecisionsByPriority\<close> and its two dispatchers that open a position.

  \<^item> Go's \<open>float64\<close> is modelled by \<open>real\<close>: rounding, infinities and NaN are outside
    the model. Go's \<open>int\<close> is modelled by \<open>int\<close>; the one product that can leave the
    64-bit range, the duration of the pause, is wrapped as \<open>int64\<close> wraps it.
  \<^item> Go's \<open>error\<close> values are built with \<open>fmt.Errorf\<close>; each distinct message is a
    constructor of the datatype \<open>error\<close>, carrying the values the message prints when
    they matter.
  \<^item> \<open>time.Time\<close> is an \<open>int\<close> (nanoseconds), the zero time being \<open>0\<close>.
  \<^item> Calls of \<open>log.Printf\<close> and \<open>time.Sleep\<close> are left out: they do not change the
    state of the trader.
\<close>

section \<open>Package decision: the data model\<close>

record Decision =
  d_Symbol :: string
  d_Action :: string
  d_Leverage :: int
  d_PositionSizeUSD :: real
  d_EntryPrice :: real
  d_StopLoss :: real
  d_TakeProfit :: real
  d_Confidence :: int
  d_RiskUSD :: real
  d_Reasoning :: string
  d_InvalidationCondition :: string

datatype error =
    InvalidAction string
  | LeverageOutOfRange int int
  | PositionSizeNotPositive real
  | PositionValueTooLarge real real
  | EntryPriceNotPositive real
  | StopOrTargetNotPositive
  | MissingInvalidationCondition
  | LongStopNotBelowEntry real real
  | LongTargetNotAboveEntry real real
  | ShortStopNotAboveEntry real real
  | ShortTargetNotBelowEntry real real
  | RiskRewardTooLow real
  | DecreaseSizeNotPositive real
  | DecreaseMissingReasoning
  | UpdateStopOrTargetNotPositive
  | UpdateMissingReasoning
  | DecisionInvalid nat error
  | ExtractFailed
  | ValidationFailed error
  | ParseFailed error
  | MarketDataFailed
  | AICallFailed
  | VenueFailure
  | AntiStackingLong string
  | AntiStackingShort string
  | UnknownAction string
  | BuildContextFailed error
  | RebuildContextFailed error
  | GetDecisionFailed error
  | GetBalanceFailed error
  | GetPositionsFailed error
  | GetCoinPoolFailed error
  | BackoffPause
  | RiskControlPause
  | PriceDrift real

subsection \<open>strings.TrimSpace\<close>

text \<open>
  \<open>strings.TrimSpace\<close> removes the leading and the trailing white space of a string, white
  space being what \<open>unicode.IsSpace\<close> accepts. A Go string is a sequence of bytes read as
  UTF-8, so the model works on bytes: \<open>spaceRunes\<close> lists the encodings of the white
  space runes, the six ASCII characters (tab, line feed, vertical tab, form feed,
  carriage return, space) and U+0085, U+00A0, U+1680, U+2000 to U+200A, U+2028, U+2029,
  U+202F, U+205F and U+3000. Every encoding starts with a byte that starts a rune and
  goes on with continuation bytes, so the first rune of a string is a white space
  exactly when one of the encodings is a prefix of the string, and the last rune exactly
  when one of them is a suffix.
\<close>

definition spaceRunes :: "string list" where
  "spaceRunes =
     map (\<lambda>c. [c]) [CHR 0x09, CHR 0x0A, CHR 0x0B, CHR 0x0C, CHR 0x0D, CHR '' '']
     @ [[CHR 0xC2, CHR 0x85], [CHR 0xC2, CHR 0xA0], [CHR 0xE1, CHR 0x9A, CHR 0x80]]
     @ map (\<lambda>c. [CHR 0xE2, CHR 0x80, c])
         [CHR 0x80, CHR 0x81, CHR 0x82, CHR 0x83, CHR 0x84, CHR 0x85, CHR 0x86, CHR 0x87,
          CHR 0x88, CHR 0x89, CHR 0x8A, CHR 0xA8, CHR 0xA9, CHR 0xAF]
     @ [[CHR 0xE2, CHR 0x81, CHR 0x9F], [CHR 0xE3, CHR 0x80, CHR 0x80]]"

text \<open>The number of bytes of the rune of \<open>runes\<close> the string starts with, 0 when it starts with none.\<close>

definition headRune :: "string list \<Rightarrow> string \<Rightarrow> nat" where
  "headRune runes s =
    (case find (\<lambda>r. take (length r) s = r) runes of Some r \<Rightarrow> length r | None \<Rightarrow> 0)"

function trimLeft :: "string list \<Rightarrow> string \<Rightarrow> string" where
  "trimLeft runes s =
    (if headRune runes s = 0 then s else trimLeft runes (drop (headRune runes s) s))"
  by pat_completeness auto
termination
proof (relation "measure (\<lambda>(runes, s). length s)")
  show "wf (measure (\<lambda>(runes, s). length s))" by simp
next
  fix runes :: "string list" and s :: string
  assume h: "headRune runes s \<noteq> 0"
  have "s \<noteq> []"
  proof
    assume "s = []"
    then have "headRune runes s = 0"
      by (auto simp: headRune_def find_Some_iff split: option.splits)
    then show False using h by simp
  qed
  then show "((runes, drop (headRune runes s) s), (runes, s)) \<in> measure (\<lambda>(runes, s). length s)"
    using h by simp
qed

declare trimLeft.simps [simp del]

definition TrimSpace :: "string \<Rightarrow> string" where
  "TrimSpace s = rev (trimLeft (map rev spaceRunes) (rev (trimLeft spaceRunes s)))"

subsection \<open>validateDecision\<close>

definition validActions :: "string list" where
  "validActions = [''open_long'', ''open_short'', ''close_long'', ''close_short'',
     ''increase_long'', ''increase_short'', ''decrease_long'', ''decrease_short'',
     ''hold'', ''wait'', ''update_loss_profit'']"

text \<open>
  The three guarded blocks of \<open>validateDecision\<close>, each returning the first error it
  meets. \<open>checkOpenOrIncrease\<close> is the body of the block for
  \<open>open_long\<close>, \<open>open_short\<close>, \<open>increase_long\<close> and \<open>increase_short\<close>; as in the source,
  \<open>riskRewardRatio\<close> keeps its zero value unless \<open>riskPercent > 0\<close>.
\<close>

definition checkOpenOrIncrease :: "Decision \<Rightarrow> real \<Rightarrow> int \<Rightarrow> int \<Rightarrow> error option" where
  "checkOpenOrIncrease d accountEquity btcEthLeverage altcoinLeverage =
    (let btcEth = (d_Symbol d = ''BTCUSDT'' \<or> d_Symbol d = ''ETHUSDT'');
         maxLeverage = (if btcEth then btcEthLeverage else altcoinLeverage);
         maxPositionValue = (if btcEth then accountEquity * 10 else accountEquity * 5);
         tolerance = maxPositionValue * 0.01;
         isLong = (d_Action d = ''open_long'' \<or> d_Action d = ''increase_long'');
         isShort = (d_Action d = ''open_short'' \<or> d_Action d = ''increase_short'')
     in
     if d_Leverage d \<le> 0 \<or> d_Leverage d > maxLeverage
       then Some (LeverageOutOfRange maxLeverage (d_Leverage d))
     else if d_PositionSizeUSD d \<le> 0
       then Some (PositionSizeNotPositive (d_PositionSizeUSD d))
     else if d_PositionSizeUSD d > maxPositionValue + tolerance
       then Some (PositionValueTooLarge maxPositionValue (d_PositionSizeUSD d))
     else if d_EntryPrice d \<le> 0
       then Some (EntryPriceNotPositive (d_EntryPrice d))
     else if d_StopLoss d \<le> 0 \<or> d_TakeProfit d \<le> 0
       then Some StopOrTargetNotPositive
     else if TrimSpace (d_InvalidationCondition d) = ''''
       then Some MissingInvalidationCondition
     else if isLong \<and> d_StopLoss d \<ge> d_EntryPrice d
       then Some (LongStopNotBelowEntry (d_StopLoss d) (d_EntryPrice d))
     else if isLong \<and> d_TakeProfit d \<le> d_EntryPrice d
       then Some (LongTargetNotAboveEntry (d_TakeProfit d) (d_EntryPrice d))
     else if \<not> isLong \<and> isShort \<and> d_StopLoss d \<le> d_EntryPrice d
       then Some (ShortStopNotAboveEntry (d_StopLoss d) (d_EntryPrice d))
     else if \<not> isLong \<and> isShort \<and> d_TakeProfit d \<ge> d_EntryPrice d
       then Some (ShortTargetNotBelowEntry (d_TakeProfit d) (d_EntryPrice d))
     else
       let riskPercent =
             (if isLong then (d_EntryPrice d - d_StopLoss d) / d_EntryPrice d * 100
              else if isShort then (d_StopLoss d - d_EntryPrice d) / d_EntryPrice d * 100
              else 0);
           rewardPercent =
             (if isLong then (d_TakeProfit d - d_EntryPrice d) / d_EntryPrice d * 100
              else if isShort then (d_EntryPrice d - d_TakeProfit d) / d_EntryPrice d * 100
              else 0);
           riskRewardRatio =
             (if (isLong \<or> isShort) \<and> riskPercent > 0 then rewardPercent / riskPercent else 0)
       in if riskRewardRatio < 2.0 then Some (RiskRewardTooLow riskRewardRatio) else None)"

definition checkDecrease :: "Decision \<Rightarrow> error option" where
  "checkDecrease d =
    (if d_PositionSizeUSD d \<le> 0 then Some (DecreaseSizeNotPositive (d_PositionSizeUSD d))
     else if TrimSpace (d_Reasoning d) = '''' then Some DecreaseMissingReasoning
     else None)"

definition checkUpdateLossProfit :: "Decision \<Rightarrow> error option" where
  "checkUpdateLossProfit d =
    (if d_StopLoss d \<le> 0 \<or> d_TakeProfit d \<le> 0 then Some UpdateStopOrTargetNotPositive
     else if TrimSpace (d_Reasoning d) = '''' then Some UpdateMissingReasoning
     else None)"

definition validateDecision :: "Decision \<Rightarrow> real \<Rightarrow> int \<Rightarrow> int \<Rightarrow> error option" where
  "validateDecision d accountEquity btcEthLeverage altcoinLeverage =
    (if d_Action d \<notin> set validActions then Some (InvalidAction (d_Action d))
     else
       case (if d_Action d = ''open_long'' \<or> d_Action d = ''open_short''
                \<or> d_Action d = ''increase_long'' \<or> d_Action d = ''increase_short''
             then checkOpenOrIncrease d accountEquity btcEthLeverage altcoinLeverage
             else None) of
         Some e \<Rightarrow> Some e
       | None \<Rightarrow>
          (case (if d_Action d = ''decrease_long'' \<or> d_Action d = ''decrease_short''
                 then checkDecrease d else None) of
             Some e \<Rightarrow> Some e
           | None \<Rightarrow>
              (if d_Action d = ''update_loss_profit'' then checkUpdateLossProfit d else None)))"

subsection \<open>validateDecisions and parseFullDecisionResponse\<close>

text \<open>
  \<open>validateDecisions\<close> walks the batch and returns at the first decision that fails,
  wrapping its error with the one-based index of the decision.
\<close>

fun validateDecisionsFrom :: "nat \<Rightarrow> Decision list \<Rightarrow> real \<Rightarrow> int \<Rightarrow> int \<Rightarrow> error option" where
  "validateDecisionsFrom i [] accountEquity btcEthLeverage altcoinLeverage = None"
| "validateDecisionsFrom i (decision # rest) accountEquity btcEthLeverage altcoinLeverage =
    (case validateDecision decision accountEquity btcEthLeverage altcoinLeverage of
       Some err \<Rightarrow> Some (DecisionInvalid (i + 1) err)
     | None \<Rightarrow> validateDecisionsFrom (i + 1) rest accountEquity btcEthLeverage altcoinLeverage)"

definition validateDecisions :: "Decision list \<Rightarrow> real \<Rightarrow> int \<Rightarrow> int \<Rightarrow> error option" where
  "validateDecisions decisions accountEquity btcEthLeverage altcoinLeverage =
     validateDecisionsFrom 0 decisions accountEquity btcEthLeverage altcoinLeverage"

text \<open>
  \<open>parseFullDecisionResponse\<close> extracts the JSON array of decisions from the reply of
  the model and validates it. The extraction (\<open>extractDecisions\<close>, built on
  \<open>encoding/json\<close>) is a parameter: it maps the reply to the decoded batch or fails.
  Of the \<open>FullDecision\<close> only the batch is kept (the chain of thought and the prompt
  are logging data). The result is the \<open>FullDecision\<close> together with the error.
\<close>

definition parseFullDecisionResponse ::
  "(string \<Rightarrow> error + Decision list) \<Rightarrow> string \<Rightarrow> real \<Rightarrow> int \<Rightarrow> int \<Rightarrow> Decision list \<times> error option" where
  "parseFullDecisionResponse extract aiResponse accountEquity btcEthLeverage altcoinLeverage =
    (case extract aiResponse of
       Inl err \<Rightarrow> ([], Some ExtractFailed)
     | Inr decisions \<Rightarrow>
        (case validateDecisions decisions accountEquity btcEthLeverage altcoinLeverage of
           Some err \<Rightarrow> (decisions, Some (ValidationFailed err))
         | None \<Rightarrow> (decisions, None)))"

subsection \<open>The trading context\<close>

record PositionInfo =
  pos_Symbol :: string
  pos_Side :: string
  pos_EntryPrice :: real
  pos_MarkPrice :: real
  pos_Quantity :: real
  pos_Leverage :: int
  pos_UnrealizedPnL :: real
  pos_UnrealizedPnLPct :: real
  pos_LiquidationPrice :: real
  pos_MarginUsed :: real
  pos_UpdateTime :: int
  pos_InvalidationCondition :: string
  pos_Reasoning :: string
  pos_MaxProfitPct :: real
  pos_MaxLossPct :: real
  pos_DrawdownFromPeakPct :: real
  pos_StopLossPrice :: real
  pos_TakeProfitPrice :: real

record AccountInfo =
  acc_TotalEquity :: real
  acc_AvailableBalance :: real
  acc_TotalPnL :: real
  acc_TotalPnLPct :: real
  acc_MarginUsed :: real
  acc_MarginUsedPct :: real
  acc_PositionCount :: nat

text \<open>
  Of \<open>Context\<close> the fields that only feed the prompt (\<open>CurrentTime\<close>,
  \<open>RuntimeMinutes\<close>, the market data maps, \<open>Performance\<close>) are left out; a candidate
  coin is its symbol.
\<close>

record Context =
  ctx_CallCount :: int
  ctx_Account :: AccountInfo
  ctx_Positions :: "PositionInfo list"
  ctx_CandidateCoins :: "string list"
  ctx_BTCETHLeverage :: int
  ctx_AltcoinLeverage :: int
  ctx_ScanIntervalMinutes :: int

section \<open>Package trader: the automatic trader\<close>

subsection \<open>Configuration and state\<close>

record AutoTraderConfig =
  cfg_ScanIntervalMinutes :: int
  cfg_BTCETHLeverage :: int
  cfg_AltcoinLeverage :: int
  cfg_EnableTrailingStop :: bool
  cfg_TrailingStopDistance :: real
  cfg_TrailingStopActivation :: real
  cfg_EnablePartialTakeProfit :: bool
  cfg_EnableExponentialBackoff :: bool
  cfg_BackoffBaseMinutes :: int
  cfg_BackoffMultiplier :: real
  cfg_BackoffMaxMinutes :: int
  cfg_BackoffResetHours :: int

record PnLTracking =
  trk_MaxProfitPct :: real
  trk_MaxLossPct :: real
  trk_TakeProfitPrice :: real
  trk_StopLossPrice :: real
  trk_EntryPrice :: real
  trk_PartialTP50Executed :: bool
  trk_PartialTP100Executed :: bool
  trk_TrailingStopActivated :: bool

text \<open>
  What the exchange reports: the balance map (each field may be missing, the source
  then keeps \<open>0.0\<close>) and one map per position (\<open>leverage\<close> may be missing, the other
  fields are read with unchecked type assertions and are taken as present).
\<close>

record Balance =
  bal_totalWalletBalance :: "real option"
  bal_totalUnrealizedProfit :: "real option"
  bal_availableBalance :: "real option"

record VenuePosition =
  vp_symbol :: string
  vp_side :: string
  vp_entryPrice :: real
  vp_markPrice :: real
  vp_positionAmt :: real
  vp_unRealizedProfit :: real
  vp_liquidationPrice :: real
  vp_leverage :: "real option"

text \<open>The records handed to the decision logger, without their free-text fields.\<close>

record DecisionAction =
  da_Action :: string
  da_Symbol :: string
  da_Quantity :: real
  da_Leverage :: int
  da_Price :: real
  da_Success :: bool
  da_Error :: "error option"

record DecisionRecord =
  rec_Success :: bool
  rec_ErrorMessage :: "error option"
  rec_Decisions :: "DecisionAction list"

text \<open>
  Every interaction with the outside is written to a trace, in order: the calls of the
  \<open>Trader\<close> interface, of \<open>market.Get\<close>, of the coin pool, of the model and of the
  decision logger. \<open>EnterProfitLossPass\<close> marks the entry into
  \<open>checkTrailingStopAndPartialTP\<close>; it has no counterpart in the source.
\<close>

datatype Event =
    CallGetBalance
  | CallGetPositions
  | CallOpenLong string real int
  | CallOpenShort string real int
  | CallCloseLong string real
  | CallCloseShort string real
  | CallSetStopLoss string string real real
  | CallSetTakeProfit string string real real
  | CallMarketGet string
  | CallGetMergedCoinPool
  | CallAI
  | CallLogDecision DecisionRecord
  | EnterProfitLossPass

text \<open>
  The collaborators of the trader are not part of the modelled code: the \<open>Trader\<close>
  interface (the exchange), \<open>market.Get\<close>, \<open>pool.GetMergedCoinPool\<close>, the model behind
  \<open>mcp.Client\<close>, the decision logger and the clock. They are parameters: an environment
  of operations over a state \<open>'w\<close> of the outside world, each returning its answer and
  the next state of the world. \<open>CloseLong\<close> and \<open>CloseShort\<close> take the quantity to close,
  \<open>0\<close> meaning the whole position. \<open>market_Get\<close> answers with \<open>CurrentPrice\<close>.
\<close>

record 'w Env =
  trader_GetBalance :: "'w \<Rightarrow> (error + Balance) \<times> 'w"
  trader_GetPositions :: "'w \<Rightarrow> (error + VenuePosition list) \<times> 'w"
  trader_OpenLong :: "string \<Rightarrow> real \<Rightarrow> int \<Rightarrow> 'w \<Rightarrow> error option \<times> 'w"
  trader_OpenShort :: "string \<Rightarrow> real \<Rightarrow> int \<Rightarrow> 'w \<Rightarrow> error option \<times> 'w"
  trader_CloseLong :: "string \<Rightarrow> real \<Rightarrow> 'w \<Rightarrow> error option \<times> 'w"
  trader_CloseShort :: "string \<Rightarrow> real \<Rightarrow> 'w \<Rightarrow> error option \<times> 'w"
  trader_SetStopLoss :: "string \<Rightarrow> string \<Rightarrow> real \<Rightarrow> real \<Rightarrow> 'w \<Rightarrow> error option \<times> 'w"
  trader_SetTakeProfit :: "string \<Rightarrow> string \<Rightarrow> real \<Rightarrow> real \<Rightarrow> 'w \<Rightarrow> error option \<times> 'w"
  market_Get :: "string \<Rightarrow> 'w \<Rightarrow> (error + real) \<times> 'w"
  pool_GetMergedCoinPool :: "'w \<Rightarrow> (error + string list) \<times> 'w"
  ai_Call :: "Context \<Rightarrow> 'w \<Rightarrow> (error + string) \<times> 'w"
  json_extractDecisions :: "string \<Rightarrow> error + Decision list"
  logger_LogDecision :: "DecisionRecord \<Rightarrow> 'w \<Rightarrow> 'w"
  time_Now :: "'w \<Rightarrow> int"

text \<open>
  The receiver \<open>at *AutoTrader\<close>. The Go maps are association lists with distinct keys
  (\<open>map_of\<close> reads, \<open>AList.update\<close> writes, \<open>AList.delete\<close> deletes); a \<open>range\<close> over a
  map visits the entries in list order, where Go leaves the order open. \<open>at_world\<close> is
  the state of the world behind \<open>at.trader\<close>, \<open>at.mcpClient\<close> and \<open>at.decisionLogger\<close>,
  and \<open>at_trace\<close> the trace of the interactions so far.
\<close>

record 'w AutoTrader =
  at_config :: AutoTraderConfig
  at_initialBalance :: real
  at_dailyPnL :: real
  at_lastResetTime :: int
  at_stopUntil :: int
  at_callCount :: int
  at_positionFirstSeenTime :: "(string \<times> int) list"
  at_positionInvalidationConditions :: "(string \<times> string) list"
  at_positionReasonings :: "(string \<times> string) list"
  at_positionPnLTracking :: "(string \<times> PnLTracking) list"
  at_stopLossCount :: int
  at_lastStopLossTime :: int
  at_backoffUntil :: int
  at_lastTotalEquity :: real
  at_world :: 'w
  at_trace :: "Event list"

subsection \<open>Calls of the collaborators\<close>

text \<open>Each call hands the world to the collaborator and appends itself to the trace.\<close>

definition callGetBalance :: "'w Env \<Rightarrow> 'w AutoTrader \<Rightarrow> (error + Balance) \<times> 'w AutoTrader" where
  "callGetBalance E s =
    (case trader_GetBalance E (at_world s) of
       (r, w) \<Rightarrow> (r, s\<lparr>at_world := w, at_trace := at_trace s @ [CallGetBalance]\<rparr>))"

definition callGetPositions :: "'w Env \<Rightarrow> 'w AutoTrader \<Rightarrow> (error + VenuePosition list) \<times> 'w AutoTrader" where
  "callGetPositions E s =
    (case trader_GetPositions E (at_world s) of
       (r, w) \<Rightarrow> (r, s\<lparr>at_world := w, at_trace := at_trace s @ [CallGetPositions]\<rparr>))"

definition callOpenLong :: "'w Env \<Rightarrow> string \<Rightarrow> real \<Rightarrow> int \<Rightarrow> 'w AutoTrader \<Rightarrow> error option \<times> 'w AutoTrader" where
  "callOpenLong E symbol quantity leverage s =
    (case trader_OpenLong E symbol quantity leverage (at_world s) of
       (r, w) \<Rightarrow> (r, s\<lparr>at_world := w, at_trace := at_trace s @ [CallOpenLong symbol quantity leverage]\<rparr>))"

definition callOpenShort :: "'w Env \<Rightarrow> string \<Rightarrow> real \<Rightarrow> int \<Rightarrow> 'w AutoTrader \<Rightarrow> error option \<times> 'w AutoTrader" where
  "callOpenShort E symbol quantity leverage s =
    (case trader_OpenShort E symbol quantity leverage (at_world s) of
       (r, w) \<Rightarrow> (r, s\<lparr>at_world := w, at_trace := at_trace s @ [CallOpenShort symbol quantity leverage]\<rparr>))"

definition callCloseLong :: "'w Env \<Rightarrow> string \<Rightarrow> real \<Rightarrow> 'w AutoTrader \<Rightarrow> error option \<times> 'w AutoTrader" where
  "callCloseLong E symbol quantity s =
    (case trader_CloseLong E symbol quantity (at_world s) of
       (r, w) \<Rightarrow> (r, s\<lparr>at_world := w, at_trace := at_trace s @ [CallCloseLong symbol quantity]\<rparr>))"

definition callCloseShort :: "'w Env \<Rightarrow> string \<Rightarrow> real \<Rightarrow> 'w AutoTrader \<Rightarrow> error option \<times> 'w AutoTrader" where
  "callCloseShort E symbol quantity s =
    (case trader_CloseShort E symbol quantity (at_world s) of
       (r, w) \<Rightarrow> (r, s\<lparr>at_world := w, at_trace := at_trace s @ [CallCloseShort symbol quantity]\<rparr>))"

definition callSetStopLoss :: "'w Env \<Rightarrow> string \<Rightarrow> string \<Rightarrow> real \<Rightarrow> real \<Rightarrow> 'w AutoTrader \<Rightarrow> error option \<times> 'w AutoTrader" where
  "callSetStopLoss E symbol side quantity price s =
    (case trader_SetStopLoss E symbol side quantity price (at_world s) of
       (r, w) \<Rightarrow> (r, s\<lparr>at_world := w, at_trace := at_trace s @ [CallSetStopLoss symbol side quantity price]\<rparr>))"

definition callSetTakeProfit :: "'w Env \<Rightarrow> string \<Rightarrow> string \<Rightarrow> real \<Rightarrow> real \<Rightarrow> 'w AutoTrader \<Rightarrow> error option \<times> 'w AutoTrader" where
  "callSetTakeProfit E symbol side quantity price s =
    (case trader_SetTakeProfit E symbol side quantity price (at_world s) of
       (r, w) \<Rightarrow> (r, s\<lparr>at_world := w, at_trace := at_trace s @ [CallSetTakeProfit symbol side quantity price]\<rparr>))"

definition callMarketGet :: "'w Env \<Rightarrow> string \<Rightarrow> 'w AutoTrader \<Rightarrow> (error + real) \<times> 'w AutoTrader" where
  "callMarketGet E symbol s =
    (case market_Get E symbol (at_world s) of
       (r, w) \<Rightarrow> (r, s\<lparr>at_world := w, at_trace := at_trace s @ [CallMarketGet symbol]\<rparr>))"

definition callGetMergedCoinPool :: "'w Env \<Rightarrow> 'w AutoTrader \<Rightarrow> (error + string list) \<times> 'w AutoTrader" where
  "callGetMergedCoinPool E s =
    (case pool_GetMergedCoinPool E (at_world s) of
       (r, w) \<Rightarrow> (r, s\<lparr>at_world := w, at_trace := at_trace s @ [CallGetMergedCoinPool]\<rparr>))"

definition callAI :: "'w Env \<Rightarrow> Context \<Rightarrow> 'w AutoTrader \<Rightarrow> (error + string) \<times> 'w AutoTrader" where
  "callAI E ctx s =
    (case ai_Call E ctx (at_world s) of
       (r, w) \<Rightarrow> (r, s\<lparr>at_world := w, at_trace := at_trace s @ [CallAI]\<rparr>))"

definition callLogDecision :: "'w Env \<Rightarrow> DecisionRecord \<Rightarrow> 'w AutoTrader \<Rightarrow> 'w AutoTrader" where
  "callLogDecision E rcd s =
     s\<lparr>at_world := logger_LogDecision E rcd (at_world s),
       at_trace := at_trace s @ [CallLogDecision rcd]\<rparr>"

subsection \<open>GetFullDecision\<close>

text \<open>
  \<open>GetFullDecision\<close> fetches the market data, builds the prompts and calls the model
  (all of it the one call \<open>callAI\<close>, whose error is passed on), then parses and validates
  the reply. On every error it returns \<open>nil\<close> with the error; the batch that
  \<open>parseFullDecisionResponse\<close> returns beside a validation error is dropped.
\<close>

definition GetFullDecision :: "'w Env \<Rightarrow> Context \<Rightarrow> 'w AutoTrader \<Rightarrow> (error + Decision list) \<times> 'w AutoTrader" where
  "GetFullDecision E ctx s =
    (case callAI E ctx s of
       (Inl err, s') \<Rightarrow> (Inl err, s')
     | (Inr aiResponse, s') \<Rightarrow>
        (case parseFullDecisionResponse (json_extractDecisions E) aiResponse
                (acc_TotalEquity (ctx_Account ctx)) (ctx_BTCETHLeverage ctx) (ctx_AltcoinLeverage ctx) of
           (decision, Some err) \<Rightarrow> (Inl (ParseFailed err), s')
         | (decision, None) \<Rightarrow> (Inr decision, s')))"

subsection \<open>sortDecisionsByPriority\<close>

text \<open>
  The repository holds two automatic traders of package \<open>trader\<close>: the one with the
  loss circuit breaker and the automatic profit and loss control
  (\<open>src/unnamed/part_011\<close>) and the one with the actions to increase and to decrease a
  position and with the price-drift check (\<open>src/tradingview/test_curl.sh\<close>, from line
  104). The functions of the first keep their names; the functions of the second that
  are embedded carry the suffix \<open>_B\<close>.

  Both sequencers run the same two loops and differ in the table of priorities, the
  closure \<open>getActionPriority\<close> of the source: three classes in the first trader, six in
  the second.
\<close>

definition getActionPriority :: "string \<Rightarrow> int" where
  "getActionPriority action =
    (if action = ''close_long'' \<or> action = ''close_short'' then 1
     else if action = ''open_long'' \<or> action = ''open_short'' then 2
     else if action = ''hold'' \<or> action = ''wait'' then 3
     else 999)"

definition getActionPriority_B :: "string \<Rightarrow> int" where
  "getActionPriority_B action =
    (if action = ''decrease_long'' \<or> action = ''decrease_short'' then 1
     else if action = ''close_long'' \<or> action = ''close_short'' then 2
     else if action = ''update_loss_profit'' then 3
     else if action = ''increase_long'' \<or> action = ''increase_short'' then 4
     else if action = ''open_long'' \<or> action = ''open_short'' then 5
     else if action = ''hold'' \<or> action = ''wait'' then 6
     else 999)"

text \<open>
  The body of the inner loop: positions \<open>i\<close> and \<open>j\<close> are exchanged when the priority at
  \<open>i\<close> is greater. The two loops run over fixed index ranges, the length of the slice
  never changing; every index read is below the length. \<open>srt\<close> is the copy \<open>sorted\<close>
  of the source, \<open>priority\<close> its closure \<open>getActionPriority\<close>.
\<close>

definition swapIfGreater :: "(string \<Rightarrow> int) \<Rightarrow> nat \<Rightarrow> nat \<Rightarrow> Decision list \<Rightarrow> Decision list" where
  "swapIfGreater priority i j srt =
    (if priority (d_Action (srt ! i)) > priority (d_Action (srt ! j))
     then srt[i := srt ! j, j := srt ! i]
     else srt)"

definition sortInner :: "(string \<Rightarrow> int) \<Rightarrow> nat \<Rightarrow> Decision list \<Rightarrow> Decision list" where
  "sortInner priority i srt = fold (swapIfGreater priority i) [i + 1 ..< length srt] srt"

definition sortDecisionsByPriority :: "Decision list \<Rightarrow> Decision list" where
  "sortDecisionsByPriority decisions =
    (if length decisions \<le> 1 then decisions
     else fold (sortInner getActionPriority) [0 ..< length decisions - 1] decisions)"

definition sortDecisionsByPriority_B :: "Decision list \<Rightarrow> Decision list" where
  "sortDecisionsByPriority_B decisions =
    (if length decisions \<le> 1 then decisions
     else fold (sortInner getActionPriority_B) [0 ..< length decisions - 1] decisions)"

subsection \<open>buildTradingContext\<close>

text \<open>Go's conversion \<open>int(x)\<close> of a float: truncation towards zero.\<close>

definition truncateToInt :: "real \<Rightarrow> int" where
  "truncateToInt x = (if 0 \<le> x then \<lfloor>x\<rfloor> else \<lceil>x\<rceil>)"

text \<open>A read of a Go map of strings: the empty string when the key is missing.\<close>

definition lookupString :: "(string \<times> string) list \<Rightarrow> string \<Rightarrow> string" where
  "lookupString m k = (case map_of m k of Some v \<Rightarrow> v | None \<Rightarrow> [])"

text \<open>\<open>time.Now().UnixMilli()\<close>, the clock counting nanoseconds.\<close>

definition unixMilli :: "int \<Rightarrow> int" where
  "unixMilli t = t div 1000000"

text \<open>The \<open>PnLTracking\<close> of a position seen for the first time: only the extremes are set.\<close>

definition newTracking :: "real \<Rightarrow> PnLTracking" where
  "newTracking pnlPct =
     \<lparr>trk_MaxProfitPct = pnlPct, trk_MaxLossPct = pnlPct,
      trk_TakeProfitPrice = 0, trk_StopLossPrice = 0, trk_EntryPrice = 0,
      trk_PartialTP50Executed = False, trk_PartialTP100Executed = False,
      trk_TrailingStopActivated = False\<rparr>"

text \<open>The profit or loss of a position in percent of its margin, leverage included.\<close>

definition pnlPercent :: "string \<Rightarrow> real \<Rightarrow> real \<Rightarrow> int \<Rightarrow> real" where
  "pnlPercent side entryPrice markPrice leverage =
    (if side = ''long''
     then ((markPrice - entryPrice) / entryPrice) * real_of_int leverage * 100
     else ((entryPrice - markPrice) / entryPrice) * real_of_int leverage * 100)"

text \<open>
  The tracking of the extremes: the entry of \<open>posKey\<close> is created when it is missing,
  then its greatest profit and its greatest loss are extended by the current value.
\<close>

definition trackPnL :: "string \<Rightarrow> real \<Rightarrow> (string \<times> PnLTracking) list \<Rightarrow> (string \<times> PnLTracking) list" where
  "trackPnL posKey pnlPct m =
    (let m1 = (if map_of m posKey = None then AList.update posKey (newTracking pnlPct) m else m);
         m2 = AList.map_entry posKey
                (\<lambda>tracking. if pnlPct > trk_MaxProfitPct tracking
                            then tracking\<lparr>trk_MaxProfitPct := pnlPct\<rparr> else tracking) m1
     in AList.map_entry posKey
          (\<lambda>tracking. if pnlPct < trk_MaxLossPct tracking
                      then tracking\<lparr>trk_MaxLossPct := pnlPct\<rparr> else tracking) m2)"

text \<open>
  The body of the loop over the positions the exchange reports. It carries the
  \<open>PositionInfo\<close> list built so far, the margin used so far and the trader, whose maps
  \<open>positionFirstSeenTime\<close> and \<open>positionPnLTracking\<close> it fills.
\<close>

definition trackPosition ::
  "'w Env \<Rightarrow> VenuePosition \<Rightarrow> PositionInfo list \<times> real \<times> 'w AutoTrader
     \<Rightarrow> PositionInfo list \<times> real \<times> 'w AutoTrader" where
  "trackPosition E pos acc =
    (case acc of (positionInfos, totalMarginUsed, s) \<Rightarrow>
      let symbol = vp_symbol pos;
          side = vp_side pos;
          entryPrice = vp_entryPrice pos;
          markPrice = vp_markPrice pos;
          quantity = (if vp_positionAmt pos < 0 then - vp_positionAmt pos else vp_positionAmt pos);
          leverage = (case vp_leverage pos of Some lev \<Rightarrow> truncateToInt lev | None \<Rightarrow> 10);
          marginUsed = (quantity * markPrice) / real_of_int leverage;
          pnlPct = pnlPercent side entryPrice markPrice leverage;
          posKey = symbol @ ''_'' @ side;
          s1 = (if map_of (at_positionFirstSeenTime s) posKey = None
                then s\<lparr>at_positionFirstSeenTime :=
                        AList.update posKey (unixMilli (time_Now E (at_world s))) (at_positionFirstSeenTime s)\<rparr>
                else s);
          updateTime = (case map_of (at_positionFirstSeenTime s1) posKey of Some t \<Rightarrow> t | None \<Rightarrow> 0);
          invalidationCondition = lookupString (at_positionInvalidationConditions s1) symbol;
          s2 = s1\<lparr>at_positionPnLTracking := trackPnL posKey pnlPct (at_positionPnLTracking s1)\<rparr>;
          tracking = (case map_of (at_positionPnLTracking s2) posKey of
                        Some t \<Rightarrow> t | None \<Rightarrow> newTracking pnlPct);
          drawdownFromPeakPct =
            (if trk_MaxProfitPct tracking > 0 then trk_MaxProfitPct tracking - pnlPct else 0);
          openingReason = lookupString (at_positionReasonings s2) symbol
      in (positionInfos @
            [\<lparr>pos_Symbol = symbol, pos_Side = side, pos_EntryPrice = entryPrice,
              pos_MarkPrice = markPrice, pos_Quantity = quantity, pos_Leverage = leverage,
              pos_UnrealizedPnL = vp_unRealizedProfit pos, pos_UnrealizedPnLPct = pnlPct,
              pos_LiquidationPrice = vp_liquidationPrice pos, pos_MarginUsed = marginUsed,
              pos_UpdateTime = updateTime, pos_InvalidationCondition = invalidationCondition,
              pos_Reasoning = openingReason,
              pos_MaxProfitPct = trk_MaxProfitPct tracking, pos_MaxLossPct = trk_MaxLossPct tracking,
              pos_DrawdownFromPeakPct = drawdownFromPeakPct,
              pos_StopLossPrice = trk_StopLossPrice tracking,
              pos_TakeProfitPrice = trk_TakeProfitPrice tracking\<rparr>],
          totalMarginUsed + marginUsed, s2))"

text \<open>
  The clean-up loops: a key of \<open>positionFirstSeenTime\<close> that is no longer a live
  position is deleted there and in \<open>positionPnLTracking\<close>; a symbol without a live
  position loses its invalidation condition and its opening reason.
\<close>

definition forgetClosedKey :: "string list \<Rightarrow> string \<Rightarrow> 'w AutoTrader \<Rightarrow> 'w AutoTrader" where
  "forgetClosedKey currentPositionKeys key s =
    (if key \<notin> set currentPositionKeys
     then s\<lparr>at_positionFirstSeenTime := AList.delete key (at_positionFirstSeenTime s),
            at_positionPnLTracking := AList.delete key (at_positionPnLTracking s)\<rparr>
     else s)"

definition forgetClosedSymbols :: "string list \<Rightarrow> 'w AutoTrader \<Rightarrow> 'w AutoTrader" where
  "forgetClosedSymbols currentSymbols s =
     s\<lparr>at_positionInvalidationConditions :=
         fold (\<lambda>symbol m. if symbol \<notin> set currentSymbols then AList.delete symbol m else m)
           (map fst (at_positionInvalidationConditions s)) (at_positionInvalidationConditions s),
       at_positionReasonings :=
         fold (\<lambda>symbol m. if symbol \<notin> set currentSymbols then AList.delete symbol m else m)
           (map fst (at_positionReasonings s)) (at_positionReasonings s)\<rparr>"

text \<open>
  \<open>buildTradingContext\<close>. The analysis of the past performance cannot fail the
  function and only feeds the prompt; it is left out. An error of the coin pool is
  returned after the maps of the trader have been brought up to date.
\<close>

definition buildTradingContext :: "'w Env \<Rightarrow> 'w AutoTrader \<Rightarrow> (error + Context) \<times> 'w AutoTrader" where
  "buildTradingContext E s =
    (case callGetBalance E s of
       (Inl err, s1) \<Rightarrow> (Inl (GetBalanceFailed err), s1)
     | (Inr balance, s1) \<Rightarrow>
        let totalWalletBalance = (case bal_totalWalletBalance balance of Some v \<Rightarrow> v | None \<Rightarrow> 0);
            totalUnrealizedProfit = (case bal_totalUnrealizedProfit balance of Some v \<Rightarrow> v | None \<Rightarrow> 0);
            availableBalance = (case bal_availableBalance balance of Some v \<Rightarrow> v | None \<Rightarrow> 0);
            totalEquity = totalWalletBalance + totalUnrealizedProfit
        in
        (case callGetPositions E s1 of
           (Inl err, s2) \<Rightarrow> (Inl (GetPositionsFailed err), s2)
         | (Inr positions, s2) \<Rightarrow>
            (case fold (trackPosition E) positions ([], 0, s2) of
               (positionInfos, totalMarginUsed, s3) \<Rightarrow>
                let currentPositionKeys = map (\<lambda>pos. vp_symbol pos @ ''_'' @ vp_side pos) positions;
                    s4 = fold (forgetClosedKey currentPositionKeys)
                           (map fst (at_positionFirstSeenTime s3)) s3;
                    s5 = forgetClosedSymbols (map vp_symbol positions) s4
                in
                (case callGetMergedCoinPool E s5 of
                   (Inl err, s6) \<Rightarrow> (Inl (GetCoinPoolFailed err), s6)
                 | (Inr allSymbols, s6) \<Rightarrow>
                    let totalPnL = totalEquity - at_initialBalance s6;
                        totalPnLPct = (if at_initialBalance s6 > 0
                                       then (totalPnL / at_initialBalance s6) * 100 else 0);
                        marginUsedPct = (if totalEquity > 0
                                         then (totalMarginUsed / totalEquity) * 100 else 0)
                    in (Inr \<lparr>ctx_CallCount = at_callCount s6,
                              ctx_Account =
                                \<lparr>acc_TotalEquity = totalEquity,
                                 acc_AvailableBalance = availableBalance,
                                 acc_TotalPnL = totalPnL,
                                 acc_TotalPnLPct = totalPnLPct,
                                 acc_MarginUsed = totalMarginUsed,
                                 acc_MarginUsedPct = marginUsedPct,
                                 acc_PositionCount = length positionInfos\<rparr>,
                              ctx_Positions = positionInfos,
                              ctx_CandidateCoins = allSymbols,
                              ctx_BTCETHLeverage = cfg_BTCETHLeverage (at_config s6),
                              ctx_AltcoinLeverage = cfg_AltcoinLeverage (at_config s6),
                              ctx_ScanIntervalMinutes = cfg_ScanIntervalMinutes (at_config s6)\<rparr>,
                        s6)))))"

subsection \<open>checkStopLossTriggered\<close>

text \<open>\<open>strings.Split\<close> with a separator of one byte.\<close>

fun Split :: "string \<Rightarrow> char \<Rightarrow> string list" where
  "Split [] sep = [[]]"
| "Split (c # cs) sep =
    (if c = sep then [] # Split cs sep
     else (case Split cs sep of p # ps \<Rightarrow> (c # p) # ps | [] \<Rightarrow> [[c]]))"

text \<open>
  The pause after the \<open>stopLossCount\<close>-th stop: the base is multiplied
  \<open>stopLossCount - 1\<close> times, the result capped, and its whole minutes
  (\<open>time.Duration(backoffMinutes) * time.Minute\<close>) are returned in nanoseconds, a
  product of two \<open>int64\<close>. The capped value is at most \<open>BackoffMaxMinutes\<close>, an \<open>int\<close>,
  so the conversion of the float stays in range.
\<close>

definition backoffMinutes :: "AutoTraderConfig \<Rightarrow> int \<Rightarrow> real" where
  "backoffMinutes cfg stopLossCount =
    (let m = real_of_int (cfg_BackoffBaseMinutes cfg)
               * cfg_BackoffMultiplier cfg ^ nat (stopLossCount - 1)
     in if m > real_of_int (cfg_BackoffMaxMinutes cfg)
        then real_of_int (cfg_BackoffMaxMinutes cfg) else m)"

text \<open>The value an \<open>int64\<close> holds after an arithmetic operation whose exact result is \<open>x\<close>.\<close>

definition wrapInt64 :: "int \<Rightarrow> int" where
  "wrapInt64 x = (x + 2 ^ 63) mod 2 ^ 64 - 2 ^ 63"

definition backoffDuration :: "AutoTraderConfig \<Rightarrow> int \<Rightarrow> int" where
  "backoffDuration cfg stopLossCount =
     wrapInt64 (truncateToInt (backoffMinutes cfg stopLossCount) * 60000000000)"

text \<open>
  The classification of a vanished position, the variable \<open>isStopLoss\<close> of the source:
  with a recorded stop price, the current price must be within 5% of it on the losing
  side; without one but with a recorded entry price, a price on the profitable side of
  the entry clears the position; with neither price the position counts as stopped.
\<close>

definition isStopLoss :: "string \<Rightarrow> real \<Rightarrow> PnLTracking \<Rightarrow> bool" where
  "isStopLoss side currentPrice tracking =
    (if trk_StopLossPrice tracking > 0 then
       (if side = ''long'' then currentPrice \<le> trk_StopLossPrice tracking * 1.05
        else currentPrice \<ge> trk_StopLossPrice tracking * 0.95)
     else if trk_EntryPrice tracking > 0 then
       \<not> (if side = ''long'' then currentPrice > trk_EntryPrice tracking
          else currentPrice < trk_EntryPrice tracking)
     else True)"

text \<open>
  The body of the loop over the tracked keys, for the entry \<open>(posKey, tracking)\<close>. A
  key that is still live, a key that does not split into symbol and side, and a key
  whose price cannot be fetched are skipped; so is every key when the equity has not
  decreased.
\<close>

definition checkClosedPosition ::
  "'w Env \<Rightarrow> string list \<Rightarrow> bool \<Rightarrow> string \<times> PnLTracking \<Rightarrow> 'w AutoTrader \<Rightarrow> 'w AutoTrader" where
  "checkClosedPosition E currentPositionKeys equityDecreased entry s =
    (case entry of (posKey, tracking) \<Rightarrow>
      if posKey \<in> set currentPositionKeys then s
      else
        let parts = Split posKey CHR ''_'' in
        if length parts \<noteq> 2 then s
        else
          let symbol = parts ! 0; side = parts ! 1 in
          (case callMarketGet E symbol s of
             (Inl err, s1) \<Rightarrow> s1
           | (Inr currentPrice, s1) \<Rightarrow>
              if \<not> equityDecreased then s1
              else if isStopLoss side currentPrice tracking then
                s1\<lparr>at_stopLossCount := at_stopLossCount s1 + 1,
                   at_lastStopLossTime := time_Now E (at_world s1),
                   at_backoffUntil := time_Now E (at_world s1)
                      + backoffDuration (at_config s1) (at_stopLossCount s1 + 1)\<rparr>
              else s1))"

definition checkStopLossTriggered :: "'w Env \<Rightarrow> Context \<Rightarrow> 'w AutoTrader \<Rightarrow> 'w AutoTrader" where
  "checkStopLossTriggered E ctx s =
    (if \<not> cfg_EnableExponentialBackoff (at_config s) then s
     else
       let currentPositionKeys = map (\<lambda>pos. pos_Symbol pos @ ''_'' @ pos_Side pos) (ctx_Positions ctx);
           currentEquity = acc_TotalEquity (ctx_Account ctx);
           equityDecreased = (at_lastTotalEquity s > 0 \<and> currentEquity < at_lastTotalEquity s);
           s1 = fold (checkClosedPosition E currentPositionKeys equityDecreased)
                  (at_positionPnLTracking s) s
       in s1\<lparr>at_lastTotalEquity := currentEquity\<rparr>)"

subsection \<open>checkTrailingStopAndPartialTP\<close>

definition executeTrailingStop ::
  "'w Env \<Rightarrow> PositionInfo \<Rightarrow> DecisionRecord \<Rightarrow> 'w AutoTrader \<Rightarrow> error option \<times> DecisionRecord \<times> 'w AutoTrader" where
  "executeTrailingStop E pos rcd s =
    (let actionRecord =
           \<lparr>da_Action = ''trailing_stop_'' @ pos_Side pos, da_Symbol = pos_Symbol pos,
            da_Quantity = pos_Quantity pos, da_Leverage = 0, da_Price = pos_MarkPrice pos,
            da_Success = False, da_Error = None\<rparr>
     in case (if pos_Side pos = ''long'' then callCloseLong E (pos_Symbol pos) 0 s
              else callCloseShort E (pos_Symbol pos) 0 s) of
          (Some err, s1) \<Rightarrow>
            (Some err,
             rcd\<lparr>rec_Decisions := rec_Decisions rcd @ [actionRecord\<lparr>da_Error := Some err\<rparr>]\<rparr>, s1)
        | (None, s1) \<Rightarrow>
            (None,
             rcd\<lparr>rec_Decisions := rec_Decisions rcd @ [actionRecord\<lparr>da_Success := True\<rparr>]\<rparr>, s1))"

definition executePartialTakeProfit ::
  "'w Env \<Rightarrow> PositionInfo \<Rightarrow> real \<Rightarrow> DecisionRecord \<Rightarrow> 'w AutoTrader
     \<Rightarrow> error option \<times> DecisionRecord \<times> 'w AutoTrader" where
  "executePartialTakeProfit E pos closeRatio rcd s =
    (let closeQuantity = pos_Quantity pos * closeRatio;
         actionRecord =
           \<lparr>da_Action = ''partial_tp_'' @ pos_Side pos, da_Symbol = pos_Symbol pos,
            da_Quantity = closeQuantity, da_Leverage = 0, da_Price = pos_MarkPrice pos,
            da_Success = False, da_Error = None\<rparr>
     in case (if pos_Side pos = ''long'' then callCloseLong E (pos_Symbol pos) closeQuantity s
              else callCloseShort E (pos_Symbol pos) closeQuantity s) of
          (Some err, s1) \<Rightarrow>
            (Some err,
             rcd\<lparr>rec_Decisions := rec_Decisions rcd @ [actionRecord\<lparr>da_Error := Some err\<rparr>]\<rparr>, s1)
        | (None, s1) \<Rightarrow>
            (None,
             rcd\<lparr>rec_Decisions := rec_Decisions rcd @ [actionRecord\<lparr>da_Success := True\<rparr>]\<rparr>, s1))"

text \<open>
  A write through the pointer \<open>tracking\<close> changes the entry of \<open>posKey\<close> in
  \<open>positionPnLTracking\<close>.
\<close>

definition modifyTracking :: "string \<Rightarrow> (PnLTracking \<Rightarrow> PnLTracking) \<Rightarrow> 'w AutoTrader \<Rightarrow> 'w AutoTrader" where
  "modifyTracking posKey f s =
     s\<lparr>at_positionPnLTracking := AList.map_entry posKey f (at_positionPnLTracking s)\<rparr>"

text \<open>
  Part 1 of the loop body, the trailing stop, for a position whose \<open>tracking\<close> is
  present. The first component of the result tells whether the loop goes on to the next
  position (\<open>continue\<close>); the others are \<open>*hasExecuted\<close>, the record and the trader.
\<close>

definition trailingStopBlock ::
  "'w Env \<Rightarrow> PositionInfo \<Rightarrow> bool \<Rightarrow> DecisionRecord \<Rightarrow> 'w AutoTrader
     \<Rightarrow> bool \<times> bool \<times> DecisionRecord \<times> 'w AutoTrader" where
  "trailingStopBlock E pos hasExecuted rcd s =
    (let posKey = pos_Symbol pos @ ''_'' @ pos_Side pos in
     case map_of (at_positionPnLTracking s) posKey of
       None \<Rightarrow> (True, hasExecuted, rcd, s)
     | Some tracking \<Rightarrow>
        if \<not> cfg_EnableTrailingStop (at_config s) then (False, hasExecuted, rcd, s)
        else
          let activate = (\<not> trk_TrailingStopActivated tracking
                \<and> pos_UnrealizedPnLPct pos \<ge> cfg_TrailingStopActivation (at_config s) * 100);
              s1 = (if activate
                    then modifyTracking posKey (\<lambda>t. t\<lparr>trk_TrailingStopActivated := True\<rparr>) s
                    else s)
          in
          if trk_TrailingStopActivated tracking \<or> activate then
            let drawdownFromPeak = (trk_MaxProfitPct tracking - pos_UnrealizedPnLPct pos) / 100 in
            if drawdownFromPeak \<ge> cfg_TrailingStopDistance (at_config s) then
              (case executeTrailingStop E pos rcd s1 of
                 (Some err, rcd1, s2) \<Rightarrow> (True, hasExecuted, rcd1, s2)
               | (None, rcd1, s2) \<Rightarrow> (True, True, rcd1, s2))
            else (False, hasExecuted, rcd, s1)
          else (False, hasExecuted, rcd, s1))"

text \<open>The two targets of the partial take-profit and the test that a target is reached.\<close>

definition target50Price :: "string \<Rightarrow> PnLTracking \<Rightarrow> real" where
  "target50Price side tracking =
    (if side = ''long''
     then trk_EntryPrice tracking + (trk_TakeProfitPrice tracking - trk_EntryPrice tracking) * 0.5
     else trk_EntryPrice tracking - (trk_EntryPrice tracking - trk_TakeProfitPrice tracking) * 0.5)"

definition target100Price :: "string \<Rightarrow> PnLTracking \<Rightarrow> real" where
  "target100Price side tracking =
    (if side = ''long'' then trk_TakeProfitPrice tracking else trk_TakeProfitPrice tracking)"

definition reachedTarget :: "string \<Rightarrow> real \<Rightarrow> real \<Rightarrow> bool" where
  "reachedTarget side markPrice targetPrice =
    (if side = ''long'' \<and> markPrice \<ge> targetPrice then True
     else if side = ''short'' \<and> markPrice \<le> targetPrice then True
     else False)"

text \<open>
  Part 2 of the loop body, the partial take-profit. Both executions close
  \<open>pos.Quantity * 0.5\<close>, the quantity being the one of the snapshot taken when the
  context was built; a flag is set only when the exchange accepted the order.
\<close>

definition partialTakeProfitBlock ::
  "'w Env \<Rightarrow> PositionInfo \<Rightarrow> bool \<Rightarrow> DecisionRecord \<Rightarrow> 'w AutoTrader
     \<Rightarrow> bool \<times> DecisionRecord \<times> 'w AutoTrader" where
  "partialTakeProfitBlock E pos hasExecuted rcd s =
    (let posKey = pos_Symbol pos @ ''_'' @ pos_Side pos in
     case map_of (at_positionPnLTracking s) posKey of
       None \<Rightarrow> (hasExecuted, rcd, s)
     | Some tracking \<Rightarrow>
        if \<not> (cfg_EnablePartialTakeProfit (at_config s) \<and> trk_TakeProfitPrice tracking > 0)
        then (hasExecuted, rcd, s)
        else
          (case
             (if \<not> trk_PartialTP50Executed tracking
                  \<and> reachedTarget (pos_Side pos) (pos_MarkPrice pos) (target50Price (pos_Side pos) tracking)
              then (case executePartialTakeProfit E pos 0.5 rcd s of
                      (Some err, rcd1, s1) \<Rightarrow> (hasExecuted, rcd1, s1)
                    | (None, rcd1, s1) \<Rightarrow>
                        (True, rcd1,
                         modifyTracking posKey (\<lambda>t. t\<lparr>trk_PartialTP50Executed := True\<rparr>) s1))
              else (hasExecuted, rcd, s)) of
             (hasExecuted1, rcd1, s1) \<Rightarrow>
               if \<not> trk_PartialTP100Executed tracking
                    \<and> reachedTarget (pos_Side pos) (pos_MarkPrice pos) (target100Price (pos_Side pos) tracking)
               then (case executePartialTakeProfit E pos 0.5 rcd1 s1 of
                       (Some err, rcd2, s2) \<Rightarrow> (hasExecuted1, rcd2, s2)
                     | (None, rcd2, s2) \<Rightarrow>
                         (True, rcd2,
                          modifyTracking posKey (\<lambda>t. t\<lparr>trk_PartialTP100Executed := True\<rparr>) s2))
               else (hasExecuted1, rcd1, s1)))"

text \<open>The loop body: a position without tracking is skipped.\<close>

definition checkPosition ::
  "'w Env \<Rightarrow> PositionInfo \<Rightarrow> bool \<times> DecisionRecord \<times> 'w AutoTrader
     \<Rightarrow> bool \<times> DecisionRecord \<times> 'w AutoTrader" where
  "checkPosition E pos st =
    (case st of (hasExecuted, rcd, s) \<Rightarrow>
      (case map_of (at_positionPnLTracking s) (pos_Symbol pos @ ''_'' @ pos_Side pos) of
         None \<Rightarrow> (hasExecuted, rcd, s)
       | Some tracking \<Rightarrow>
          (case trailingStopBlock E pos hasExecuted rcd s of
             (True, st1) \<Rightarrow> st1
           | (False, hasExecuted1, rcd1, s1) \<Rightarrow> partialTakeProfitBlock E pos hasExecuted1 rcd1 s1)))"

text \<open>
  \<open>checkTrailingStopAndPartialTP\<close> returns no error on any path; the result is
  \<open>*hasExecuted\<close>, the record and the trader.
\<close>

definition checkTrailingStopAndPartialTP ::
  "'w Env \<Rightarrow> Context \<Rightarrow> DecisionRecord \<Rightarrow> bool \<Rightarrow> 'w AutoTrader
     \<Rightarrow> bool \<times> DecisionRecord \<times> 'w AutoTrader" where
  "checkTrailingStopAndPartialTP E ctx rcd hasExecuted s =
    (let s0 = s\<lparr>at_trace := at_trace s @ [EnterProfitLossPass]\<rparr> in
     if ctx_Positions ctx = [] then (hasExecuted, rcd, s0)
     else fold (checkPosition E) (ctx_Positions ctx) (hasExecuted, rcd, s0))"

subsection \<open>The dispatchers\<close>

text \<open>
  \<open>executeOpenLongWithRecord\<close> and \<open>executeOpenShortWithRecord\<close>. The live positions
  are read again first; the search for a position of the same symbol and side is made
  only when that read succeeded (\<open>if err == nil\<close>). The result is the error, the action
  record and the trader. The order id of the action record is left out.
\<close>

definition executeOpenLongWithRecord ::
  "'w Env \<Rightarrow> Decision \<Rightarrow> DecisionAction \<Rightarrow> 'w AutoTrader
     \<Rightarrow> error option \<times> DecisionAction \<times> 'w AutoTrader" where
  "executeOpenLongWithRecord E decision actionRecord s =
    (case callGetPositions E s of (posResult, s1) \<Rightarrow>
      if (case posResult of
            Inr positions \<Rightarrow>
              (\<exists>pos \<in> set positions. vp_symbol pos = d_Symbol decision \<and> vp_side pos = ''long'')
          | Inl err \<Rightarrow> False)
      then (Some (AntiStackingLong (d_Symbol decision)), actionRecord, s1)
      else
        (case callMarketGet E (d_Symbol decision) s1 of
           (Inl err, s2) \<Rightarrow> (Some err, actionRecord, s2)
         | (Inr currentPrice, s2) \<Rightarrow>
            let quantity = d_PositionSizeUSD decision / currentPrice;
                actionRecord1 = actionRecord\<lparr>da_Quantity := quantity, da_Price := currentPrice\<rparr>
            in
            (case callOpenLong E (d_Symbol decision) quantity (d_Leverage decision) s2 of
               (Some err, s3) \<Rightarrow> (Some err, actionRecord1, s3)
             | (None, s3) \<Rightarrow>
                let posKey = d_Symbol decision @ ''_long'';
                    s4 = s3\<lparr>at_positionFirstSeenTime :=
                              AList.update posKey (unixMilli (time_Now E (at_world s3)))
                                (at_positionFirstSeenTime s3),
                            at_positionInvalidationConditions :=
                              AList.update (d_Symbol decision) (d_InvalidationCondition decision)
                                (at_positionInvalidationConditions s3),
                            at_positionReasonings :=
                              AList.update (d_Symbol decision) (d_Reasoning decision)
                                (at_positionReasonings s3),
                            at_positionPnLTracking :=
                              AList.update posKey
                                \<lparr>trk_MaxProfitPct = 0, trk_MaxLossPct = 0,
                                 trk_TakeProfitPrice = d_TakeProfit decision,
                                 trk_StopLossPrice = d_StopLoss decision,
                                 trk_EntryPrice = currentPrice,
                                 trk_PartialTP50Executed = False,
                                 trk_PartialTP100Executed = False,
                                 trk_TrailingStopActivated = False\<rparr>
                                (at_positionPnLTracking s3)\<rparr>;
                    s5 = snd (callSetStopLoss E (d_Symbol decision) ''LONG'' quantity
                                (d_StopLoss decision) s4);
                    s6 = (if \<not> cfg_EnablePartialTakeProfit (at_config s5)
                          then snd (callSetTakeProfit E (d_Symbol decision) ''LONG'' quantity
                                      (d_TakeProfit decision) s5)
                          else s5)
                in (None, actionRecord1, s6))))"

definition executeOpenShortWithRecord ::
  "'w Env \<Rightarrow> Decision \<Rightarrow> DecisionAction \<Rightarrow> 'w AutoTrader
     \<Rightarrow> error option \<times> DecisionAction \<times> 'w AutoTrader" where
  "executeOpenShortWithRecord E decision actionRecord s =
    (case callGetPositions E s of (posResult, s1) \<Rightarrow>
      if (case posResult of
            Inr positions \<Rightarrow>
              (\<exists>pos \<in> set positions. vp_symbol pos = d_Symbol decision \<and> vp_side pos = ''short'')
          | Inl err \<Rightarrow> False)
      then (Some (AntiStackingShort (d_Symbol decision)), actionRecord, s1)
      else
        (case callMarketGet E (d_Symbol decision) s1 of
           (Inl err, s2) \<Rightarrow> (Some err, actionRecord, s2)
         | (Inr currentPrice, s2) \<Rightarrow>
            let quantity = d_PositionSizeUSD decision / currentPrice;
                actionRecord1 = actionRecord\<lparr>da_Quantity := quantity, da_Price := currentPrice\<rparr>
            in
            (case callOpenShort E (d_Symbol decision) quantity (d_Leverage decision) s2 of
               (Some err, s3) \<Rightarrow> (Some err, actionRecord1, s3)
             | (None, s3) \<Rightarrow>
                let posKey = d_Symbol decision @ ''_short'';
                    s4 = s3\<lparr>at_positionFirstSeenTime :=
                              AList.update posKey (unixMilli (time_Now E (at_world s3)))
                                (at_positionFirstSeenTime s3),
                            at_positionInvalidationConditions :=
                              AList.update (d_Symbol decision) (d_InvalidationCondition decision)
                                (at_positionInvalidationConditions s3),
                            at_positionReasonings :=
                              AList.update (d_Symbol decision) (d_Reasoning decision)
                                (at_positionReasonings s3),
                            at_positionPnLTracking :=
                              AList.update posKey
                                \<lparr>trk_MaxProfitPct = 0, trk_MaxLossPct = 0,
                                 trk_TakeProfitPrice = d_TakeProfit decision,
                                 trk_StopLossPrice = d_StopLoss decision,
                                 trk_EntryPrice = currentPrice,
                                 trk_PartialTP50Executed = False,
                                 trk_PartialTP100Executed = False,
                                 trk_TrailingStopActivated = False\<rparr>
                                (at_positionPnLTracking s3)\<rparr>;
                    s5 = snd (callSetStopLoss E (d_Symbol decision) ''SHORT'' quantity
                                (d_StopLoss decision) s4);
                    s6 = (if \<not> cfg_EnablePartialTakeProfit (at_config s5)
                          then snd (callSetTakeProfit E (d_Symbol decision) ''SHORT'' quantity
                                      (d_TakeProfit decision) s5)
                          else s5)
                in (None, actionRecord1, s6))))"

definition executeCloseLongWithRecord ::
  "'w Env \<Rightarrow> Decision \<Rightarrow> DecisionAction \<Rightarrow> 'w AutoTrader
     \<Rightarrow> error option \<times> DecisionAction \<times> 'w AutoTrader" where
  "executeCloseLongWithRecord E decision actionRecord s =
    (case callMarketGet E (d_Symbol decision) s of
       (Inl err, s1) \<Rightarrow> (Some err, actionRecord, s1)
     | (Inr currentPrice, s1) \<Rightarrow>
        (case callCloseLong E (d_Symbol decision) 0 s1 of
           (Some err, s2) \<Rightarrow> (Some err, actionRecord\<lparr>da_Price := currentPrice\<rparr>, s2)
         | (None, s2) \<Rightarrow> (None, actionRecord\<lparr>da_Price := currentPrice\<rparr>, s2)))"

definition executeCloseShortWithRecord ::
  "'w Env \<Rightarrow> Decision \<Rightarrow> DecisionAction \<Rightarrow> 'w AutoTrader
     \<Rightarrow> error option \<times> DecisionAction \<times> 'w AutoTrader" where
  "executeCloseShortWithRecord E decision actionRecord s =
    (case callMarketGet E (d_Symbol decision) s of
       (Inl err, s1) \<Rightarrow> (Some err, actionRecord, s1)
     | (Inr currentPrice, s1) \<Rightarrow>
        (case callCloseShort E (d_Symbol decision) 0 s1 of
           (Some err, s2) \<Rightarrow> (Some err, actionRecord\<lparr>da_Price := currentPrice\<rparr>, s2)
         | (None, s2) \<Rightarrow> (None, actionRecord\<lparr>da_Price := currentPrice\<rparr>, s2)))"

definition executeDecisionWithRecord ::
  "'w Env \<Rightarrow> Decision \<Rightarrow> DecisionAction \<Rightarrow> 'w AutoTrader
     \<Rightarrow> error option \<times> DecisionAction \<times> 'w AutoTrader" where
  "executeDecisionWithRecord E decision actionRecord s =
    (if d_Action decision = ''open_long'' then executeOpenLongWithRecord E decision actionRecord s
     else if d_Action decision = ''open_short'' then executeOpenShortWithRecord E decision actionRecord s
     else if d_Action decision = ''close_long'' then executeCloseLongWithRecord E decision actionRecord s
     else if d_Action decision = ''close_short'' then executeCloseShortWithRecord E decision actionRecord s
     else if d_Action decision = ''hold'' \<or> d_Action decision = ''wait'' then (None, actionRecord, s)
     else (Some (UnknownAction (d_Action decision)), actionRecord, s))"

subsection \<open>The dispatchers of the second trader\<close>

text \<open>
  \<open>executeOpenLongWithRecord\<close> and \<open>executeOpenShortWithRecord\<close> of the second trader
  (\<open>src/tradingview/test_curl.sh\<close>, 802 to 944). Its \<open>PnLTracking\<close> has five fields. Of
  its receiver, the four maps these functions write are kept, with the world behind
  \<open>at.trader\<close> and \<open>market.Get\<close> and the trace; \<open>call_B\<close> hands the world to a
  collaborator and appends the call to the trace.
\<close>

record PnLTracking_B =
  trkB_MaxProfitPct :: real
  trkB_MaxLossPct :: real
  trkB_TakeProfitPrice :: real
  trkB_StopLossPrice :: real
  trkB_EntryPrice :: real

record 'w AutoTrader_B =
  atB_positionFirstSeenTime :: "(string \<times> int) list"
  atB_positionInvalidationConditions :: "(string \<times> string) list"
  atB_positionReasonings :: "(string \<times> string) list"
  atB_positionPnLTracking :: "(string \<times> PnLTracking_B) list"
  atB_world :: 'w
  atB_trace :: "Event list"

definition call_B :: "('w \<Rightarrow> 'r \<times> 'w) \<Rightarrow> Event \<Rightarrow> 'w AutoTrader_B \<Rightarrow> 'r \<times> 'w AutoTrader_B" where
  "call_B collaborator event s =
    (case collaborator (atB_world s) of
       (r, w) \<Rightarrow> (r, s\<lparr>atB_world := w, atB_trace := atB_trace s @ [event]\<rparr>))"

text \<open>
  After the anti-stacking check and the fetch of the price, the price is compared with
  the entry price of the intent: \<open>priceDiff\<close> is the deviation in percent of the entry
  price, and a deviation above 3 or below -3 ends the dispatch with an error before the
  quantity is computed and the exchange is called. The bound 3 is a literal of the
  source. The order id of the action record is left out.
\<close>

definition executeOpenLongWithRecord_B ::
  "'w Env \<Rightarrow> Decision \<Rightarrow> DecisionAction \<Rightarrow> 'w AutoTrader_B
     \<Rightarrow> error option \<times> DecisionAction \<times> 'w AutoTrader_B" where
  "executeOpenLongWithRecord_B E decision actionRecord s =
    (case call_B (trader_GetPositions E) CallGetPositions s of (posResult, s1) \<Rightarrow>
      if (case posResult of
            Inr positions \<Rightarrow>
              (\<exists>pos \<in> set positions. vp_symbol pos = d_Symbol decision \<and> vp_side pos = ''long'')
          | Inl err \<Rightarrow> False)
      then (Some (AntiStackingLong (d_Symbol decision)), actionRecord, s1)
      else
        (case call_B (market_Get E (d_Symbol decision)) (CallMarketGet (d_Symbol decision)) s1 of
           (Inl err, s2) \<Rightarrow> (Some err, actionRecord, s2)
         | (Inr currentPrice, s2) \<Rightarrow>
            let priceDiff = (currentPrice - d_EntryPrice decision) / d_EntryPrice decision * 100 in
            if priceDiff > 3 \<or> priceDiff < - 3
            then (Some (PriceDrift priceDiff), actionRecord, s2)
            else
              let quantity = d_PositionSizeUSD decision / currentPrice;
                  actionRecord1 = actionRecord\<lparr>da_Quantity := quantity, da_Price := currentPrice\<rparr>
              in
              (case call_B (trader_OpenLong E (d_Symbol decision) quantity (d_Leverage decision))
                      (CallOpenLong (d_Symbol decision) quantity (d_Leverage decision)) s2 of
                 (Some err, s3) \<Rightarrow> (Some err, actionRecord1, s3)
               | (None, s3) \<Rightarrow>
                  let posKey = d_Symbol decision @ ''_long'';
                      s4 = s3\<lparr>atB_positionFirstSeenTime :=
                                AList.update posKey (unixMilli (time_Now E (atB_world s3)))
                                  (atB_positionFirstSeenTime s3),
                              atB_positionInvalidationConditions :=
                                AList.update (d_Symbol decision) (d_InvalidationCondition decision)
                                  (atB_positionInvalidationConditions s3),
                              atB_positionReasonings :=
                                AList.update (d_Symbol decision) (d_Reasoning decision)
                                  (atB_positionReasonings s3),
                              atB_positionPnLTracking :=
                                AList.update posKey
                                  \<lparr>trkB_MaxProfitPct = 0, trkB_MaxLossPct = 0,
                                   trkB_TakeProfitPrice = d_TakeProfit decision,
                                   trkB_StopLossPrice = d_StopLoss decision,
                                   trkB_EntryPrice = currentPrice\<rparr>
                                  (atB_positionPnLTracking s3)\<rparr>;
                      s5 = snd (call_B (trader_SetStopLoss E (d_Symbol decision) ''LONG'' quantity
                                          (d_StopLoss decision))
                                  (CallSetStopLoss (d_Symbol decision) ''LONG'' quantity
                                     (d_StopLoss decision)) s4);
                      s6 = snd (call_B (trader_SetTakeProfit E (d_Symbol decision) ''LONG'' quantity
                                          (d_TakeProfit decision))
                                  (CallSetTakeProfit (d_Symbol decision) ''LONG'' quantity
                                     (d_TakeProfit decision)) s5)
                  in (None, actionRecord1, s6))))"

definition executeOpenShortWithRecord_B ::
  "'w Env \<Rightarrow> Decision \<Rightarrow> DecisionAction \<Rightarrow> 'w AutoTrader_B
     \<Rightarrow> error option \<times> DecisionAction \<times> 'w AutoTrader_B" where
  "executeOpenShortWithRecord_B E decision actionRecord s =
    (case call_B (trader_GetPositions E) CallGetPositions s of (posResult, s1) \<Rightarrow>
      if (case posResult of
            Inr positions \<Rightarrow>
              (\<exists>pos \<in> set positions. vp_symbol pos = d_Symbol decision \<and> vp_side pos = ''short'')
          | Inl err \<Rightarrow> False)
      then (Some (AntiStackingShort (d_Symbol decision)), actionRecord, s1)
      else
        (case call_B (market_Get E (d_Symbol decision)) (CallMarketGet (d_Symbol decision)) s1 of
           (Inl err, s2) \<Rightarrow> (Some err, actionRecord, s2)
         | (Inr currentPrice, s2) \<Rightarrow>
            let priceDiff = (currentPrice - d_EntryPrice decision) / d_EntryPrice decision * 100 in
            if priceDiff > 3 \<or> priceDiff < - 3
            then (Some (PriceDrift priceDiff), actionRecord, s2)
            else
              let quantity = d_PositionSizeUSD decision / currentPrice;
                  actionRecord1 = actionRecord\<lparr>da_Quantity := quantity, da_Price := currentPrice\<rparr>
              in
              (case call_B (trader_OpenShort E (d_Symbol decision) quantity (d_Leverage decision))
                      (CallOpenShort (d_Symbol decision) quantity (d_Leverage decision)) s2 of
                 (Some err, s3) \<Rightarrow> (Some err, actionRecord1, s3)
               | (None, s3) \<Rightarrow>
                  let posKey = d_Symbol decision @ ''_short'';
                      s4 = s3\<lparr>atB_positionFirstSeenTime :=
                                AList.update posKey (unixMilli (time_Now E (atB_world s3)))
                                  (atB_positionFirstSeenTime s3),
                              atB_positionInvalidationConditions :=
                                AList.update (d_Symbol decision) (d_InvalidationCondition decision)
                                  (atB_positionInvalidationConditions s3),
                              atB_positionReasonings :=
                                AList.update (d_Symbol decision) (d_Reasoning decision)
                                  (atB_positionReasonings s3),
                              atB_positionPnLTracking :=
                                AList.update posKey
                                  \<lparr>trkB_MaxProfitPct = 0, trkB_MaxLossPct = 0,
                                   trkB_TakeProfitPrice = d_TakeProfit decision,
                                   trkB_StopLossPrice = d_StopLoss decision,
                                   trkB_EntryPrice = currentPrice\<rparr>
                                  (atB_positionPnLTracking s3)\<rparr>;
                      s5 = snd (call_B (trader_SetStopLoss E (d_Symbol decision) ''SHORT'' quantity
                                          (d_StopLoss decision))
                                  (CallSetStopLoss (d_Symbol decision) ''SHORT'' quantity
                                     (d_StopLoss decision)) s4);
                      s6 = snd (call_B (trader_SetTakeProfit E (d_Symbol decision) ''SHORT'' quantity
                                          (d_TakeProfit decision))
                                  (CallSetTakeProfit (d_Symbol decision) ''SHORT'' quantity
                                     (d_TakeProfit decision)) s5)
                  in (None, actionRecord1, s6))))"

subsection \<open>runCycle\<close>

text \<open>The body of the execution loop of \<open>runCycle\<close>: one decision is dispatched and recorded.\<close>

definition dispatchDecision ::
  "'w Env \<Rightarrow> Decision \<Rightarrow> DecisionRecord \<times> 'w AutoTrader \<Rightarrow> DecisionRecord \<times> 'w AutoTrader" where
  "dispatchDecision E d st =
    (case st of (rcd, s) \<Rightarrow>
      let actionRecord =
            \<lparr>da_Action = d_Action d, da_Symbol = d_Symbol d, da_Quantity = 0,
             da_Leverage = d_Leverage d, da_Price = 0, da_Success = False, da_Error = None\<rparr>
      in case executeDecisionWithRecord E d actionRecord s of
           (Some err, actionRecord1, s1) \<Rightarrow>
             (rcd\<lparr>rec_Decisions := rec_Decisions rcd @ [actionRecord1\<lparr>da_Error := Some err\<rparr>]\<rparr>, s1)
         | (None, actionRecord1, s1) \<Rightarrow>
             (rcd\<lparr>rec_Decisions := rec_Decisions rcd @ [actionRecord1\<lparr>da_Success := True\<rparr>]\<rparr>, s1))"

definition hourNanos :: int where
  "hourNanos = 3600000000000"

text \<open>
  \<open>runCycle\<close>, in four parts that follow the numbered steps of the source. The
  result is the error returned (\<open>None\<close> for \<open>nil\<close>) and the trader after the cycle. The
  account and position snapshots copied into the record are left out.

  Steps 9 to 14: the proposals are requested, sorted, dispatched one by one and the
  record is saved. When \<open>GetFullDecision\<close> fails, the record is saved and the cycle
  ends.
\<close>

definition runCycleDecide ::
  "'w Env \<Rightarrow> Context \<Rightarrow> DecisionRecord \<Rightarrow> 'w AutoTrader \<Rightarrow> error option \<times> 'w AutoTrader" where
  "runCycleDecide E ctx rcd s =
    (case GetFullDecision E ctx s of
       (Inl err, s1) \<Rightarrow>
         (Some (GetDecisionFailed err),
          callLogDecision E
            (rcd\<lparr>rec_Success := False, rec_ErrorMessage := Some (GetDecisionFailed err)\<rparr>) s1)
     | (Inr decisions, s1) \<Rightarrow>
        (case fold (dispatchDecision E) (sortDecisionsByPriority decisions) (rcd, s1) of
           (rcd1, s2) \<Rightarrow> (None, callLogDecision E rcd1 s2)))"

text \<open>
  Steps 6 to 8: the loss detection, the pass of the automatic profit and loss control
  and, when that pass executed an order, a second build of the context.
\<close>

definition runCycleProtect ::
  "'w Env \<Rightarrow> Context \<Rightarrow> DecisionRecord \<Rightarrow> 'w AutoTrader \<Rightarrow> error option \<times> 'w AutoTrader" where
  "runCycleProtect E ctx rcd s =
    (let s1 = checkStopLossTriggered E ctx s in
     case checkTrailingStopAndPartialTP E ctx rcd False s1 of
       (hasExecutedTP, rcd1, s2) \<Rightarrow>
        (case (if hasExecutedTP then buildTradingContext E s2 else (Inr ctx, s2)) of
           (Inl err, s3) \<Rightarrow>
             (Some (RebuildContextFailed err),
              callLogDecision E
                (rcd1\<lparr>rec_Success := False, rec_ErrorMessage := Some (RebuildContextFailed err)\<rparr>) s3)
         | (Inr ctx1, s3) \<Rightarrow> runCycleDecide E ctx1 rcd1 s3))"

text \<open>
  Steps 3 and 4: the stop-loss counter goes back to zero once the last stop is
  \<open>BackoffResetHours\<close> old, and the daily profit is reset once a day.
\<close>

definition runCycleResets :: "'w Env \<Rightarrow> 'w AutoTrader \<Rightarrow> 'w AutoTrader" where
  "runCycleResets E s =
    (let s1 = (if cfg_EnableExponentialBackoff (at_config s) \<and> at_lastStopLossTime s \<noteq> 0
                  \<and> real_of_int (time_Now E (at_world s) - at_lastStopLossTime s) / real_of_int hourNanos
                        \<ge> real_of_int (cfg_BackoffResetHours (at_config s))
                  \<and> at_stopLossCount s > 0
               then s\<lparr>at_stopLossCount := 0\<rparr> else s)
     in if time_Now E (at_world s1) - at_lastResetTime s1 > 24 * hourNanos
        then s1\<lparr>at_dailyPnL := 0, at_lastResetTime := time_Now E (at_world s1)\<rparr> else s1)"

text \<open>
  Steps 1, 2 and 5: the two pauses, each of which saves the record and ends the cycle,
  and the build of the context.
\<close>

definition runCycle :: "'w Env \<Rightarrow> 'w AutoTrader \<Rightarrow> error option \<times> 'w AutoTrader" where
  "runCycle E s0 =
    (let s = s0\<lparr>at_callCount := at_callCount s0 + 1\<rparr>;
         rcd = \<lparr>rec_Success = True, rec_ErrorMessage = None, rec_Decisions = []\<rparr>
     in
     if cfg_EnableExponentialBackoff (at_config s) \<and> time_Now E (at_world s) < at_backoffUntil s
     then (None, callLogDecision E (rcd\<lparr>rec_Success := False, rec_ErrorMessage := Some BackoffPause\<rparr>) s)
     else if time_Now E (at_world s) < at_stopUntil s
     then (None, callLogDecision E (rcd\<lparr>rec_Success := False, rec_ErrorMessage := Some RiskControlPause\<rparr>) s)
     else
       (case buildTradingContext E (runCycleResets E s) of
          (Inl err, s3) \<Rightarrow>
            (Some (BuildContextFailed err),
             callLogDecision E (rcd\<lparr>rec_Success := False, rec_ErrorMessage := Some (BuildContextFailed err)\<rparr>) s3)
        | (Inr ctx, s3) \<Rightarrow> runCycleProtect E ctx rcd s3))"

section \<open>A scripted world for concrete runs\<close>

text \<open>
  The concrete runs below use a world that answers from a script: fixed balance,
  positions and prices, a fixed decoded reply of the model, and an exchange that accepts
  every order; \<open>sim_positionsFail\<close> makes the read of the positions fail. The world
  stays as it is through a run.
\<close>

record Sim =
  sim_now :: int
  sim_balance :: Balance
  sim_positions :: "VenuePosition list"
  sim_positionsFail :: bool
  sim_prices :: "(string \<times> real) list"

definition simEnv :: "Decision list \<Rightarrow> Sim Env" where
  "simEnv batch =
    \<lparr>trader_GetBalance = (\<lambda>w. (Inr (sim_balance w), w)),
     trader_GetPositions = (\<lambda>w.
        (if sim_positionsFail w then Inl VenueFailure else Inr (sim_positions w), w)),
     trader_OpenLong = (\<lambda>symbol quantity leverage w. (None, w)),
     trader_OpenShort = (\<lambda>symbol quantity leverage w. (None, w)),
     trader_CloseLong = (\<lambda>symbol quantity w. (None, w)),
     trader_CloseShort = (\<lambda>symbol quantity w. (None, w)),
     trader_SetStopLoss = (\<lambda>symbol side quantity price w. (None, w)),
     trader_SetTakeProfit = (\<lambda>symbol side quantity price w. (None, w)),
     market_Get = (\<lambda>symbol w.
        (case map_of (sim_prices w) symbol of Some p \<Rightarrow> Inr p | None \<Rightarrow> Inl MarketDataFailed, w)),
     pool_GetMergedCoinPool = (\<lambda>w. (Inr [], w)),
     ai_Call = (\<lambda>ctx w. (Inr ''reply'', w)),
     json_extractDecisions = (\<lambda>reply. Inr batch),
     logger_LogDecision = (\<lambda>rcd w. w),
     time_Now = sim_now\<rparr>"

definition simConfig :: AutoTraderConfig where
  "simConfig =
    \<lparr>cfg_ScanIntervalMinutes = 3, cfg_BTCETHLeverage = 10, cfg_AltcoinLeverage = 5,
     cfg_EnableTrailingStop = True, cfg_TrailingStopDistance = 0.03,
     cfg_TrailingStopActivation = 0.05, cfg_EnablePartialTakeProfit = True,
     cfg_EnableExponentialBackoff = True, cfg_BackoffBaseMinutes = 45,
     cfg_BackoffMultiplier = 2.67, cfg_BackoffMaxMinutes = 360, cfg_BackoffResetHours = 24\<rparr>"

definition simWorld :: Sim where
  "simWorld =
    \<lparr>sim_now = 1000,
     sim_balance = \<lparr>bal_totalWalletBalance = Some 1000, bal_totalUnrealizedProfit = Some 0,
                    bal_availableBalance = Some 1000\<rparr>,
     sim_positions = [], sim_positionsFail = False,
     sim_prices = [(''BTCUSDT'', 100), (''ETHUSDT'', 100), (''SOLUSDT'', 100)]\<rparr>"

definition simTrader :: "Sim AutoTrader" where
  "simTrader =
    \<lparr>at_config = simConfig, at_initialBalance = 1000, at_dailyPnL = 0, at_lastResetTime = 0,
     at_stopUntil = 0, at_callCount = 0, at_positionFirstSeenTime = [],
     at_positionInvalidationConditions = [], at_positionReasonings = [],
     at_positionPnLTracking = [], at_stopLossCount = 0, at_lastStopLossTime = 0,
     at_backoffUntil = 0, at_lastTotalEquity = 0, at_world = simWorld, at_trace = []\<rparr>"

definition simDecision :: "string \<Rightarrow> string \<Rightarrow> Decision" where
  "simDecision symbol action =
    \<lparr>d_Symbol = symbol, d_Action = action, d_Leverage = 5, d_PositionSizeUSD = 1000,
     d_EntryPrice = 100, d_StopLoss = 98, d_TakeProfit = 104, d_Confidence = 80,
     d_RiskUSD = 20, d_Reasoning = ''reason'', d_InvalidationCondition = ''condition''\<rparr>"

definition simPosition :: "string \<Rightarrow> string \<Rightarrow> real \<Rightarrow> real \<Rightarrow> real \<Rightarrow> VenuePosition" where
  "simPosition symbol side entryPrice markPrice amount =
    \<lparr>vp_symbol = symbol, vp_side = side, vp_entryPrice = entryPrice, vp_markPrice = markPrice,
     vp_positionAmt = amount, vp_unRealizedProfit = 0, vp_liquidationPrice = 0,
     vp_leverage = Some 1\<rparr>"

definition emptyAction :: DecisionAction where
  "emptyAction =
    \<lparr>da_Action = [], da_Symbol = [], da_Quantity = 0, da_Leverage = 0, da_Price = 0,
     da_Success = False, da_Error = None\<rparr>"

text \<open>
  A trader whose exchange holds a long position in BTCUSDT while the read of the
  positions fails.
\<close>

definition stackedTrader :: "Sim AutoTrader" where
  "stackedTrader =
     simTrader\<lparr>at_world := simWorld
       \<lparr>sim_positions := [simPosition ''BTCUSDT'' ''long'' 100 100 10],
        sim_positionsFail := True\<rparr>\<rparr>"

text \<open>A trader whose market quotes BTCUSDT at 200, twice the entry price of \<open>simDecision\<close>.\<close>

definition driftTrader :: "Sim AutoTrader" where
  "driftTrader = simTrader\<lparr>at_world := simWorld\<lparr>sim_prices := [(''BTCUSDT'', 200)]\<rparr>\<rparr>"

text \<open>
  The second trader with empty maps, in a world whose market quotes BTCUSDT at
  \<open>price\<close>.
\<close>

definition simTrader_B :: "real \<Rightarrow> Sim AutoTrader_B" where
  "simTrader_B price =
    \<lparr>atB_positionFirstSeenTime = [], atB_positionInvalidationConditions = [],
     atB_positionReasonings = [], atB_positionPnLTracking = [],
     atB_world = simWorld\<lparr>sim_prices := [(''BTCUSDT'', price)]\<rparr>, atB_trace = []\<rparr>"



definition emptyRecord :: DecisionRecord where
  "emptyRecord = \<lparr>rec_Success = True, rec_ErrorMessage = None, rec_Decisions = []\<rparr>"

text \<open>
  A batch of two intents: an \<open>open_long\<close> whose ratio of reward to risk is 1.5, and a
  \<open>close_long\<close> that passes the validator.
\<close>

definition mixedBatch :: "Decision list" where
  "mixedBatch =
     [(simDecision ''BTCUSDT'' ''open_long'')\<lparr>d_TakeProfit := 103\<rparr>,
      simDecision ''ETHUSDT'' ''close_long'']"

text \<open>
  A trader that tracks a long position in BTCUSDT entered at 100 with its stop at 98,
  and that saw an equity of 1000 in the last cycle. In its world the position is gone,
  the equity is 900 and BTCUSDT is quoted at 97, below the stop.
\<close>

definition fallenTrader :: "Sim AutoTrader" where
  "fallenTrader =
     simTrader\<lparr>at_positionFirstSeenTime := [(''BTCUSDT_long'', 0)],
       at_positionPnLTracking :=
         [(''BTCUSDT_long'', (newTracking 0)\<lparr>trk_StopLossPrice := 98, trk_EntryPrice := 100\<rparr>)],
       at_lastTotalEquity := 1000,
       at_world := simWorld
         \<lparr>sim_balance := \<lparr>bal_totalWalletBalance = Some 900, bal_totalUnrealizedProfit = Some 0,
                           bal_availableBalance = Some 900\<rparr>,
          sim_prices := [(''BTCUSDT'', 97)]\<rparr>\<rparr>"

text \<open>A context in which no position is live and the equity is 900.\<close>

definition lossContext :: Context where
  "lossContext =
    \<lparr>ctx_CallCount = 1,
     ctx_Account =
       \<lparr>acc_TotalEquity = 900, acc_AvailableBalance = 900, acc_TotalPnL = - 100,
        acc_TotalPnLPct = - 10, acc_MarginUsed = 0, acc_MarginUsedPct = 0,
        acc_PositionCount = 0\<rparr>,
     ctx_Positions = [], ctx_CandidateCoins = [], ctx_BTCETHLeverage = 10,
     ctx_AltcoinLeverage = 5, ctx_ScanIntervalMinutes = 3\<rparr>"



definition quietTrace :: "Event list" where
  "quietTrace =
     [CallGetBalance, CallGetPositions, CallGetMergedCoinPool, EnterProfitLossPass, CallAI,
      CallLogDecision \<lparr>rec_Success = True, rec_ErrorMessage = None, rec_Decisions = []\<rparr>]"

text \<open>
  A long position in BTCUSDT of which one unit is left and which is marked at 55000, and
  a trader that tracks it with entry price 50000 and take-profit price 55000, the first
  partial take-profit being done.
\<close>

definition halfPosition :: PositionInfo where
  "halfPosition =
    \<lparr>pos_Symbol = ''BTCUSDT'', pos_Side = ''long'', pos_EntryPrice = 50000,
     pos_MarkPrice = 55000, pos_Quantity = 1, pos_Leverage = 1, pos_UnrealizedPnL = 5000,
     pos_UnrealizedPnLPct = 10, pos_LiquidationPrice = 0, pos_MarginUsed = 55000,
     pos_UpdateTime = 0, pos_InvalidationCondition = [], pos_Reasoning = [],
     pos_MaxProfitPct = 10, pos_MaxLossPct = 0, pos_DrawdownFromPeakPct = 0,
     pos_StopLossPrice = 49000, pos_TakeProfitPrice = 55000\<rparr>"

definition halfTracking :: PnLTracking where
  "halfTracking =
    \<lparr>trk_MaxProfitPct = 10, trk_MaxLossPct = 0, trk_TakeProfitPrice = 55000,
     trk_StopLossPrice = 49000, trk_EntryPrice = 50000, trk_PartialTP50Executed = True,
     trk_PartialTP100Executed = False, trk_TrailingStopActivated = False\<rparr>"

definition halfTrader :: "Sim AutoTrader" where
  "halfTrader =
     simTrader\<lparr>at_config := simConfig\<lparr>cfg_EnableTrailingStop := False\<rparr>,
       at_positionFirstSeenTime := [(''BTCUSDT_long'', 0)],
       at_positionPnLTracking := [(''BTCUSDT_long'', halfTracking)]\<rparr>"


definition freshTrader :: "Sim AutoTrader" where
  "freshTrader =
     halfTrader\<lparr>at_positionPnLTracking :=
       [(''BTCUSDT_long'', halfTracking\<lparr>trk_PartialTP50Executed := False\<rparr>)]\<rparr>"

section \<open>Invariants used in the proofs\<close>

text \<open>
  The invariant of the outer loop of the sequencers: every position below \<open>i\<close> holds a
  priority that is at most the priority of every later position.
\<close>

definition prefixOk :: "(string \<Rightarrow> int) \<Rightarrow> nat \<Rightarrow> Decision list \<Rightarrow> bool" where
  "prefixOk priority i xs \<longleftrightarrow>
     (\<forall>a b. a < i \<and> a < b \<and> b < length xs
        \<longrightarrow> priority (d_Action (xs ! a)) \<le> priority (d_Action (xs ! b)))"

definition innerInv ::
  "(string \<Rightarrow> int) \<Rightarrow> nat \<Rightarrow> Decision list \<Rightarrow> nat \<Rightarrow> Decision list \<Rightarrow> bool" where
  "innerInv priority i xs0 m xs \<longleftrightarrow>
     length xs = length xs0 \<and> mset xs = mset xs0 \<and> prefixOk priority i xs
     \<and> (\<forall>b. i < b \<and> b < m
          \<longrightarrow> priority (d_Action (xs ! i)) \<le> priority (d_Action (xs ! b)))"

text \<open>
  The call that closes a quantity of a position on its side, and the answer of the
  exchange to it.
\<close>

definition closeEvent :: "PositionInfo \<Rightarrow> real \<Rightarrow> Event" where
  "closeEvent pos quantity =
    (if pos_Side pos = ''long'' then CallCloseLong (pos_Symbol pos) quantity
     else CallCloseShort (pos_Symbol pos) quantity)"

definition closeAnswer :: "'w Env \<Rightarrow> PositionInfo \<Rightarrow> real \<Rightarrow> 'w \<Rightarrow> error option \<times> 'w" where
  "closeAnswer E pos quantity w =
    (if pos_Side pos = ''long'' then trader_CloseLong E (pos_Symbol pos) quantity w
     else trader_CloseShort E (pos_Symbol pos) quantity w)"

text \<open>
  The one-shot flags of a tracking entry are kept: a flag that is set stays set. A
  tracking map keeps its entries when every key stays with its flags kept.
\<close>

definition flagsKept :: "PnLTracking \<Rightarrow> PnLTracking \<Rightarrow> bool" where
  "flagsKept t t' \<longleftrightarrow>
     (trk_TrailingStopActivated t \<longrightarrow> trk_TrailingStopActivated t')
     \<and> (trk_PartialTP50Executed t \<longrightarrow> trk_PartialTP50Executed t')
     \<and> (trk_PartialTP100Executed t \<longrightarrow> trk_PartialTP100Executed t')"

definition trackingKept :: "(string \<times> PnLTracking) list \<Rightarrow> (string \<times> PnLTracking) list \<Rightarrow> bool" where
  "trackingKept m m' \<longleftrightarrow>
     (\<forall>k t. map_of m k = Some t \<longrightarrow> (\<exists>t'. map_of m' k = Some t' \<and> flagsKept t t'))"


text \<open>
  Every key of \<open>positionPnLTracking\<close> is a key of \<open>positionFirstSeenTime\<close>: the two maps
  are empty in a new trader, every entry of the first is written next to an entry of
  the second, and entries are deleted from both together.
\<close>

definition trackedKeysSeen :: "'w AutoTrader \<Rightarrow> bool" where
  "trackedKeysSeen s \<longleftrightarrow>
     dom (map_of (at_positionPnLTracking s)) \<subseteq> dom (map_of (at_positionFirstSeenTime s))"

text \<open>
  The state of the loss circuit breaker is kept from \<open>s\<close> to \<open>s'\<close>; a step is quiet
  when it keeps that state and the keys of the two maps, and steady when it keeps that
  state and the invariant of the two maps.
\<close>

definition breakerKept :: "'w AutoTrader \<Rightarrow> 'w AutoTrader \<Rightarrow> bool" where
  "breakerKept s s' \<longleftrightarrow>
     at_stopLossCount s' = at_stopLossCount s
     \<and> at_lastStopLossTime s' = at_lastStopLossTime s
     \<and> at_backoffUntil s' = at_backoffUntil s"

definition quiet :: "'w AutoTrader \<Rightarrow> 'w AutoTrader \<Rightarrow> bool" where
  "quiet s s' \<longleftrightarrow>
     breakerKept s s'
     \<and> dom (map_of (at_positionPnLTracking s')) = dom (map_of (at_positionPnLTracking s))
     \<and> dom (map_of (at_positionFirstSeenTime s')) = dom (map_of (at_positionFirstSeenTime s))"

definition steady :: "'w AutoTrader \<Rightarrow> 'w AutoTrader \<Rightarrow> bool" where
  "steady s s' \<longleftrightarrow> breakerKept s s' \<and> (trackedKeysSeen s \<longrightarrow> trackedKeysSeen s')"

section \<open>The decision validator\<close>

text \<open>
  Claim C5. An intent to open or to increase that passes the earlier rules of the
  validator (leverage within its ceiling, position size positive and within the limit,
  a non-blank invalidation condition, positive prices, stop and target on the right
  sides of the entry) is accepted if and only if reward% / risk% is at least 2, where
  risk% = |entry - stop| / entry and reward% = |target - entry| / entry. In particular
  an \<open>open_long\<close> with entry 100, stop 98 and target 103 is rejected for its ratio 1.5,
  and one with target 104 is accepted.
\<close>

theorem validateDecision_risk_reward_gate:
  assumes lev: "0 < d_Leverage d"
      "d_Leverage d \<le> (if d_Symbol d = ''BTCUSDT'' \<or> d_Symbol d = ''ETHUSDT''
                         then btcEthLeverage else altcoinLeverage)"
    and size: "0 < d_PositionSizeUSD d"
      "\<not> d_PositionSizeUSD d >
          (if d_Symbol d = ''BTCUSDT'' \<or> d_Symbol d = ''ETHUSDT''
           then accountEquity * 10 else accountEquity * 5)
        + (if d_Symbol d = ''BTCUSDT'' \<or> d_Symbol d = ''ETHUSDT''
           then accountEquity * 10 else accountEquity * 5) * 0.01"
    and inv: "TrimSpace (d_InvalidationCondition d) \<noteq> []"
  shows "(d_Action d \<in> {''open_long'', ''open_short'', ''increase_long'', ''increase_short''}
          \<and> 0 < d_EntryPrice d \<and> 0 < d_StopLoss d \<and> 0 < d_TakeProfit d
          \<and> (if d_Action d \<in> {''open_long'', ''increase_long''}
              then d_StopLoss d < d_EntryPrice d \<and> d_EntryPrice d < d_TakeProfit d
              else d_TakeProfit d < d_EntryPrice d \<and> d_EntryPrice d < d_StopLoss d)
          \<longrightarrow> (validateDecision d accountEquity btcEthLeverage altcoinLeverage = None
                \<longleftrightarrow> (\<bar>d_TakeProfit d - d_EntryPrice d\<bar> / d_EntryPrice d)
                      / (\<bar>d_EntryPrice d - d_StopLoss d\<bar> / d_EntryPrice d) \<ge> 2))
       \<and> validateDecision
            (d\<lparr>d_Action := ''open_long'', d_EntryPrice := 100, d_StopLoss := 98, d_TakeProfit := 103\<rparr>)
            accountEquity btcEthLeverage altcoinLeverage = Some (RiskRewardTooLow (3 / 2))
       \<and> validateDecision
            (d\<lparr>d_Action := ''open_long'', d_EntryPrice := 100, d_StopLoss := 98, d_TakeProfit := 104\<rparr>)
            accountEquity btcEthLeverage altcoinLeverage = None"
proof (intro conjI impI)
  assume h: "d_Action d \<in> {''open_long'', ''open_short'', ''increase_long'', ''increase_short''}
          \<and> 0 < d_EntryPrice d \<and> 0 < d_StopLoss d \<and> 0 < d_TakeProfit d
          \<and> (if d_Action d \<in> {''open_long'', ''increase_long''}
              then d_StopLoss d < d_EntryPrice d \<and> d_EntryPrice d < d_TakeProfit d
              else d_TakeProfit d < d_EntryPrice d \<and> d_EntryPrice d < d_StopLoss d)"
  show "validateDecision d accountEquity btcEthLeverage altcoinLeverage = None
        \<longleftrightarrow> (\<bar>d_TakeProfit d - d_EntryPrice d\<bar> / d_EntryPrice d)
              / (\<bar>d_EntryPrice d - d_StopLoss d\<bar> / d_EntryPrice d) \<ge> 2"
    using h lev size inv
    apply (simp add: validateDecision_def validActions_def checkOpenOrIncrease_def Let_def
                split: if_splits)
    apply (auto simp: field_simps abs_if split: if_splits)
    done
next
  show "validateDecision
            (d\<lparr>d_Action := ''open_long'', d_EntryPrice := 100, d_StopLoss := 98, d_TakeProfit := 103\<rparr>)
            accountEquity btcEthLeverage altcoinLeverage = Some (RiskRewardTooLow (3 / 2))"
    using lev size inv
    by (simp add: validateDecision_def validActions_def checkOpenOrIncrease_def Let_def
             split: if_splits)
next
  show "validateDecision
            (d\<lparr>d_Action := ''open_long'', d_EntryPrice := 100, d_StopLoss := 98, d_TakeProfit := 104\<rparr>)
            accountEquity btcEthLeverage altcoinLeverage = None"
    using lev size inv
    by (simp add: validateDecision_def validActions_def checkOpenOrIncrease_def Let_def
             split: if_splits)
qed

theorem validateDecision_risk_reward_gate_witness:
  "validateDecision (simDecision ''BTCUSDT'' ''open_short''
        \<lparr>d_EntryPrice := 100, d_StopLoss := 102, d_TakeProfit := 95\<rparr>) 1000 10 5 = None
   \<and> validateDecision (simDecision ''SOLUSDT'' ''increase_long''
        \<lparr>d_EntryPrice := 100, d_StopLoss := 98, d_TakeProfit := 103\<rparr>) 1000 10 5
       = Some (RiskRewardTooLow (3 / 2))
   \<and> validateDecision (simDecision ''BTCUSDT'' ''open_short''
        \<lparr>d_Action := ''open_long'', d_EntryPrice := 100, d_StopLoss := 98, d_TakeProfit := 103\<rparr>)
        1000 10 5 = Some (RiskRewardTooLow (3 / 2))
   \<and> validateDecision (simDecision ''BTCUSDT'' ''open_short''
        \<lparr>d_Action := ''open_long'', d_EntryPrice := 100, d_StopLoss := 98, d_TakeProfit := 104\<rparr>)
        1000 10 5 = None"
proof -
  have tr: "TrimSpace ''condition'' \<noteq> []"
    by (simp add: TrimSpace_def trimLeft.simps headRune_def spaceRunes_def)
  have a: "validateDecision (simDecision ''BTCUSDT'' ''open_short''
        \<lparr>d_EntryPrice := 100, d_StopLoss := 102, d_TakeProfit := 95\<rparr>) 1000 10 5 = None"
    using validateDecision_risk_reward_gate
      [of "simDecision ''BTCUSDT'' ''open_short''
             \<lparr>d_EntryPrice := 100, d_StopLoss := 102, d_TakeProfit := 95\<rparr>" 10 5 1000] tr
    by (simp add: simDecision_def)
  have b: "validateDecision (simDecision ''SOLUSDT'' ''increase_long''
        \<lparr>d_EntryPrice := 100, d_StopLoss := 98, d_TakeProfit := 103\<rparr>) 1000 10 5
       = Some (RiskRewardTooLow (3 / 2))"
    using validateDecision_risk_reward_gate
      [of "simDecision ''SOLUSDT'' ''increase_long''" 10 5 1000] tr
    by (simp add: simDecision_def validateDecision_def validActions_def checkOpenOrIncrease_def
          Let_def)
  have c: "validateDecision (simDecision ''BTCUSDT'' ''open_short''
        \<lparr>d_Action := ''open_long'', d_EntryPrice := 100, d_StopLoss := 98, d_TakeProfit := 103\<rparr>)
        1000 10 5 = Some (RiskRewardTooLow (3 / 2))
     \<and> validateDecision (simDecision ''BTCUSDT'' ''open_short''
        \<lparr>d_Action := ''open_long'', d_EntryPrice := 100, d_StopLoss := 98, d_TakeProfit := 104\<rparr>)
        1000 10 5 = None"
    using validateDecision_risk_reward_gate [of "simDecision ''BTCUSDT'' ''open_short''" 10 5 1000] tr
    by (simp add: simDecision_def)
  from a b c show ?thesis by simp
qed

section \<open>The decision sequencer\<close>

text \<open>An invariant of a loop over an index range holds when the loop is left.\<close>

lemma fold_upt_invariant:
  assumes "P a s"
    and "\<And>k s. a \<le> k \<Longrightarrow> k < b \<Longrightarrow> P k s \<Longrightarrow> P (Suc k) (f k s)"
    and "a \<le> b"
  shows "P b (fold f [a..<b] s)"
  using assms(3,2)
proof (induction b)
  case 0
  then show ?case using assms(1) by simp
next
  case (Suc b)
  show ?case
  proof (cases "a = Suc b")
    case True
    then show ?thesis using assms(1) by simp
  next
    case False
    then have le: "a \<le> b" using Suc.prems(1) by simp
    have "P b (fold f [a..<b] s)"
      using Suc.IH[OF le] Suc.prems(2) by simp
    then show ?thesis using le Suc.prems(2)[of b] by simp
  qed
qed

lemma length_swapIfGreater [simp]: "length (swapIfGreater p i j xs) = length xs"
  by (simp add: swapIfGreater_def)

lemma mset_swapIfGreater:
  "i < length xs \<Longrightarrow> j < length xs \<Longrightarrow> mset (swapIfGreater p i j xs) = mset xs"
  by (simp add: swapIfGreater_def mset_swap)

lemma swap_prefixOk:
  assumes "prefixOk p i xs" "i < j" "j < length xs"
  shows "prefixOk p i (swapIfGreater p i j xs)"
  using assms unfolding prefixOk_def swapIfGreater_def
  by (auto simp: nth_list_update)

lemma sortInner_inv:
  assumes "prefixOk p i xs" "i < length xs"
  shows "innerInv p i xs (length xs) (sortInner p i xs)"
  unfolding sortInner_def
proof (rule fold_upt_invariant[where P = "innerInv p i xs"])
  show "innerInv p i xs (i + 1) xs" using assms by (simp add: innerInv_def)
next
  fix k s assume k: "i + 1 \<le> k" "k < length xs" and inv: "innerInv p i xs k s"
  have len: "length s = length xs" using inv by (simp add: innerInv_def)
  have "prefixOk p i (swapIfGreater p i k s)"
    using swap_prefixOk[of p i s k] inv k len by (simp add: innerInv_def)
  moreover have "mset (swapIfGreater p i k s) = mset xs"
    using mset_swapIfGreater[of i s k p] inv k assms len by (simp add: innerInv_def)
  moreover have "\<forall>b. i < b \<and> b < Suc k \<longrightarrow>
      p (d_Action (swapIfGreater p i k s ! i)) \<le> p (d_Action (swapIfGreater p i k s ! b))"
    using inv k len assms(2) unfolding innerInv_def swapIfGreater_def
    by (auto simp: nth_list_update less_Suc_eq)
  ultimately show "innerInv p i xs (Suc k) (swapIfGreater p i k s)"
    using len by (simp add: innerInv_def)
next
  show "i + 1 \<le> length xs" using assms by simp
qed

lemma sortInner_prefixOk:
  assumes "prefixOk p i xs" "i < length xs"
  shows "prefixOk p (Suc i) (sortInner p i xs) \<and> length (sortInner p i xs) = length xs
         \<and> mset (sortInner p i xs) = mset xs"
  using sortInner_inv[OF assms] unfolding innerInv_def prefixOk_def
  by (auto simp: less_Suc_eq)

lemma sort_outer:
  "prefixOk p (length xs - 1) (fold (sortInner p) [0..<length xs - 1] xs)
   \<and> length (fold (sortInner p) [0..<length xs - 1] xs) = length xs
   \<and> mset (fold (sortInner p) [0..<length xs - 1] xs) = mset xs"
proof (rule fold_upt_invariant
    [where P = "\<lambda>i s. prefixOk p i s \<and> length s = length xs \<and> mset s = mset xs"])
  show "prefixOk p 0 xs \<and> length xs = length xs \<and> mset xs = mset xs"
    by (simp add: prefixOk_def)
next
  fix k s
  assume "0 \<le> k" "k < length xs - 1"
    "prefixOk p k s \<and> length s = length xs \<and> mset s = mset xs"
  then show "prefixOk p (Suc k) (sortInner p k s) \<and> length (sortInner p k s) = length xs
      \<and> mset (sortInner p k s) = mset xs"
    using sortInner_prefixOk[of p k s] by auto
qed simp

text \<open>The two loops leave the priorities in ascending order, whatever the table.\<close>

lemma sorted_loops:
  "sorted (map (\<lambda>d. p (d_Action d))
     (if length ds \<le> 1 then ds else fold (sortInner p) [0..<length ds - 1] ds))"
proof (cases "length ds \<le> 1")
  case True
  then show ?thesis
    by (cases ds) auto
next
  case False
  let ?r = "fold (sortInner p) [0..<length ds - 1] ds"
  have q: "prefixOk p (length ds - 1) ?r" and l: "length ?r = length ds"
    using sort_outer[of p ds] by auto
  have "\<forall>a b. a < b \<and> b < length ?r \<longrightarrow> p (d_Action (?r ! a)) \<le> p (d_Action (?r ! b))"
    using q l unfolding prefixOk_def by auto
  then have "sorted (map (\<lambda>d. p (d_Action d)) ?r)"
    by (auto simp: sorted_iff_nth_mono_less)
  then show ?thesis using False by simp
qed

lemma sorted_sortDecisionsByPriority_B:
  "sorted (map (\<lambda>d. getActionPriority_B (d_Action d)) (sortDecisionsByPriority_B ds))"
  using sorted_loops[of getActionPriority_B ds] by (simp add: sortDecisionsByPriority_B_def)

lemma mset_sortDecisionsByPriority_B: "mset (sortDecisionsByPriority_B ds) = mset ds"
  using sort_outer[of getActionPriority_B ds] by (simp add: sortDecisionsByPriority_B_def)

text \<open>
  The sequencer of the first trader orders a batch in the same way by its own table of
  three classes, where \<open>decrease_*\<close>, \<open>increase_*\<close> and \<open>update_loss_profit\<close> fall into the
  class of the unknown actions.
\<close>

lemma sortDecisionsByPriority_three_classes:
  "sorted (map (\<lambda>d. getActionPriority (d_Action d)) (sortDecisionsByPriority ds))
   \<and> mset (sortDecisionsByPriority ds) = mset ds
   \<and> map getActionPriority
        [''close_long'', ''close_short'', ''open_long'', ''open_short'', ''hold'', ''wait'',
         ''decrease_long'', ''decrease_short'', ''increase_long'', ''increase_short'',
         ''update_loss_profit'']
       = [1, 1, 2, 2, 3, 3, 999, 999, 999, 999, 999]"
  using sorted_loops[of getActionPriority ds] sort_outer[of getActionPriority ds]
  by (simp add: sortDecisionsByPriority_def getActionPriority_def)

text \<open>
  Claim C2, as stated, fails on the code in its promise of a stable order. The two loops
  exchange the entry at \<open>i\<close> with a later entry of lower class, which carries the entry at
  \<open>i\<close> over the entries of its own class that stand between them: in the batch
  [open_long A, open_long B, close_short C] the two intents to open change places. The
  sequencer of the first trader runs the same loops and returns the same order.
\<close>

theorem sortDecisionsByPriority_counterexample:
  "getActionPriority_B ''open_long'' = 5
   \<and> sortDecisionsByPriority_B
        [simDecision ''A'' ''open_long'', simDecision ''B'' ''open_long'',
         simDecision ''C'' ''close_short'']
       = [simDecision ''C'' ''close_short'', simDecision ''B'' ''open_long'',
          simDecision ''A'' ''open_long'']
   \<and> sortDecisionsByPriority
        [simDecision ''A'' ''open_long'', simDecision ''B'' ''open_long'',
         simDecision ''C'' ''close_short'']
       = [simDecision ''C'' ''close_short'', simDecision ''B'' ''open_long'',
          simDecision ''A'' ''open_long'']"
  by (simp add: sortDecisionsByPriority_B_def sortDecisionsByPriority_def sortInner_def
        swapIfGreater_def getActionPriority_B_def getActionPriority_def simDecision_def upt_rec)

text \<open>
  Claim C2, amended. The sequencer returns a permutation of the batch in which the
  priority classes never decrease, the classes being (1) \<open>decrease_*\<close>, (2) \<open>close_*\<close>,
  (3) \<open>update_loss_profit\<close>, (4) \<open>increase_*\<close>, (5) \<open>open_*\<close>, (6) \<open>hold\<close> and \<open>wait\<close>, every
  other action coming last. The order of two intents of the same class is not promised.
  The batch [open_long BTC, close_short ETH, decrease_long SOL] is reordered to
  [decrease_long SOL, close_short ETH, open_long BTC].
\<close>

theorem sortDecisionsByPriority_sorted_permutation:
  "sorted (map (\<lambda>d. getActionPriority_B (d_Action d)) (sortDecisionsByPriority_B ds))
   \<and> mset (sortDecisionsByPriority_B ds) = mset ds
   \<and> map getActionPriority_B [''decrease_long'', ''decrease_short''] = [1, 1]
   \<and> map getActionPriority_B [''close_long'', ''close_short''] = [2, 2]
   \<and> getActionPriority_B ''update_loss_profit'' = 3
   \<and> map getActionPriority_B [''increase_long'', ''increase_short''] = [4, 4]
   \<and> map getActionPriority_B [''open_long'', ''open_short''] = [5, 5]
   \<and> map getActionPriority_B [''hold'', ''wait''] = [6, 6]
   \<and> (getActionPriority_B action = 999) = (action \<notin> set validActions)
   \<and> sortDecisionsByPriority_B
        [simDecision ''BTC'' ''open_long'', simDecision ''ETH'' ''close_short'',
         simDecision ''SOL'' ''decrease_long'']
       = [simDecision ''SOL'' ''decrease_long'', simDecision ''ETH'' ''close_short'',
          simDecision ''BTC'' ''open_long'']"
proof -
  have "sortDecisionsByPriority_B
        [simDecision ''BTC'' ''open_long'', simDecision ''ETH'' ''close_short'',
         simDecision ''SOL'' ''decrease_long'']
       = [simDecision ''SOL'' ''decrease_long'', simDecision ''ETH'' ''close_short'',
          simDecision ''BTC'' ''open_long'']"
    by (simp add: sortDecisionsByPriority_B_def sortInner_def swapIfGreater_def
          getActionPriority_B_def simDecision_def upt_rec)
  moreover have "map getActionPriority_B [''decrease_long'', ''decrease_short''] = [1, 1]"
    "map getActionPriority_B [''close_long'', ''close_short''] = [2, 2]"
    "getActionPriority_B ''update_loss_profit'' = 3"
    "map getActionPriority_B [''increase_long'', ''increase_short''] = [4, 4]"
    "map getActionPriority_B [''open_long'', ''open_short''] = [5, 5]"
    "map getActionPriority_B [''hold'', ''wait''] = [6, 6]"
    by (simp_all add: getActionPriority_B_def)
  moreover have "(getActionPriority_B action = 999) = (action \<notin> set validActions)"
    by (auto simp: getActionPriority_B_def validActions_def)
  ultimately show ?thesis
    using sorted_sortDecisionsByPriority_B[of ds] mset_sortDecisionsByPriority_B[of ds]
    by simp
qed

section \<open>The execution dispatcher\<close>

text \<open>
  Claim C1, as stated, fails on the code. The search for a live position of the same
  symbol and side is made only when the read of the positions succeeded. When the read
  fails while the exchange holds a long position in BTCUSDT, an \<open>open_long\<close> for
  BTCUSDT is not rejected: the exchange is asked to open.
\<close>

theorem anti_stacking_counterexample:
  "(\<exists>pos \<in> set (sim_positions (at_world stackedTrader)).
       vp_symbol pos = ''BTCUSDT'' \<and> vp_side pos = ''long'')
   \<and> fst (executeDecisionWithRecord (simEnv []) (simDecision ''BTCUSDT'' ''open_long'')
            emptyAction stackedTrader) = None
   \<and> at_trace (snd (snd (executeDecisionWithRecord (simEnv [])
            (simDecision ''BTCUSDT'' ''open_long'') emptyAction stackedTrader)))
       = [CallGetPositions, CallMarketGet ''BTCUSDT'', CallOpenLong ''BTCUSDT'' 10 5,
          CallSetStopLoss ''BTCUSDT'' ''LONG'' 10 98]"
  by (simp add: executeDecisionWithRecord_def executeOpenLongWithRecord_def
        callGetPositions_def callMarketGet_def callOpenLong_def callSetStopLoss_def
        callSetTakeProfit_def simEnv_def stackedTrader_def simTrader_def simWorld_def
        simDecision_def simConfig_def simPosition_def Let_def)

text \<open>
  Claim C1, amended. When the read of the live positions made at dispatch time
  succeeds and reports a position of the symbol and side of an \<open>open_long\<close> or
  \<open>open_short\<close> intent, the intent is rejected with the anti-stacking error and the only
  call made is that read: the exchange is not asked to open. When the read fails, the
  check is skipped and the dispatcher goes on to fetch the price.
\<close>

theorem anti_stacking_when_positions_read:
  "(trader_GetPositions E (at_world s) = (Inr positions, w)
      \<and> d_Action d = ''open_long''
      \<and> (\<exists>pos \<in> set positions. vp_symbol pos = d_Symbol d \<and> vp_side pos = ''long'')
     \<longrightarrow> executeDecisionWithRecord E d ar s
          = (Some (AntiStackingLong (d_Symbol d)), ar,
             s\<lparr>at_world := w, at_trace := at_trace s @ [CallGetPositions]\<rparr>))
   \<and> (trader_GetPositions E (at_world s) = (Inr positions, w)
      \<and> d_Action d = ''open_short''
      \<and> (\<exists>pos \<in> set positions. vp_symbol pos = d_Symbol d \<and> vp_side pos = ''short'')
     \<longrightarrow> executeDecisionWithRecord E d ar s
          = (Some (AntiStackingShort (d_Symbol d)), ar,
             s\<lparr>at_world := w, at_trace := at_trace s @ [CallGetPositions]\<rparr>))
   \<and> (trader_GetPositions E (at_world s) = (Inl err, w)
      \<and> (d_Action d = ''open_long'' \<or> d_Action d = ''open_short'')
     \<longrightarrow> (\<exists>rest. at_trace (snd (snd (executeDecisionWithRecord E d ar s)))
                  = at_trace s @ [CallGetPositions, CallMarketGet (d_Symbol d)] @ rest))"
proof (intro conjI impI)
  assume "trader_GetPositions E (at_world s) = (Inr positions, w)
      \<and> d_Action d = ''open_long''
      \<and> (\<exists>pos \<in> set positions. vp_symbol pos = d_Symbol d \<and> vp_side pos = ''long'')"
  then show "executeDecisionWithRecord E d ar s
          = (Some (AntiStackingLong (d_Symbol d)), ar,
             s\<lparr>at_world := w, at_trace := at_trace s @ [CallGetPositions]\<rparr>)"
    by (auto simp: executeDecisionWithRecord_def executeOpenLongWithRecord_def
          callGetPositions_def)
next
  assume "trader_GetPositions E (at_world s) = (Inr positions, w)
      \<and> d_Action d = ''open_short''
      \<and> (\<exists>pos \<in> set positions. vp_symbol pos = d_Symbol d \<and> vp_side pos = ''short'')"
  then show "executeDecisionWithRecord E d ar s
          = (Some (AntiStackingShort (d_Symbol d)), ar,
             s\<lparr>at_world := w, at_trace := at_trace s @ [CallGetPositions]\<rparr>)"
    by (auto simp: executeDecisionWithRecord_def executeOpenShortWithRecord_def
          callGetPositions_def)
next
  assume "trader_GetPositions E (at_world s) = (Inl err, w)
      \<and> (d_Action d = ''open_long'' \<or> d_Action d = ''open_short'')"
  then show "\<exists>rest. at_trace (snd (snd (executeDecisionWithRecord E d ar s)))
                  = at_trace s @ [CallGetPositions, CallMarketGet (d_Symbol d)] @ rest"
    by (auto simp: executeDecisionWithRecord_def executeOpenLongWithRecord_def
          executeOpenShortWithRecord_def callGetPositions_def callMarketGet_def
          callOpenLong_def callOpenShort_def callSetStopLoss_def callSetTakeProfit_def Let_def
          split: sum.splits option.splits prod.splits)
qed

theorem anti_stacking_when_positions_read_witness:
  "executeDecisionWithRecord (simEnv []) (simDecision ''BTCUSDT'' ''open_long'') emptyAction
      (stackedTrader\<lparr>at_world := at_world stackedTrader\<lparr>sim_positionsFail := False\<rparr>\<rparr>)
     = (Some (AntiStackingLong ''BTCUSDT''), emptyAction,
        stackedTrader\<lparr>at_world := at_world stackedTrader\<lparr>sim_positionsFail := False\<rparr>,
                      at_trace := [CallGetPositions]\<rparr>)
   \<and> (\<exists>rest. at_trace (snd (snd (executeDecisionWithRecord (simEnv [])
            (simDecision ''BTCUSDT'' ''open_long'') emptyAction stackedTrader)))
        = [CallGetPositions, CallMarketGet ''BTCUSDT''] @ rest)"
proof -
  let ?s = "stackedTrader\<lparr>at_world := at_world stackedTrader\<lparr>sim_positionsFail := False\<rparr>\<rparr>"
  have r: "trader_GetPositions (simEnv []) (at_world ?s)
      = (Inr [simPosition ''BTCUSDT'' ''long'' 100 100 10], at_world ?s)"
    by (simp add: simEnv_def stackedTrader_def simTrader_def simWorld_def)
  have f: "trader_GetPositions (simEnv []) (at_world stackedTrader)
      = (Inl VenueFailure, at_world stackedTrader)"
    by (simp add: simEnv_def stackedTrader_def simTrader_def simWorld_def)
  have a: "executeDecisionWithRecord (simEnv []) (simDecision ''BTCUSDT'' ''open_long'')
      emptyAction ?s
     = (Some (AntiStackingLong ''BTCUSDT''), emptyAction,
        ?s\<lparr>at_world := at_world ?s, at_trace := at_trace ?s @ [CallGetPositions]\<rparr>)"
    using anti_stacking_when_positions_read
      [where E = "simEnv []" and s = ?s
         and positions = "[simPosition ''BTCUSDT'' ''long'' 100 100 10]" and w = "at_world ?s"
         and d = "simDecision ''BTCUSDT'' ''open_long''" and ar = emptyAction] r
    by (simp add: simDecision_def simPosition_def)
  have b: "\<exists>rest. at_trace (snd (snd (executeDecisionWithRecord (simEnv [])
            (simDecision ''BTCUSDT'' ''open_long'') emptyAction stackedTrader)))
        = at_trace stackedTrader @ [CallGetPositions, CallMarketGet ''BTCUSDT''] @ rest"
    using anti_stacking_when_positions_read
      [where E = "simEnv []" and s = stackedTrader and w = "at_world stackedTrader"
         and d = "simDecision ''BTCUSDT'' ''open_long''" and ar = emptyAction
         and err = VenueFailure] f
    by (simp add: simDecision_def)
  have t: "at_trace stackedTrader = []" "at_trace ?s = []"
    by (simp_all add: stackedTrader_def simTrader_def)
  from a b t show ?thesis by simp
qed

text \<open>
  The dispatcher of the first trader computes the quantity from the current market
  price and does not look at the entry price of the intent: with the market at 200 and
  an entry price of 100, the exchange is asked to open 1000 / 200 = 5 units.
\<close>

lemma first_trader_opens_at_market_price:
  "d_EntryPrice (simDecision ''BTCUSDT'' ''open_long'') = 100
   \<and> map_of (sim_prices (at_world driftTrader)) ''BTCUSDT'' = Some 200
   \<and> fst (executeDecisionWithRecord (simEnv []) (simDecision ''BTCUSDT'' ''open_long'')
            emptyAction driftTrader) = None
   \<and> at_trace (snd (snd (executeDecisionWithRecord (simEnv [])
            (simDecision ''BTCUSDT'' ''open_long'') emptyAction driftTrader)))
       = [CallGetPositions, CallMarketGet ''BTCUSDT'', CallOpenLong ''BTCUSDT'' 5 5,
          CallSetStopLoss ''BTCUSDT'' ''LONG'' 5 98]"
  by (simp add: executeDecisionWithRecord_def executeOpenLongWithRecord_def
        callGetPositions_def callMarketGet_def callOpenLong_def callSetStopLoss_def
        callSetTakeProfit_def simEnv_def driftTrader_def simTrader_def simWorld_def
        simDecision_def simConfig_def Let_def)

lemma call_B_trace [simp]: "atB_trace (snd (call_B f event s)) = atB_trace s @ [event]"
  by (simp add: call_B_def split: prod.splits)

text \<open>The test of the deviation in percent, for a positive entry price.\<close>

lemma priceDiff_outside_3:
  fixes c e :: real
  assumes "e > 0"
  shows "((c - e) / e * 100 > 3 \<or> (c - e) / e * 100 < - 3) = (\<bar>c - e\<bar> > 0.03 * e)"
  using assms by (auto simp: field_simps abs_if)

lemma executeOpenLongWithRecord_B_drift:
  assumes "trader_GetPositions E (atB_world s) = (r, w1)"
    and "case r of
            Inr positions \<Rightarrow>
              \<not> (\<exists>pos \<in> set positions. vp_symbol pos = d_Symbol d \<and> vp_side pos = ''long'')
          | Inl err \<Rightarrow> True"
    and "market_Get E (d_Symbol d) w1 = (Inr currentPrice, w2)"
    and "d_EntryPrice d > 0"
  shows "if \<bar>currentPrice - d_EntryPrice d\<bar> > 0.03 * d_EntryPrice d
         then executeOpenLongWithRecord_B E d ar s
              = (Some (PriceDrift ((currentPrice - d_EntryPrice d) / d_EntryPrice d * 100)), ar,
                 s\<lparr>atB_world := w2,
                   atB_trace := atB_trace s @ [CallGetPositions, CallMarketGet (d_Symbol d)]\<rparr>)
         else fst (executeOpenLongWithRecord_B E d ar s)
                = fst (trader_OpenLong E (d_Symbol d) (d_PositionSizeUSD d / currentPrice)
                         (d_Leverage d) w2)
              \<and> (\<exists>rest. atB_trace (snd (snd (executeOpenLongWithRecord_B E d ar s)))
                   = atB_trace s @ [CallGetPositions, CallMarketGet (d_Symbol d),
                        CallOpenLong (d_Symbol d) (d_PositionSizeUSD d / currentPrice)
                          (d_Leverage d)] @ rest)"
proof -
  have p: "call_B (trader_GetPositions E) CallGetPositions s
      = (r, s\<lparr>atB_world := w1, atB_trace := atB_trace s @ [CallGetPositions]\<rparr>)"
    using assms(1) by (simp add: call_B_def)
  have m: "call_B (market_Get E (d_Symbol d)) (CallMarketGet (d_Symbol d))
        (s\<lparr>atB_world := w1, atB_trace := atB_trace s @ [CallGetPositions]\<rparr>)
      = (Inr currentPrice,
         s\<lparr>atB_world := w2,
           atB_trace := atB_trace s @ [CallGetPositions, CallMarketGet (d_Symbol d)]\<rparr>)"
    using assms(3) by (simp add: call_B_def)
  have a: "\<not> (case r of
            Inr positions \<Rightarrow>
              (\<exists>pos \<in> set positions. vp_symbol pos = d_Symbol d \<and> vp_side pos = ''long'')
          | Inl err \<Rightarrow> False)"
    using assms(2) by (cases r) auto
  show ?thesis
  proof (cases "\<bar>currentPrice - d_EntryPrice d\<bar> > 0.03 * d_EntryPrice d")
    case True
    then have "(currentPrice - d_EntryPrice d) / d_EntryPrice d * 100 > 3
        \<or> (currentPrice - d_EntryPrice d) / d_EntryPrice d * 100 < - 3"
      using priceDiff_outside_3[OF assms(4), of currentPrice] by simp
    then show ?thesis
      using True p m a by (simp add: executeOpenLongWithRecord_B_def Let_def)
  next
    case False
    then have n: "\<not> ((currentPrice - d_EntryPrice d) / d_EntryPrice d * 100 > 3
        \<or> (currentPrice - d_EntryPrice d) / d_EntryPrice d * 100 < - 3)"
      using priceDiff_outside_3[OF assms(4), of currentPrice] by simp
    obtain res w3 where res: "trader_OpenLong E (d_Symbol d) (d_PositionSizeUSD d / currentPrice)
        (d_Leverage d) w2 = (res, w3)"
      by (metis surj_pair)
    have c: "call_B (trader_OpenLong E (d_Symbol d) (d_PositionSizeUSD d / currentPrice)
               (d_Leverage d))
          (CallOpenLong (d_Symbol d) (d_PositionSizeUSD d / currentPrice) (d_Leverage d))
          (s\<lparr>atB_world := w2,
             atB_trace := atB_trace s @ [CallGetPositions, CallMarketGet (d_Symbol d)]\<rparr>)
        = (res, s\<lparr>atB_world := w3,
             atB_trace := atB_trace s @ [CallGetPositions, CallMarketGet (d_Symbol d),
               CallOpenLong (d_Symbol d) (d_PositionSizeUSD d / currentPrice) (d_Leverage d)]\<rparr>)"
      using res by (simp add: call_B_def)
    show ?thesis
      using False p m a n res c
      by (cases res) (simp_all add: executeOpenLongWithRecord_B_def Let_def)
  qed
qed

lemma executeOpenShortWithRecord_B_drift:
  assumes "trader_GetPositions E (atB_world s) = (r, w1)"
    and "case r of
            Inr positions \<Rightarrow>
              \<not> (\<exists>pos \<in> set positions. vp_symbol pos = d_Symbol d \<and> vp_side pos = ''short'')
          | Inl err \<Rightarrow> True"
    and "market_Get E (d_Symbol d) w1 = (Inr currentPrice, w2)"
    and "d_EntryPrice d > 0"
  shows "if \<bar>currentPrice - d_EntryPrice d\<bar> > 0.03 * d_EntryPrice d
         then executeOpenShortWithRecord_B E d ar s
              = (Some (PriceDrift ((currentPrice - d_EntryPrice d) / d_EntryPrice d * 100)), ar,
                 s\<lparr>atB_world := w2,
                   atB_trace := atB_trace s @ [CallGetPositions, CallMarketGet (d_Symbol d)]\<rparr>)
         else fst (executeOpenShortWithRecord_B E d ar s)
                = fst (trader_OpenShort E (d_Symbol d) (d_PositionSizeUSD d / currentPrice)
                         (d_Leverage d) w2)
              \<and> (\<exists>rest. atB_trace (snd (snd (executeOpenShortWithRecord_B E d ar s)))
                   = atB_trace s @ [CallGetPositions, CallMarketGet (d_Symbol d),
                        CallOpenShort (d_Symbol d) (d_PositionSizeUSD d / currentPrice)
                          (d_Leverage d)] @ rest)"
proof -
  have p: "call_B (trader_GetPositions E) CallGetPositions s
      = (r, s\<lparr>atB_world := w1, atB_trace := atB_trace s @ [CallGetPositions]\<rparr>)"
    using assms(1) by (simp add: call_B_def)
  have m: "call_B (market_Get E (d_Symbol d)) (CallMarketGet (d_Symbol d))
        (s\<lparr>atB_world := w1, atB_trace := atB_trace s @ [CallGetPositions]\<rparr>)
      = (Inr currentPrice,
         s\<lparr>atB_world := w2,
           atB_trace := atB_trace s @ [CallGetPositions, CallMarketGet (d_Symbol d)]\<rparr>)"
    using assms(3) by (simp add: call_B_def)
  have a: "\<not> (case r of
            Inr positions \<Rightarrow>
              (\<exists>pos \<in> set positions. vp_symbol pos = d_Symbol d \<and> vp_side pos = ''short'')
          | Inl err \<Rightarrow> False)"
    using assms(2) by (cases r) auto
  show ?thesis
  proof (cases "\<bar>currentPrice - d_EntryPrice d\<bar> > 0.03 * d_EntryPrice d")
    case True
    then have "(currentPrice - d_EntryPrice d) / d_EntryPrice d * 100 > 3
        \<or> (currentPrice - d_EntryPrice d) / d_EntryPrice d * 100 < - 3"
      using priceDiff_outside_3[OF assms(4), of currentPrice] by simp
    then show ?thesis
      using True p m a by (simp add: executeOpenShortWithRecord_B_def Let_def)
  next
    case False
    then have n: "\<not> ((currentPrice - d_EntryPrice d) / d_EntryPrice d * 100 > 3
        \<or> (currentPrice - d_EntryPrice d) / d_EntryPrice d * 100 < - 3)"
      using priceDiff_outside_3[OF assms(4), of currentPrice] by simp
    obtain res w3 where res: "trader_OpenShort E (d_Symbol d) (d_PositionSizeUSD d / currentPrice)
        (d_Leverage d) w2 = (res, w3)"
      by (metis surj_pair)
    have c: "call_B (trader_OpenShort E (d_Symbol d) (d_PositionSizeUSD d / currentPrice)
               (d_Leverage d))
          (CallOpenShort (d_Symbol d) (d_PositionSizeUSD d / currentPrice) (d_Leverage d))
          (s\<lparr>atB_world := w2,
             atB_trace := atB_trace s @ [CallGetPositions, CallMarketGet (d_Symbol d)]\<rparr>)
        = (res, s\<lparr>atB_world := w3,
             atB_trace := atB_trace s @ [CallGetPositions, CallMarketGet (d_Symbol d),
               CallOpenShort (d_Symbol d) (d_PositionSizeUSD d / currentPrice) (d_Leverage d)]\<rparr>)"
      using res by (simp add: call_B_def)
    show ?thesis
      using False p m a n res c
      by (cases res) (simp_all add: executeOpenShortWithRecord_B_def Let_def)
  qed
qed

text \<open>
  Claim C8. When the second trader dispatches an intent to open with a positive entry
  price, is not stopped by the anti-stacking check and obtains the market price: if the
  price deviates from the entry price of the intent by more than 3% of the entry price,
  the dispatch ends with the price-drift error, the action record is untouched and
  nothing has been done but the read of the positions and the fetch of the price, so the
  exchange receives no order; otherwise the exchange is asked to open the quantity
  positionSizeUSD / currentMarketPrice and the dispatch fails exactly when that order
  fails.
\<close>

theorem price_drift_aborts_open:
  "(trader_GetPositions E (atB_world s) = (r, w1)
      \<and> (case r of
            Inr positions \<Rightarrow>
              \<not> (\<exists>pos \<in> set positions. vp_symbol pos = d_Symbol d \<and> vp_side pos = ''long'')
          | Inl err \<Rightarrow> True)
      \<and> market_Get E (d_Symbol d) w1 = (Inr currentPrice, w2)
      \<and> d_EntryPrice d > 0
     \<longrightarrow> (if \<bar>currentPrice - d_EntryPrice d\<bar> > 0.03 * d_EntryPrice d
          then executeOpenLongWithRecord_B E d ar s
               = (Some (PriceDrift ((currentPrice - d_EntryPrice d) / d_EntryPrice d * 100)), ar,
                  s\<lparr>atB_world := w2,
                    atB_trace := atB_trace s @ [CallGetPositions, CallMarketGet (d_Symbol d)]\<rparr>)
          else fst (executeOpenLongWithRecord_B E d ar s)
                 = fst (trader_OpenLong E (d_Symbol d) (d_PositionSizeUSD d / currentPrice)
                          (d_Leverage d) w2)
               \<and> (\<exists>rest. atB_trace (snd (snd (executeOpenLongWithRecord_B E d ar s)))
                    = atB_trace s @ [CallGetPositions, CallMarketGet (d_Symbol d),
                         CallOpenLong (d_Symbol d) (d_PositionSizeUSD d / currentPrice)
                           (d_Leverage d)] @ rest)))
   \<and> (trader_GetPositions E (atB_world s) = (r, w1)
      \<and> (case r of
            Inr positions \<Rightarrow>
              \<not> (\<exists>pos \<in> set positions. vp_symbol pos = d_Symbol d \<and> vp_side pos = ''short'')
          | Inl err \<Rightarrow> True)
      \<and> market_Get E (d_Symbol d) w1 = (Inr currentPrice, w2)
      \<and> d_EntryPrice d > 0
     \<longrightarrow> (if \<bar>currentPrice - d_EntryPrice d\<bar> > 0.03 * d_EntryPrice d
          then executeOpenShortWithRecord_B E d ar s
               = (Some (PriceDrift ((currentPrice - d_EntryPrice d) / d_EntryPrice d * 100)), ar,
                  s\<lparr>atB_world := w2,
                    atB_trace := atB_trace s @ [CallGetPositions, CallMarketGet (d_Symbol d)]\<rparr>)
          else fst (executeOpenShortWithRecord_B E d ar s)
                 = fst (trader_OpenShort E (d_Symbol d) (d_PositionSizeUSD d / currentPrice)
                          (d_Leverage d) w2)
               \<and> (\<exists>rest. atB_trace (snd (snd (executeOpenShortWithRecord_B E d ar s)))
                    = atB_trace s @ [CallGetPositions, CallMarketGet (d_Symbol d),
                         CallOpenShort (d_Symbol d) (d_PositionSizeUSD d / currentPrice)
                           (d_Leverage d)] @ rest)))"
  using executeOpenLongWithRecord_B_drift[of E s r w1 d currentPrice w2 ar]
    executeOpenShortWithRecord_B_drift[of E s r w1 d currentPrice w2 ar]
  by blast

theorem price_drift_aborts_open_witness:
  "executeOpenLongWithRecord_B (simEnv []) (simDecision ''BTCUSDT'' ''open_long'') emptyAction
       (simTrader_B 200)
     = (Some (PriceDrift 100), emptyAction,
        (simTrader_B 200)\<lparr>atB_trace := [CallGetPositions, CallMarketGet ''BTCUSDT'']\<rparr>)
   \<and> fst (executeOpenShortWithRecord_B (simEnv []) (simDecision ''BTCUSDT'' ''open_short'')
            emptyAction (simTrader_B 102)) = None
   \<and> (\<exists>rest. atB_trace (snd (snd (executeOpenShortWithRecord_B (simEnv [])
          (simDecision ''BTCUSDT'' ''open_short'') emptyAction (simTrader_B 102))))
        = [CallGetPositions, CallMarketGet ''BTCUSDT'', CallOpenShort ''BTCUSDT'' (1000 / 102) 5]
          @ rest)"
proof -
  have p: "trader_GetPositions (simEnv []) (atB_world (simTrader_B q))
      = (Inr [], atB_world (simTrader_B q))" for q
    by (simp add: simEnv_def simTrader_B_def simWorld_def)
  have m: "market_Get (simEnv []) ''BTCUSDT'' (atB_world (simTrader_B q))
      = (Inr q, atB_world (simTrader_B q))" for q
    by (simp add: simEnv_def simTrader_B_def simWorld_def)
  have o: "fst (trader_OpenShort (simEnv []) ''BTCUSDT'' (1000 / 102) 5
      (atB_world (simTrader_B 102))) = None"
    by (simp add: simEnv_def)
  have t: "atB_trace (simTrader_B q) = []" for q
    by (simp add: simTrader_B_def)
  have e: "(simTrader_B q)\<lparr>atB_world := atB_world (simTrader_B q), atB_trace := tr\<rparr>
      = (simTrader_B q)\<lparr>atB_trace := tr\<rparr>" for q tr
    by simp
  have long: "executeOpenLongWithRecord_B (simEnv []) (simDecision ''BTCUSDT'' ''open_long'')
       emptyAction (simTrader_B 200)
     = (Some (PriceDrift 100), emptyAction,
        (simTrader_B 200)\<lparr>atB_trace := [CallGetPositions, CallMarketGet ''BTCUSDT'']\<rparr>)"
    using price_drift_aborts_open
      [where E = "simEnv []" and s = "simTrader_B 200" and r = "Inr []"
         and ?w1.0 = "atB_world (simTrader_B 200)" and d = "simDecision ''BTCUSDT'' ''open_long''"
         and currentPrice = 200 and ?w2.0 = "atB_world (simTrader_B 200)" and ar = emptyAction]
      p[of 200] m[of 200] t[of 200]
    by (simp add: simDecision_def)
  have short: "fst (executeOpenShortWithRecord_B (simEnv []) (simDecision ''BTCUSDT'' ''open_short'')
            emptyAction (simTrader_B 102)) = None
   \<and> (\<exists>rest. atB_trace (snd (snd (executeOpenShortWithRecord_B (simEnv [])
          (simDecision ''BTCUSDT'' ''open_short'') emptyAction (simTrader_B 102))))
        = [CallGetPositions, CallMarketGet ''BTCUSDT'', CallOpenShort ''BTCUSDT'' (1000 / 102) 5]
          @ rest)"
    using price_drift_aborts_open
      [where E = "simEnv []" and s = "simTrader_B 102" and r = "Inr []"
         and ?w1.0 = "atB_world (simTrader_B 102)" and d = "simDecision ''BTCUSDT'' ''open_short''"
         and currentPrice = 102 and ?w2.0 = "atB_world (simTrader_B 102)" and ar = emptyAction]
      p[of 102] m[of 102] o t[of 102]
    by (simp add: simDecision_def)
  from long short show ?thesis by simp
qed

section \<open>The cycle\<close>

text \<open>The definitions unfolded to run the cycle in the scripted world.\<close>

lemmas cycle_defs =
  runCycle_def runCycleResets_def runCycleProtect_def runCycleDecide_def
  buildTradingContext_def trackPosition_def forgetClosedKey_def forgetClosedSymbols_def
  checkStopLossTriggered_def checkClosedPosition_def checkTrailingStopAndPartialTP_def
  checkPosition_def
  trailingStopBlock_def partialTakeProfitBlock_def executeTrailingStop_def
  executePartialTakeProfit_def modifyTracking_def newTracking_def GetFullDecision_def
  parseFullDecisionResponse_def dispatchDecision_def executeDecisionWithRecord_def
  executeCloseLongWithRecord_def sortDecisionsByPriority_def
  callGetBalance_def callGetPositions_def callGetMergedCoinPool_def callCloseLong_def
  callCloseShort_def callMarketGet_def callAI_def callLogDecision_def
  truncateToInt_def lookupString_def unixMilli_def hourNanos_def pnlPercent_def trackPnL_def
  target50Price_def target100Price_def reachedTarget_def

lemmas sim_defs =
  simEnv_def simTrader_def simWorld_def simConfig_def simPosition_def simDecision_def

lemma runCycleDecide_failure:
  assumes "fst (runCycleDecide E ctx rcd s) = Some (GetDecisionFailed err)"
  shows "\<exists>rcd'. at_trace (snd (runCycleDecide E ctx rcd s))
            = at_trace s @ [CallAI, CallLogDecision rcd']"
  using assms
  by (auto simp: runCycleDecide_def GetFullDecision_def callAI_def callLogDecision_def
        split: prod.splits sum.splits option.splits)

lemma runCycleProtect_failure:
  assumes "fst (runCycleProtect E ctx rcd s) = Some (GetDecisionFailed err)"
  shows "\<exists>pre rcd'. at_trace (snd (runCycleProtect E ctx rcd s))
            = pre @ [CallAI, CallLogDecision rcd']"
proof -
  obtain h r s2 where c:
    "checkTrailingStopAndPartialTP E ctx rcd False (checkStopLossTriggered E ctx s) = (h, r, s2)"
    by (metis prod_cases3)
  obtain x s3 where b: "(if h then buildTradingContext E s2 else (Inr ctx, s2)) = (x, s3)"
    by (metis surj_pair)
  show ?thesis
  proof (cases x)
    case (Inl e)
    then show ?thesis using assms c b by (simp add: runCycleProtect_def Let_def)
  next
    case (Inr ctx1)
    then have "runCycleProtect E ctx rcd s = runCycleDecide E ctx1 r s3"
      using c b by (simp add: runCycleProtect_def Let_def)
    then show ?thesis using runCycleDecide_failure[of E ctx1 r s3 err] assms by auto
  qed
qed

lemma runCycle_decision_failure:
  assumes "fst (runCycle E s) = Some (GetDecisionFailed err)"
  shows "\<exists>pre rcd. at_trace (snd (runCycle E s)) = pre @ [CallAI, CallLogDecision rcd]"
proof (cases "cfg_EnableExponentialBackoff (at_config s)
    \<and> time_Now E (at_world s) < at_backoffUntil s")
  case True
  then show ?thesis using assms by (simp add: runCycle_def Let_def)
next
  case nb: False
  show ?thesis
  proof (cases "time_Now E (at_world s) < at_stopUntil s")
    case True
    then show ?thesis using assms nb by (simp add: runCycle_def Let_def)
  next
    case ns: False
    let ?s2 = "runCycleResets E (s\<lparr>at_callCount := at_callCount s + 1\<rparr>)"
    obtain x s3 where b: "buildTradingContext E ?s2 = (x, s3)" by (metis surj_pair)
    show ?thesis
    proof (cases x)
      case (Inl e)
      then have "fst (runCycle E s) = Some (BuildContextFailed e)"
        using nb ns b by (auto simp: runCycle_def Let_def)
      then show ?thesis using assms by simp
    next
      case (Inr ctx)
      then have "runCycle E s = runCycleProtect E ctx
          \<lparr>rec_Success = True, rec_ErrorMessage = None, rec_Decisions = []\<rparr> s3"
        using nb ns b by (auto simp: runCycle_def Let_def)
      then show ?thesis using runCycleProtect_failure[of E ctx _ s3 err] assms by auto
    qed
  qed
qed

lemma validateDecisionsFrom_first_failure:
  assumes "\<forall>d \<in> set pre. validateDecision d eq bl al = None"
    and "validateDecision d eq bl al = Some e"
  shows "validateDecisionsFrom i (pre @ d # post) eq bl al
           = Some (DecisionInvalid (i + length pre + 1) e)"
  using assms
  by (induction pre arbitrary: i) auto

lemma validateDecisions_mixedBatch:
  "validateDecisions mixedBatch 1000 10 5 = Some (DecisionInvalid 1 (RiskRewardTooLow (3 / 2)))"
  by (simp add: mixedBatch_def simDecision_def validateDecisions_def validateDecision_def
        validActions_def checkOpenOrIncrease_def TrimSpace_def trimLeft.simps headRune_def spaceRunes_def Let_def)




text \<open>
  Claim C10, as stated, fails on the code. The validator stops at the first intent
  that fails and the whole proposal is refused. In the scripted world the model
  proposes an \<open>open_long\<close> with a ratio of 1.5 followed by a valid \<open>close_long\<close> of ETHUSDT:
  the cycle ends with the validation error right after the call of the model, and
  ETHUSDT is not closed. The same \<open>close_long\<close> proposed alone is dispatched.
\<close>

theorem batch_validation_counterexample:
  "validateDecision (simDecision ''ETHUSDT'' ''close_long'') 1000 10 5 = None
   \<and> fst (runCycle (simEnv mixedBatch) simTrader)
       = Some (GetDecisionFailed (ParseFailed (ValidationFailed
                (DecisionInvalid 1 (RiskRewardTooLow (3 / 2))))))
   \<and> at_trace (snd (runCycle (simEnv mixedBatch) simTrader))
       = [CallGetBalance, CallGetPositions, CallGetMergedCoinPool, EnterProfitLossPass, CallAI,
          CallLogDecision
            \<lparr>rec_Success = False,
             rec_ErrorMessage = Some (GetDecisionFailed (ParseFailed (ValidationFailed
                (DecisionInvalid 1 (RiskRewardTooLow (3 / 2)))))),
             rec_Decisions = []\<rparr>]
   \<and> CallCloseLong ''ETHUSDT'' 0
       \<in> set (at_trace (snd (runCycle (simEnv [simDecision ''ETHUSDT'' ''close_long'']) simTrader)))"
proof -
  have a: "validateDecision (simDecision ''ETHUSDT'' ''close_long'') 1000 10 5 = None"
    by (simp add: simDecision_def validateDecision_def validActions_def)
  have b: "runCycle (simEnv mixedBatch) simTrader
      = (Some (GetDecisionFailed (ParseFailed (ValidationFailed
                (DecisionInvalid 1 (RiskRewardTooLow (3 / 2)))))),
         simTrader\<lparr>at_callCount := 1, at_lastTotalEquity := 1000,
           at_trace := [CallGetBalance, CallGetPositions, CallGetMergedCoinPool,
             EnterProfitLossPass, CallAI,
             CallLogDecision
               \<lparr>rec_Success = False,
                rec_ErrorMessage = Some (GetDecisionFailed (ParseFailed (ValidationFailed
                   (DecisionInvalid 1 (RiskRewardTooLow (3 / 2)))))),
                rec_Decisions = []\<rparr>]\<rparr>)"
    by (simp add: cycle_defs simEnv_def simTrader_def simWorld_def simConfig_def
          validateDecisions_mixedBatch Let_def)
  have c: "at_trace (snd (runCycle (simEnv [simDecision ''ETHUSDT'' ''close_long'']) simTrader))
      = [CallGetBalance, CallGetPositions, CallGetMergedCoinPool, EnterProfitLossPass, CallAI,
         CallMarketGet ''ETHUSDT'', CallCloseLong ''ETHUSDT'' 0,
         CallLogDecision
           \<lparr>rec_Success = True, rec_ErrorMessage = None,
            rec_Decisions =
              [\<lparr>da_Action = ''close_long'', da_Symbol = ''ETHUSDT'', da_Quantity = 0,
                da_Leverage = 5, da_Price = 100, da_Success = True, da_Error = None\<rparr>]\<rparr>]"
    by (simp add: cycle_defs sim_defs validateDecisions_def validateDecision_def
          validActions_def Let_def)
  from a b c show ?thesis by simp
qed

text \<open>
  Claim C10, amended. When an intent of a proposed batch fails validation,
  \<open>validateDecisions\<close> stops at the first such intent and returns its error with its
  one-based index, whatever follows it in the batch; \<open>GetFullDecision\<close> then fails, the
  cycle saves a record carrying that error and ends, and no intent of the batch is
  dispatched: in the trace the call of the model is followed by the saving of the
  record alone.
\<close>

theorem batch_rejected_at_first_invalid_intent:
  "((\<forall>d' \<in> set pre. validateDecision d' eq bl al = None)
      \<and> validateDecision d eq bl al = Some e
     \<longrightarrow> validateDecisions (pre @ d # post) eq bl al = Some (DecisionInvalid (length pre + 1) e))
   \<and> (ai_Call E ctx (at_world s) = (Inr reply, w)
      \<and> json_extractDecisions E reply = Inr decisions
      \<and> validateDecisions decisions (acc_TotalEquity (ctx_Account ctx))
            (ctx_BTCETHLeverage ctx) (ctx_AltcoinLeverage ctx) = Some e
     \<longrightarrow> runCycleDecide E ctx rcd s
          = (Some (GetDecisionFailed (ParseFailed (ValidationFailed e))),
             callLogDecision E
               (rcd\<lparr>rec_Success := False,
                    rec_ErrorMessage := Some (GetDecisionFailed (ParseFailed (ValidationFailed e)))\<rparr>)
               (s\<lparr>at_world := w, at_trace := at_trace s @ [CallAI]\<rparr>)))
   \<and> (fst (runCycle E s) = Some (GetDecisionFailed err)
     \<longrightarrow> (\<exists>before rcd'. at_trace (snd (runCycle E s)) = before @ [CallAI, CallLogDecision rcd']))"
proof (intro conjI impI)
  assume "(\<forall>d' \<in> set pre. validateDecision d' eq bl al = None)
      \<and> validateDecision d eq bl al = Some e"
  then show "validateDecisions (pre @ d # post) eq bl al = Some (DecisionInvalid (length pre + 1) e)"
    using validateDecisionsFrom_first_failure[of pre eq bl al d e 0 post]
    by (simp add: validateDecisions_def)
next
  assume "ai_Call E ctx (at_world s) = (Inr reply, w)
      \<and> json_extractDecisions E reply = Inr decisions
      \<and> validateDecisions decisions (acc_TotalEquity (ctx_Account ctx))
            (ctx_BTCETHLeverage ctx) (ctx_AltcoinLeverage ctx) = Some e"
  then show "runCycleDecide E ctx rcd s
          = (Some (GetDecisionFailed (ParseFailed (ValidationFailed e))),
             callLogDecision E
               (rcd\<lparr>rec_Success := False,
                    rec_ErrorMessage := Some (GetDecisionFailed (ParseFailed (ValidationFailed e)))\<rparr>)
               (s\<lparr>at_world := w, at_trace := at_trace s @ [CallAI]\<rparr>))"
    by (simp add: runCycleDecide_def GetFullDecision_def callAI_def parseFullDecisionResponse_def)
next
  assume "fst (runCycle E s) = Some (GetDecisionFailed err)"
  then show "\<exists>before rcd'. at_trace (snd (runCycle E s)) = before @ [CallAI, CallLogDecision rcd']"
    by (rule runCycle_decision_failure)
qed

theorem batch_rejected_at_first_invalid_intent_witness:
  "validateDecisions ([simDecision ''ETHUSDT'' ''close_long'']
       @ (simDecision ''BTCUSDT'' ''open_long'')\<lparr>d_TakeProfit := 103\<rparr>
       # [simDecision ''SOLUSDT'' ''close_short'']) 1000 10 5
     = Some (DecisionInvalid 2 (RiskRewardTooLow (3 / 2)))
   \<and> (\<exists>before rcd'. at_trace (snd (runCycle (simEnv mixedBatch) simTrader))
         = before @ [CallAI, CallLogDecision rcd'])"
proof -
  have v: "validateDecision (simDecision ''ETHUSDT'' ''close_long'') 1000 10 5 = None"
    "validateDecision ((simDecision ''BTCUSDT'' ''open_long'')\<lparr>d_TakeProfit := 103\<rparr>) 1000 10 5
       = Some (RiskRewardTooLow (3 / 2))"
    by (simp_all add: simDecision_def validateDecision_def validActions_def
          checkOpenOrIncrease_def TrimSpace_def trimLeft.simps headRune_def spaceRunes_def Let_def)
  have f: "fst (runCycle (simEnv mixedBatch) simTrader)
      = Some (GetDecisionFailed (ParseFailed (ValidationFailed
                (DecisionInvalid 1 (RiskRewardTooLow (3 / 2))))))"
    by (simp add: cycle_defs simEnv_def simTrader_def simWorld_def simConfig_def
          validateDecisions_mixedBatch Let_def)
  show ?thesis
    using batch_rejected_at_first_invalid_intent
      [where pre = "[simDecision ''ETHUSDT'' ''close_long'']" and eq = 1000 and bl = 10 and al = 5
         and d = "(simDecision ''BTCUSDT'' ''open_long'')\<lparr>d_TakeProfit := 103\<rparr>"
         and e = "RiskRewardTooLow (3 / 2)" and post = "[simDecision ''SOLUSDT'' ''close_short'']"
         and E = "simEnv mixedBatch" and s = simTrader
         and err = "ParseFailed (ValidationFailed (DecisionInvalid 1 (RiskRewardTooLow (3 / 2))))"]
      v f
    by simp
qed

section \<open>The automatic profit and loss control\<close>

lemma executePartialTakeProfit_effect:
  assumes "executePartialTakeProfit E pos ratio rcd s = (err, rcd', s')"
  shows "at_positionPnLTracking s' = at_positionPnLTracking s \<and> at_config s' = at_config s
    \<and> at_trace s' = at_trace s @ [closeEvent pos (pos_Quantity pos * ratio)]
    \<and> closeAnswer E pos (pos_Quantity pos * ratio) (at_world s) = (err, at_world s')"
  using assms
  by (auto simp: executePartialTakeProfit_def closeEvent_def closeAnswer_def callCloseLong_def callCloseShort_def Let_def
      split: prod.splits option.splits if_splits)


lemma modifyTracking_simps [simp]:
  "at_config (modifyTracking k f s) = at_config s"
  "at_trace (modifyTracking k f s) = at_trace s"
  "at_world (modifyTracking k f s) = at_world s"
  "map_of (at_positionPnLTracking (modifyTracking k f s)) k' =
     (if k' = k then map_option f (map_of (at_positionPnLTracking s) k) else map_of (at_positionPnLTracking s) k')"
  by (auto simp: modifyTracking_def map_of_map_entry split: option.splits)

lemma partialTakeProfitBlock_trace:
  assumes t: "map_of (at_positionPnLTracking s) (pos_Symbol pos @ ''_'' @ pos_Side pos) = Some t"
    and en: "cfg_EnablePartialTakeProfit (at_config s)" "trk_TakeProfitPrice t > 0"
  shows "at_trace (snd (snd (partialTakeProfitBlock E pos h rcd s))) =
      at_trace s
      @ (if \<not> trk_PartialTP50Executed t \<and> reachedTarget (pos_Side pos) (pos_MarkPrice pos) (target50Price (pos_Side pos) t)
         then [closeEvent pos (pos_Quantity pos * 0.5)] else [])
      @ (if \<not> trk_PartialTP100Executed t \<and> reachedTarget (pos_Side pos) (pos_MarkPrice pos) (target100Price (pos_Side pos) t)
         then [closeEvent pos (pos_Quantity pos * 0.5)] else [])"
proof -
  let ?r50 = "\<not> trk_PartialTP50Executed t \<and> reachedTarget (pos_Side pos) (pos_MarkPrice pos) (target50Price (pos_Side pos) t)"
  let ?r100 = "\<not> trk_PartialTP100Executed t \<and> reachedTarget (pos_Side pos) (pos_MarkPrice pos) (target100Price (pos_Side pos) t)"
  obtain e1 r1 s1 where x1: "executePartialTakeProfit E pos 0.5 rcd s = (e1, r1, s1)"
    by (metis prod_cases3)
  define st1 where "st1 = (if ?r50 then (case e1 of Some err \<Rightarrow> (h, r1, s1)
       | None \<Rightarrow> (True, r1, modifyTracking (pos_Symbol pos @ ''_'' @ pos_Side pos) (\<lambda>t. t\<lparr>trk_PartialTP50Executed := True\<rparr>) s1))
     else (h, rcd, s))"
  obtain h1 rc1 sa where st1eq: "st1 = (h1, rc1, sa)" by (metis prod_cases3)
  have tr1: "at_trace sa = at_trace s @ (if ?r50 then [closeEvent pos (pos_Quantity pos * 0.5)] else [])"
    using st1eq executePartialTakeProfit_effect[OF x1]
    by (auto simp: st1_def split: if_splits option.splits)
  obtain e2 r2 s2 where x2: "executePartialTakeProfit E pos 0.5 rc1 sa = (e2, r2, s2)"
    by (metis prod_cases3)
  have blk: "partialTakeProfitBlock E pos h rcd s =
     (if ?r100 then (case e2 of Some err \<Rightarrow> (h1, r2, s2)
        | None \<Rightarrow> (True, r2, modifyTracking (pos_Symbol pos @ ''_'' @ pos_Side pos) (\<lambda>t. t\<lparr>trk_PartialTP100Executed := True\<rparr>) s2))
      else (h1, rc1, sa))"
    using t en x1 x2 st1eq
    by (auto simp: partialTakeProfitBlock_def Let_def st1_def split: option.splits if_splits)
  show ?thesis
    using blk tr1 executePartialTakeProfit_effect[OF x2]
    by (auto split: option.splits)
qed


lemma flagsKept_refl [simp]: "flagsKept t t"
  by (simp add: flagsKept_def)


lemma trackingKept_refl [simp]: "trackingKept m m"
  by (simp add: trackingKept_def)















lemma partialTakeProfitBlock_flags:
  assumes t: "map_of (at_positionPnLTracking s) (pos_Symbol pos @ ''_'' @ pos_Side pos) = Some t"
    and en: "cfg_EnablePartialTakeProfit (at_config s)" "trk_TakeProfitPrice t > 0"
  shows "map_of (at_positionPnLTracking (snd (snd (partialTakeProfitBlock E pos h rcd s))))
           (pos_Symbol pos @ ''_'' @ pos_Side pos) =
      (let q = pos_Quantity pos * 0.5;
           r50 = (\<not> trk_PartialTP50Executed t
                 \<and> reachedTarget (pos_Side pos) (pos_MarkPrice pos) (target50Price (pos_Side pos) t));
           r100 = (\<not> trk_PartialTP100Executed t
                 \<and> reachedTarget (pos_Side pos) (pos_MarkPrice pos) (target100Price (pos_Side pos) t));
           a1 = closeAnswer E pos q (at_world s);
           a2 = closeAnswer E pos q (if r50 then snd a1 else at_world s)
       in Some (t\<lparr>trk_PartialTP50Executed := trk_PartialTP50Executed t \<or> (r50 \<and> fst a1 = None),
                  trk_PartialTP100Executed := trk_PartialTP100Executed t \<or> (r100 \<and> fst a2 = None)\<rparr>))"
proof -
  let ?k = "pos_Symbol pos @ ''_'' @ pos_Side pos"
  let ?q = "pos_Quantity pos * 0.5"
  let ?r50 = "\<not> trk_PartialTP50Executed t \<and> reachedTarget (pos_Side pos) (pos_MarkPrice pos) (target50Price (pos_Side pos) t)"
  let ?r100 = "\<not> trk_PartialTP100Executed t \<and> reachedTarget (pos_Side pos) (pos_MarkPrice pos) (target100Price (pos_Side pos) t)"
  obtain e1 r1 s1 where x1: "executePartialTakeProfit E pos 0.5 rcd s = (e1, r1, s1)"
    by (metis prod_cases3)
  define st1 where "st1 = (if ?r50 then (case e1 of Some err \<Rightarrow> (h, r1, s1)
       | None \<Rightarrow> (True, r1, modifyTracking ?k (\<lambda>t. t\<lparr>trk_PartialTP50Executed := True\<rparr>) s1))
     else (h, rcd, s))"
  obtain h1 rc1 sa where st1eq: "st1 = (h1, rc1, sa)" by (metis prod_cases3)
  have a1: "closeAnswer E pos ?q (at_world s) = (e1, at_world s1)"
    and tk1: "at_positionPnLTracking s1 = at_positionPnLTracking s"
    using executePartialTakeProfit_effect[OF x1] by simp_all
  have w1: "at_world sa = (if ?r50 then at_world s1 else at_world s)"
    using st1eq by (auto simp: st1_def split: if_splits option.splits)
  have m1: "map_of (at_positionPnLTracking sa) ?k
      = Some (t\<lparr>trk_PartialTP50Executed := trk_PartialTP50Executed t \<or> (?r50 \<and> e1 = None)\<rparr>)"
    using st1eq t tk1 by (auto simp: st1_def split: if_splits option.splits)
  obtain e2 r2 s2 where x2: "executePartialTakeProfit E pos 0.5 rc1 sa = (e2, r2, s2)"
    by (metis prod_cases3)
  have a2: "closeAnswer E pos ?q (at_world sa) = (e2, at_world s2)"
    and tk2: "at_positionPnLTracking s2 = at_positionPnLTracking sa"
    using executePartialTakeProfit_effect[OF x2] by simp_all
  have blk: "partialTakeProfitBlock E pos h rcd s =
     (if ?r100 then (case e2 of Some err \<Rightarrow> (h1, r2, s2)
        | None \<Rightarrow> (True, r2, modifyTracking ?k (\<lambda>t. t\<lparr>trk_PartialTP100Executed := True\<rparr>) s2))
      else (h1, rc1, sa))"
    using t en x1 x2 st1eq
    by (auto simp: partialTakeProfitBlock_def Let_def st1_def split: option.splits if_splits)
  have m2: "map_of (at_positionPnLTracking (snd (snd (partialTakeProfitBlock E pos h rcd s)))) ?k
      = Some (t\<lparr>trk_PartialTP50Executed := trk_PartialTP50Executed t \<or> (?r50 \<and> e1 = None),
                 trk_PartialTP100Executed := trk_PartialTP100Executed t \<or> (?r100 \<and> e2 = None)\<rparr>)"
    using blk m1 tk2 by (auto split: option.splits)
  have f1: "fst (closeAnswer E pos ?q (at_world s)) = e1" using a1 by simp
  have f2: "fst (closeAnswer E pos ?q (if ?r50 then snd (closeAnswer E pos ?q (at_world s)) else at_world s)) = e2"
    using a1 a2 w1 by (auto split: if_splits)
  show ?thesis
    unfolding Let_def m2 using f1 f2 by simp
qed













text \<open>
  Claim C9. The targets of the partial take-profit are, for a long position,
  target50 = entryPrice + 0.5 (takeProfitPrice - entryPrice) and target100 =
  takeProfitPrice and, for a short position, target50 = entryPrice - 0.5 (entryPrice -
  takeProfitPrice) and target100 = takeProfitPrice; a long position entered at 50000
  with take-profit 55000 has the targets 52500 and 55000, a short one entered at 3000
  with take-profit 2700 the targets 2850 and 2700. For a tracked position with a
  take-profit price, the partial take-profit makes one execution for each target that
  is reached and whose flag is not yet set, and none for a target whose flag is set: at
  most one for each target, and both, each once, when the price has passed both targets
  with both flags unset. After the pass a flag is set exactly when it was set before or
  the execution for its target was made and succeeded.
\<close>

theorem partial_take_profit_targets_fire_once:
  "target50Price ''long'' t = trk_EntryPrice t + 0.5 * (trk_TakeProfitPrice t - trk_EntryPrice t)
   \<and> target100Price ''long'' t = trk_TakeProfitPrice t
   \<and> target50Price ''short'' t = trk_EntryPrice t - 0.5 * (trk_EntryPrice t - trk_TakeProfitPrice t)
   \<and> target100Price ''short'' t = trk_TakeProfitPrice t
   \<and> (trk_EntryPrice t = 50000 \<and> trk_TakeProfitPrice t = 55000
       \<longrightarrow> target50Price ''long'' t = 52500 \<and> target100Price ''long'' t = 55000)
   \<and> (trk_EntryPrice t = 3000 \<and> trk_TakeProfitPrice t = 2700
       \<longrightarrow> target50Price ''short'' t = 2850 \<and> target100Price ''short'' t = 2700)
   \<and> (map_of (at_positionPnLTracking s) (pos_Symbol pos @ ''_'' @ pos_Side pos) = Some t
       \<and> cfg_EnablePartialTakeProfit (at_config s) \<and> trk_TakeProfitPrice t > 0
      \<longrightarrow> (let q = pos_Quantity pos * 0.5;
               r50 = (\<not> trk_PartialTP50Executed t
                      \<and> reachedTarget (pos_Side pos) (pos_MarkPrice pos)
                            (target50Price (pos_Side pos) t));
               r100 = (\<not> trk_PartialTP100Executed t
                      \<and> reachedTarget (pos_Side pos) (pos_MarkPrice pos)
                            (target100Price (pos_Side pos) t));
               a1 = closeAnswer E pos q (at_world s);
               a2 = closeAnswer E pos q (if r50 then snd a1 else at_world s);
               after = snd (snd (partialTakeProfitBlock E pos h rcd s))
           in at_trace after
                = at_trace s @ (if r50 then [closeEvent pos q] else [])
                             @ (if r100 then [closeEvent pos q] else [])
              \<and> map_of (at_positionPnLTracking after) (pos_Symbol pos @ ''_'' @ pos_Side pos)
                 = Some (t\<lparr>trk_PartialTP50Executed :=
                             trk_PartialTP50Executed t \<or> (r50 \<and> fst a1 = None),
                           trk_PartialTP100Executed :=
                             trk_PartialTP100Executed t \<or> (r100 \<and> fst a2 = None)\<rparr>)))"
proof -
  have f: "target50Price ''long'' t = trk_EntryPrice t + 0.5 * (trk_TakeProfitPrice t - trk_EntryPrice t)
   \<and> target100Price ''long'' t = trk_TakeProfitPrice t
   \<and> target50Price ''short'' t = trk_EntryPrice t - 0.5 * (trk_EntryPrice t - trk_TakeProfitPrice t)
   \<and> target100Price ''short'' t = trk_TakeProfitPrice t
   \<and> (trk_EntryPrice t = 50000 \<and> trk_TakeProfitPrice t = 55000
       \<longrightarrow> target50Price ''long'' t = 52500 \<and> target100Price ''long'' t = 55000)
   \<and> (trk_EntryPrice t = 3000 \<and> trk_TakeProfitPrice t = 2700
       \<longrightarrow> target50Price ''short'' t = 2850 \<and> target100Price ''short'' t = 2700)"
    by (simp add: target50Price_def target100Price_def)
  have g: "map_of (at_positionPnLTracking s) (pos_Symbol pos @ ''_'' @ pos_Side pos) = Some t
       \<and> cfg_EnablePartialTakeProfit (at_config s) \<and> trk_TakeProfitPrice t > 0
      \<longrightarrow> (let q = pos_Quantity pos * 0.5;
               r50 = (\<not> trk_PartialTP50Executed t
                      \<and> reachedTarget (pos_Side pos) (pos_MarkPrice pos)
                            (target50Price (pos_Side pos) t));
               r100 = (\<not> trk_PartialTP100Executed t
                      \<and> reachedTarget (pos_Side pos) (pos_MarkPrice pos)
                            (target100Price (pos_Side pos) t));
               a1 = closeAnswer E pos q (at_world s);
               a2 = closeAnswer E pos q (if r50 then snd a1 else at_world s);
               after = snd (snd (partialTakeProfitBlock E pos h rcd s))
           in at_trace after
                = at_trace s @ (if r50 then [closeEvent pos q] else [])
                             @ (if r100 then [closeEvent pos q] else [])
              \<and> map_of (at_positionPnLTracking after) (pos_Symbol pos @ ''_'' @ pos_Side pos)
                 = Some (t\<lparr>trk_PartialTP50Executed :=
                             trk_PartialTP50Executed t \<or> (r50 \<and> fst a1 = None),
                           trk_PartialTP100Executed :=
                             trk_PartialTP100Executed t \<or> (r100 \<and> fst a2 = None)\<rparr>))"
  proof
    assume a: "map_of (at_positionPnLTracking s) (pos_Symbol pos @ ''_'' @ pos_Side pos) = Some t
       \<and> cfg_EnablePartialTakeProfit (at_config s) \<and> trk_TakeProfitPrice t > 0"
    then have t: "map_of (at_positionPnLTracking s) (pos_Symbol pos @ ''_'' @ pos_Side pos) = Some t"
      and en: "cfg_EnablePartialTakeProfit (at_config s)" "trk_TakeProfitPrice t > 0"
      by simp_all
    show "let q = pos_Quantity pos * 0.5;
               r50 = (\<not> trk_PartialTP50Executed t
                      \<and> reachedTarget (pos_Side pos) (pos_MarkPrice pos)
                            (target50Price (pos_Side pos) t));
               r100 = (\<not> trk_PartialTP100Executed t
                      \<and> reachedTarget (pos_Side pos) (pos_MarkPrice pos)
                            (target100Price (pos_Side pos) t));
               a1 = closeAnswer E pos q (at_world s);
               a2 = closeAnswer E pos q (if r50 then snd a1 else at_world s);
               after = snd (snd (partialTakeProfitBlock E pos h rcd s))
           in at_trace after
                = at_trace s @ (if r50 then [closeEvent pos q] else [])
                             @ (if r100 then [closeEvent pos q] else [])
              \<and> map_of (at_positionPnLTracking after) (pos_Symbol pos @ ''_'' @ pos_Side pos)
                 = Some (t\<lparr>trk_PartialTP50Executed :=
                             trk_PartialTP50Executed t \<or> (r50 \<and> fst a1 = None),
                           trk_PartialTP100Executed :=
                             trk_PartialTP100Executed t \<or> (r100 \<and> fst a2 = None)\<rparr>)"
      using partialTakeProfitBlock_trace[OF t en, of E h rcd]
        partialTakeProfitBlock_flags[OF t en, of E h rcd]
      unfolding Let_def by simp
  qed
  from f g show ?thesis by blast
qed

theorem partial_take_profit_targets_fire_once_witness:
  "at_trace (snd (snd (partialTakeProfitBlock (simEnv []) halfPosition False emptyRecord freshTrader)))
     = [CallCloseLong ''BTCUSDT'' (1 / 2), CallCloseLong ''BTCUSDT'' (1 / 2)]
   \<and> map_of (at_positionPnLTracking
        (snd (snd (partialTakeProfitBlock (simEnv []) halfPosition False emptyRecord freshTrader))))
        ''BTCUSDT_long''
     = Some (halfTracking\<lparr>trk_PartialTP50Executed := True, trk_PartialTP100Executed := True\<rparr>)
   \<and> at_trace (snd (snd (partialTakeProfitBlock (simEnv []) halfPosition False emptyRecord
        (freshTrader\<lparr>at_positionPnLTracking :=
           [(''BTCUSDT_long'',
             halfTracking\<lparr>trk_PartialTP50Executed := True, trk_PartialTP100Executed := True\<rparr>)]\<rparr>))))
     = []"
proof -
  let ?t = "halfTracking\<lparr>trk_PartialTP50Executed := False\<rparr>"
  let ?t2 = "halfTracking\<lparr>trk_PartialTP50Executed := True, trk_PartialTP100Executed := True\<rparr>"
  let ?s2 = "freshTrader\<lparr>at_positionPnLTracking := [(''BTCUSDT_long'', ?t2)]\<rparr>"
  have n: "pos_Symbol halfPosition @ ''_'' @ pos_Side halfPosition = ''BTCUSDT_long''"
    by (simp add: halfPosition_def)
  have k: "map_of (at_positionPnLTracking freshTrader) ''BTCUSDT_long'' = Some ?t"
    "map_of (at_positionPnLTracking ?s2) ''BTCUSDT_long'' = Some ?t2"
    by (simp_all add: freshTrader_def)
  have c: "cfg_EnablePartialTakeProfit (at_config freshTrader)"
    "cfg_EnablePartialTakeProfit (at_config ?s2)"
    "trk_TakeProfitPrice ?t > 0" "trk_TakeProfitPrice ?t2 > 0"
    "at_trace freshTrader = []" "at_trace ?s2 = []"
    by (simp_all add: freshTrader_def halfTrader_def simTrader_def simConfig_def halfTracking_def)
  have r: "reachedTarget (pos_Side halfPosition) (pos_MarkPrice halfPosition)
             (target50Price (pos_Side halfPosition) ?t)"
    "reachedTarget (pos_Side halfPosition) (pos_MarkPrice halfPosition)
             (target100Price (pos_Side halfPosition) ?t)"
    "\<not> trk_PartialTP50Executed ?t" "\<not> trk_PartialTP100Executed ?t"
    "trk_PartialTP50Executed ?t2" "trk_PartialTP100Executed ?t2"
    by (simp_all add: reachedTarget_def target50Price_def target100Price_def halfPosition_def
          halfTracking_def)
  have a: "closeAnswer (simEnv []) halfPosition q w = (None, w)" for q w
    by (simp add: closeAnswer_def simEnv_def)
  have e: "closeEvent halfPosition (pos_Quantity halfPosition * 0.5) = CallCloseLong ''BTCUSDT'' (1 / 2)"
    by (simp add: closeEvent_def halfPosition_def)
  have first: "at_trace (snd (snd (partialTakeProfitBlock (simEnv []) halfPosition False
          emptyRecord freshTrader)))
       = [CallCloseLong ''BTCUSDT'' (1 / 2), CallCloseLong ''BTCUSDT'' (1 / 2)]
     \<and> map_of (at_positionPnLTracking
          (snd (snd (partialTakeProfitBlock (simEnv []) halfPosition False emptyRecord freshTrader))))
          ''BTCUSDT_long'' = Some ?t2"
    using partial_take_profit_targets_fire_once
      [where s = freshTrader and pos = halfPosition and t = ?t and E = "simEnv []"
         and h = False and rcd = emptyRecord]
      k(1) c(1,3,5) r(1-4) a e
    unfolding n Let_def by simp
  have second: "at_trace (snd (snd (partialTakeProfitBlock (simEnv []) halfPosition False
          emptyRecord ?s2))) = []"
    using partial_take_profit_targets_fire_once
      [where s = ?s2 and pos = halfPosition and t = ?t2 and E = "simEnv []"
         and h = False and rcd = emptyRecord]
      k(2) c(2,4,6) r(5,6)
    unfolding n Let_def by simp
  from first second show ?thesis by simp
qed

text \<open>
  Claim C4 is not met by the code. The execution for the second target closes
  \<open>pos.Quantity * 0.5\<close>, half of what the snapshot of the cycle holds. When the first
  target was taken in an earlier cycle, the snapshot holds what is left, and half of it
  stays open: of the one unit left of the position, the exchange is asked to close 0.5,
  and the flag of the second target is set, so that the partial take-profit does not
  come back to the rest.
\<close>

theorem second_target_closes_half_of_the_rest:
  "trk_PartialTP50Executed halfTracking \<and> \<not> trk_PartialTP100Executed halfTracking
   \<and> pos_Quantity halfPosition = 1
   \<and> reachedTarget ''long'' (pos_MarkPrice halfPosition) (target100Price ''long'' halfTracking)
   \<and> at_trace (snd (snd (checkPosition (simEnv []) halfPosition
         (False, emptyRecord, halfTrader))))
       = [CallCloseLong ''BTCUSDT'' (1 / 2)]
   \<and> map_of (at_positionPnLTracking
        (snd (snd (checkPosition (simEnv []) halfPosition (False, emptyRecord, halfTrader)))))
        ''BTCUSDT_long'' = Some (halfTracking\<lparr>trk_PartialTP100Executed := True\<rparr>)"
  by (simp add: checkPosition_def trailingStopBlock_def partialTakeProfitBlock_def
        executePartialTakeProfit_def callCloseLong_def modifyTracking_def target50Price_def
        target100Price_def reachedTarget_def halfPosition_def halfTrader_def halfTracking_def
        simTrader_def simConfig_def simEnv_def emptyRecord_def Let_def)

section \<open>The loss circuit breaker\<close>

text \<open>
  The loss detection by itself: when the equity has not decreased, no tracked key
  counts as a stop, whatever has vanished.
\<close>

lemma checkClosedPosition_no_decrease:
  "at_stopLossCount (checkClosedPosition E keys False entry s) = at_stopLossCount s
   \<and> at_lastStopLossTime (checkClosedPosition E keys False entry s) = at_lastStopLossTime s
   \<and> at_backoffUntil (checkClosedPosition E keys False entry s) = at_backoffUntil s"
  by (auto simp: checkClosedPosition_def callMarketGet_def Let_def split: prod.splits sum.splits)

lemma fold_checkClosedPosition_no_decrease:
  "at_stopLossCount (fold (checkClosedPosition E keys False) entries s) = at_stopLossCount s
   \<and> at_lastStopLossTime (fold (checkClosedPosition E keys False) entries s) = at_lastStopLossTime s
   \<and> at_backoffUntil (fold (checkClosedPosition E keys False) entries s) = at_backoffUntil s"
proof (induction entries arbitrary: s)
  case Nil
  then show ?case by simp
next
  case (Cons entry entries)
  show ?case
    using Cons.IH[of "checkClosedPosition E keys False entry s"]
      checkClosedPosition_no_decrease[of E keys entry s]
    by simp
qed

lemma checkStopLossTriggered_no_decrease:
  assumes "\<not> (at_lastTotalEquity s > 0 \<and> acc_TotalEquity (ctx_Account ctx) < at_lastTotalEquity s)"
  shows "at_stopLossCount (checkStopLossTriggered E ctx s) = at_stopLossCount s
   \<and> at_lastStopLossTime (checkStopLossTriggered E ctx s) = at_lastStopLossTime s
   \<and> at_backoffUntil (checkStopLossTriggered E ctx s) = at_backoffUntil s"
proof (cases "cfg_EnableExponentialBackoff (at_config s)")
  case False
  then show ?thesis by (simp add: checkStopLossTriggered_def)
next
  case True
  have eq: "(at_lastTotalEquity s > 0 \<and> acc_TotalEquity (ctx_Account ctx) < at_lastTotalEquity s)
      = False"
    using assms by simp
  show ?thesis
    using True fold_checkClosedPosition_no_decrease
    by (simp add: checkStopLossTriggered_def Let_def eq)
qed

text \<open>
  The loss detection inside the cycle. The steps of the cycle are followed through the
  state of the circuit breaker and the keys of the two maps.
\<close>

lemma quiet_refl [simp]: "quiet s s"
  by (simp add: quiet_def breakerKept_def)

lemma quiet_trans: "quiet a b \<Longrightarrow> quiet b c \<Longrightarrow> quiet a c"
  by (simp add: quiet_def breakerKept_def)

lemma steady_refl [simp]: "steady s s"
  by (simp add: steady_def breakerKept_def)

lemma steady_trans: "steady a b \<Longrightarrow> steady b c \<Longrightarrow> steady a c"
  by (simp add: steady_def breakerKept_def)

lemma quiet_steady: "quiet s s' \<Longrightarrow> steady s s'"
  by (simp add: quiet_def steady_def trackedKeysSeen_def)

lemma call_quiet:
  "quiet s (snd (callGetBalance E s))"
  "quiet s (snd (callGetPositions E s))"
  "quiet s (snd (callOpenLong E symbol quantity leverage s))"
  "quiet s (snd (callOpenShort E symbol quantity leverage s))"
  "quiet s (snd (callCloseLong E symbol quantity s))"
  "quiet s (snd (callCloseShort E symbol quantity s))"
  "quiet s (snd (callSetStopLoss E symbol side quantity price s))"
  "quiet s (snd (callSetTakeProfit E symbol side quantity price s))"
  "quiet s (snd (callMarketGet E symbol s))"
  "quiet s (snd (callGetMergedCoinPool E s))"
  "quiet s (snd (callAI E ctx s))"
  "quiet s (callLogDecision E rcd s)"
  by (auto simp: quiet_def breakerKept_def callGetBalance_def callGetPositions_def
        callOpenLong_def callOpenShort_def callCloseLong_def callCloseShort_def
        callSetStopLoss_def callSetTakeProfit_def callMarketGet_def callGetMergedCoinPool_def
        callAI_def callLogDecision_def split: prod.splits)

lemma modifyTracking_quiet: "quiet s (modifyTracking k f s)"
  by (auto simp: quiet_def breakerKept_def modifyTracking_def map_of_map_entry dom_def
        split: option.splits)

lemma executeTrailingStop_quiet: "quiet s (snd (snd (executeTrailingStop E pos rcd s)))"
proof -
  obtain e s1 where c: "(if pos_Side pos = ''long'' then callCloseLong E (pos_Symbol pos) 0 s
              else callCloseShort E (pos_Symbol pos) 0 s) = (e, s1)"
    by (metis surj_pair)
  have "quiet s s1"
    using c call_quiet(5)[of s E "pos_Symbol pos" 0] call_quiet(6)[of s E "pos_Symbol pos" 0]
    by (auto split: if_splits)
  then show ?thesis
    using c by (cases e) (simp_all add: executeTrailingStop_def Let_def)
qed

lemma executePartialTakeProfit_quiet:
  "quiet s (snd (snd (executePartialTakeProfit E pos ratio rcd s)))"
proof -
  obtain e s1 where c: "(if pos_Side pos = ''long''
        then callCloseLong E (pos_Symbol pos) (pos_Quantity pos * ratio) s
        else callCloseShort E (pos_Symbol pos) (pos_Quantity pos * ratio) s) = (e, s1)"
    by (metis surj_pair)
  have "quiet s s1"
    using c call_quiet(5)[of s E "pos_Symbol pos" "pos_Quantity pos * ratio"]
      call_quiet(6)[of s E "pos_Symbol pos" "pos_Quantity pos * ratio"]
    by (auto split: if_splits)
  then show ?thesis
    using c by (cases e) (simp_all add: executePartialTakeProfit_def Let_def)
qed

lemma trailingStopBlock_quiet:
  "quiet s (snd (snd (snd (trailingStopBlock E pos h rcd s))))"
proof -
  let ?k = "pos_Symbol pos @ ''_'' @ pos_Side pos"
  let ?s1 = "modifyTracking ?k (\<lambda>t. t\<lparr>trk_TrailingStopActivated := True\<rparr>) s"
  have a: "quiet s ?s1" by (rule modifyTracking_quiet)
  have b: "quiet s (snd (snd (executeTrailingStop E pos rcd ?s1)))"
    using quiet_trans[OF a executeTrailingStop_quiet] .
  have c: "quiet s (snd (snd (executeTrailingStop E pos rcd s)))"
    by (rule executeTrailingStop_quiet)
  show ?thesis
    using a b c
    by (auto simp: trailingStopBlock_def Let_def split: option.splits prod.splits)
qed

lemma partialTakeProfitBlock_quiet:
  "quiet s (snd (snd (partialTakeProfitBlock E pos h rcd s)))"
proof (cases "map_of (at_positionPnLTracking s) (pos_Symbol pos @ ''_'' @ pos_Side pos)")
  case None
  then show ?thesis by (simp add: partialTakeProfitBlock_def)
next
  case (Some t)
  let ?k = "pos_Symbol pos @ ''_'' @ pos_Side pos"
  let ?r50 = "\<not> trk_PartialTP50Executed t \<and> reachedTarget (pos_Side pos) (pos_MarkPrice pos) (target50Price (pos_Side pos) t)"
  let ?r100 = "\<not> trk_PartialTP100Executed t \<and> reachedTarget (pos_Side pos) (pos_MarkPrice pos) (target100Price (pos_Side pos) t)"
  show ?thesis
  proof (cases "cfg_EnablePartialTakeProfit (at_config s) \<and> trk_TakeProfitPrice t > 0")
    case False
    then show ?thesis using Some by (auto simp: partialTakeProfitBlock_def)
  next
    case en: True
    obtain e1 r1 s1 where x1: "executePartialTakeProfit E pos 0.5 rcd s = (e1, r1, s1)"
      by (metis prod_cases3)
    have q1: "quiet s s1" using executePartialTakeProfit_quiet[of s E pos "0.5" rcd] x1 by simp
    define st1 where "st1 = (if ?r50 then (case e1 of Some err \<Rightarrow> (h, r1, s1)
         | None \<Rightarrow> (True, r1, modifyTracking ?k (\<lambda>t. t\<lparr>trk_PartialTP50Executed := True\<rparr>) s1))
       else (h, rcd, s))"
    obtain h1 rc1 sa where st1eq: "st1 = (h1, rc1, sa)" by (metis prod_cases3)
    have k1: "quiet s sa"
      using st1eq q1 quiet_trans[OF q1 modifyTracking_quiet]
      by (auto simp: st1_def split: if_splits option.splits)
    obtain e2 r2 s2 where x2: "executePartialTakeProfit E pos 0.5 rc1 sa = (e2, r2, s2)"
      by (metis prod_cases3)
    have q2: "quiet sa s2" using executePartialTakeProfit_quiet[of sa E pos "0.5" rc1] x2 by simp
    have blk: "partialTakeProfitBlock E pos h rcd s =
       (if ?r100 then (case e2 of Some err \<Rightarrow> (h1, r2, s2)
          | None \<Rightarrow> (True, r2, modifyTracking ?k (\<lambda>t. t\<lparr>trk_PartialTP100Executed := True\<rparr>) s2))
        else (h1, rc1, sa))"
      using Some en x1 x2 st1eq
      by (auto simp: partialTakeProfitBlock_def Let_def st1_def split: option.splits if_splits)
    have k2: "quiet sa (snd (snd (partialTakeProfitBlock E pos h rcd s)))"
      unfolding blk using q2 quiet_trans[OF q2 modifyTracking_quiet]
      by (auto split: if_splits option.splits)
    show ?thesis using k1 k2 quiet_trans by blast
  qed
qed

lemma checkPosition_quiet:
  "quiet s (snd (snd (checkPosition E pos (h, rcd, s))))"
proof (cases "map_of (at_positionPnLTracking s) (pos_Symbol pos @ ''_'' @ pos_Side pos)")
  case None
  then show ?thesis by (simp add: checkPosition_def)
next
  case (Some t)
  obtain c h1 r1 s1 where b1: "trailingStopBlock E pos h rcd s = (c, h1, r1, s1)"
    by (metis prod_cases4)
  have k1: "quiet s s1"
    using trailingStopBlock_quiet[of s E pos h rcd] b1 by simp
  show ?thesis
  proof (cases c)
    case True
    then show ?thesis using Some b1 k1 by (simp add: checkPosition_def)
  next
    case False
    then have "checkPosition E pos (h, rcd, s) = partialTakeProfitBlock E pos h1 r1 s1"
      using Some b1 by (simp add: checkPosition_def)
    then show ?thesis
      using quiet_trans[OF k1 partialTakeProfitBlock_quiet[of s1 E pos h1 r1]] by simp
  qed
qed

lemma fold_checkPosition_quiet:
  "quiet (snd (snd st)) (snd (snd (fold (checkPosition E) ps st)))"
proof (induction ps arbitrary: st)
  case Nil
  then show ?case by simp
next
  case (Cons p ps)
  obtain h rcd s where st: "st = (h, rcd, s)" by (metis prod_cases3)
  have "quiet s (snd (snd (checkPosition E p (h, rcd, s))))"
    by (rule checkPosition_quiet)
  moreover have "quiet (snd (snd (checkPosition E p (h, rcd, s))))
     (snd (snd (fold (checkPosition E) ps (checkPosition E p (h, rcd, s)))))"
    using Cons.IH[of "checkPosition E p (h, rcd, s)"] .
  ultimately show ?case using st quiet_trans by auto
qed

lemma checkTrailingStopAndPartialTP_quiet:
  "quiet s (snd (snd (checkTrailingStopAndPartialTP E ctx rcd h s)))"
proof -
  let ?s0 = "s\<lparr>at_trace := at_trace s @ [EnterProfitLossPass]\<rparr>"
  have a: "quiet s ?s0" by (simp add: quiet_def breakerKept_def)
  have "quiet ?s0 (snd (snd (fold (checkPosition E) (ctx_Positions ctx) (h, rcd, ?s0))))"
    using fold_checkPosition_quiet[of "(h, rcd, ?s0)" E "ctx_Positions ctx"] by simp
  then show ?thesis
    using a quiet_trans[OF a] by (auto simp: checkTrailingStopAndPartialTP_def Let_def)
qed


lemma executeClose_quiet:
  "quiet s (snd (snd (executeCloseLongWithRecord E d ar s)))"
  "quiet s (snd (snd (executeCloseShortWithRecord E d ar s)))"
proof -
  obtain r s1 where m: "callMarketGet E (d_Symbol d) s = (r, s1)" by (metis surj_pair)
  have q1: "quiet s s1" using call_quiet(9)[of s E "d_Symbol d"] m by simp
  obtain e s2 where c: "callCloseLong E (d_Symbol d) 0 s1 = (e, s2)" by (metis surj_pair)
  have q2: "quiet s s2" using quiet_trans[OF q1 call_quiet(5)[of s1 E "d_Symbol d" 0]] c by simp
  obtain e' s2' where c': "callCloseShort E (d_Symbol d) 0 s1 = (e', s2')" by (metis surj_pair)
  have q2': "quiet s s2'" using quiet_trans[OF q1 call_quiet(6)[of s1 E "d_Symbol d" 0]] c' by simp
  show "quiet s (snd (snd (executeCloseLongWithRecord E d ar s)))"
    using m c q1 q2 by (cases r; cases e) (simp_all add: executeCloseLongWithRecord_def)
  show "quiet s (snd (snd (executeCloseShortWithRecord E d ar s)))"
    using m c' q1 q2' by (cases r; cases e') (simp_all add: executeCloseShortWithRecord_def)
qed

text \<open>A successful open writes the key of the new position into both maps.\<close>

lemma open_maps_steady:
  assumes "at_stopLossCount s' = at_stopLossCount s" "at_lastStopLossTime s' = at_lastStopLossTime s"
    "at_backoffUntil s' = at_backoffUntil s"
    "at_positionFirstSeenTime s' = AList.update k v (at_positionFirstSeenTime s)"
    "at_positionPnLTracking s' = AList.update k t (at_positionPnLTracking s)"
  shows "steady s s'"
  using assms by (auto simp: steady_def breakerKept_def trackedKeysSeen_def update_conv')

lemma executeOpenLongWithRecord_steady:
  "steady s (snd (snd (executeOpenLongWithRecord E d ar s)))"
proof -
  obtain r s1 where p: "callGetPositions E s = (r, s1)" by (metis surj_pair)
  have q1: "quiet s s1" using call_quiet(2)[of s E] p by simp
  obtain m s2 where m: "callMarketGet E (d_Symbol d) s1 = (m, s2)" by (metis surj_pair)
  have q2: "quiet s s2" using quiet_trans[OF q1 call_quiet(9)[of s1 E "d_Symbol d"]] m by simp
  show ?thesis
  proof (cases "case r of
            Inr positions \<Rightarrow>
              (\<exists>pos \<in> set positions. vp_symbol pos = d_Symbol d \<and> vp_side pos = ''long'')
          | Inl err \<Rightarrow> False")
    case True
    then show ?thesis using p q1 by (simp add: executeOpenLongWithRecord_def quiet_steady)
  next
    case False
    show ?thesis
    proof (cases m)
      case (Inl err)
      then show ?thesis using False p m q2 by (simp add: executeOpenLongWithRecord_def quiet_steady)
    next
      case (Inr currentPrice)
      let ?q = "d_PositionSizeUSD d / currentPrice"
      obtain e s3 where o: "callOpenLong E (d_Symbol d) ?q (d_Leverage d) s2 = (e, s3)"
        by (metis surj_pair)
      have q3: "quiet s s3"
        using quiet_trans[OF q2 call_quiet(3)[of s2 E "d_Symbol d" ?q "d_Leverage d"]] o by simp
      show ?thesis
      proof (cases e)
        case (Some err)
        then show ?thesis
          using False p m Inr o q3 by (simp add: executeOpenLongWithRecord_def Let_def quiet_steady)
      next
        case None
        let ?s4 = "s3\<lparr>at_positionFirstSeenTime :=
                              AList.update (d_Symbol d @ ''_long'') (unixMilli (time_Now E (at_world s3)))
                                (at_positionFirstSeenTime s3),
                            at_positionInvalidationConditions :=
                              AList.update (d_Symbol d) (d_InvalidationCondition d)
                                (at_positionInvalidationConditions s3),
                            at_positionReasonings :=
                              AList.update (d_Symbol d) (d_Reasoning d)
                                (at_positionReasonings s3),
                            at_positionPnLTracking :=
                              AList.update (d_Symbol d @ ''_long'')
                                \<lparr>trk_MaxProfitPct = 0, trk_MaxLossPct = 0,
                                 trk_TakeProfitPrice = d_TakeProfit d,
                                 trk_StopLossPrice = d_StopLoss d,
                                 trk_EntryPrice = currentPrice,
                                 trk_PartialTP50Executed = False,
                                 trk_PartialTP100Executed = False,
                                 trk_TrailingStopActivated = False\<rparr>
                                (at_positionPnLTracking s3)\<rparr>"
        let ?s5 = "snd (callSetStopLoss E (d_Symbol d) ''LONG'' ?q (d_StopLoss d) ?s4)"
        let ?s6 = "if \<not> cfg_EnablePartialTakeProfit (at_config ?s5)
                   then snd (callSetTakeProfit E (d_Symbol d) ''LONG'' ?q (d_TakeProfit d) ?s5)
                   else ?s5"
        have "steady s3 ?s4" by (rule open_maps_steady) simp_all
        then have a4: "steady s ?s4" using steady_trans[OF quiet_steady[OF q3]] by blast
        have a5: "steady s ?s5"
          using steady_trans[OF a4 quiet_steady[OF call_quiet(7)]] .
        have a6: "steady s ?s6"
          using a5 steady_trans[OF a5 quiet_steady[OF call_quiet(8)]] by (auto split: if_splits)
        have "snd (snd (executeOpenLongWithRecord E d ar s)) = ?s6"
          using False p m Inr o None by (simp add: executeOpenLongWithRecord_def Let_def)
        then show ?thesis using a6 by simp
      qed
    qed
  qed
qed

lemma executeOpenShortWithRecord_steady:
  "steady s (snd (snd (executeOpenShortWithRecord E d ar s)))"
proof -
  obtain r s1 where p: "callGetPositions E s = (r, s1)" by (metis surj_pair)
  have q1: "quiet s s1" using call_quiet(2)[of s E] p by simp
  obtain m s2 where m: "callMarketGet E (d_Symbol d) s1 = (m, s2)" by (metis surj_pair)
  have q2: "quiet s s2" using quiet_trans[OF q1 call_quiet(9)[of s1 E "d_Symbol d"]] m by simp
  show ?thesis
  proof (cases "case r of
            Inr positions \<Rightarrow>
              (\<exists>pos \<in> set positions. vp_symbol pos = d_Symbol d \<and> vp_side pos = ''short'')
          | Inl err \<Rightarrow> False")
    case True
    then show ?thesis using p q1 by (simp add: executeOpenShortWithRecord_def quiet_steady)
  next
    case False
    show ?thesis
    proof (cases m)
      case (Inl err)
      then show ?thesis using False p m q2 by (simp add: executeOpenShortWithRecord_def quiet_steady)
    next
      case (Inr currentPrice)
      let ?q = "d_PositionSizeUSD d / currentPrice"
      obtain e s3 where o: "callOpenShort E (d_Symbol d) ?q (d_Leverage d) s2 = (e, s3)"
        by (metis surj_pair)
      have q3: "quiet s s3"
        using quiet_trans[OF q2 call_quiet(4)[of s2 E "d_Symbol d" ?q "d_Leverage d"]] o by simp
      show ?thesis
      proof (cases e)
        case (Some err)
        then show ?thesis
          using False p m Inr o q3 by (simp add: executeOpenShortWithRecord_def Let_def quiet_steady)
      next
        case None
        let ?s4 = "s3\<lparr>at_positionFirstSeenTime :=
                              AList.update (d_Symbol d @ ''_short'') (unixMilli (time_Now E (at_world s3)))
                                (at_positionFirstSeenTime s3),
                            at_positionInvalidationConditions :=
                              AList.update (d_Symbol d) (d_InvalidationCondition d)
                                (at_positionInvalidationConditions s3),
                            at_positionReasonings :=
                              AList.update (d_Symbol d) (d_Reasoning d)
                                (at_positionReasonings s3),
                            at_positionPnLTracking :=
                              AList.update (d_Symbol d @ ''_short'')
                                \<lparr>trk_MaxProfitPct = 0, trk_MaxLossPct = 0,
                                 trk_TakeProfitPrice = d_TakeProfit d,
                                 trk_StopLossPrice = d_StopLoss d,
                                 trk_EntryPrice = currentPrice,
                                 trk_PartialTP50Executed = False,
                                 trk_PartialTP100Executed = False,
                                 trk_TrailingStopActivated = False\<rparr>
                                (at_positionPnLTracking s3)\<rparr>"
        let ?s5 = "snd (callSetStopLoss E (d_Symbol d) ''SHORT'' ?q (d_StopLoss d) ?s4)"
        let ?s6 = "if \<not> cfg_EnablePartialTakeProfit (at_config ?s5)
                   then snd (callSetTakeProfit E (d_Symbol d) ''SHORT'' ?q (d_TakeProfit d) ?s5)
                   else ?s5"
        have "steady s3 ?s4" by (rule open_maps_steady) simp_all
        then have a4: "steady s ?s4" using steady_trans[OF quiet_steady[OF q3]] by blast
        have a5: "steady s ?s5"
          using steady_trans[OF a4 quiet_steady[OF call_quiet(7)]] .
        have a6: "steady s ?s6"
          using a5 steady_trans[OF a5 quiet_steady[OF call_quiet(8)]] by (auto split: if_splits)
        have "snd (snd (executeOpenShortWithRecord E d ar s)) = ?s6"
          using False p m Inr o None by (simp add: executeOpenShortWithRecord_def Let_def)
        then show ?thesis using a6 by simp
      qed
    qed
  qed
qed

lemma executeDecisionWithRecord_steady:
  "steady s (snd (snd (executeDecisionWithRecord E d ar s)))"
  using executeOpenLongWithRecord_steady[of s E d ar] executeOpenShortWithRecord_steady[of s E d ar]
    quiet_steady[OF executeClose_quiet(1)[of s E d ar]]
    quiet_steady[OF executeClose_quiet(2)[of s E d ar]]
  by (simp add: executeDecisionWithRecord_def)

lemma dispatchDecision_steady:
  "steady (snd st) (snd (dispatchDecision E d st))"
proof -
  obtain rcd s where st: "st = (rcd, s)" by (metis surj_pair)
  let ?ar = "\<lparr>da_Action = d_Action d, da_Symbol = d_Symbol d, da_Quantity = 0,
             da_Leverage = d_Leverage d, da_Price = 0, da_Success = False, da_Error = None\<rparr>"
  obtain e ar1 s1 where x: "executeDecisionWithRecord E d ?ar s = (e, ar1, s1)"
    by (metis prod_cases3)
  have "steady s s1" using executeDecisionWithRecord_steady[of s E d ?ar] x by simp
  then show ?thesis using st x by (cases e) (simp_all add: dispatchDecision_def Let_def)
qed

lemma fold_dispatchDecision_steady:
  "steady (snd st) (snd (fold (dispatchDecision E) ds st))"
proof (induction ds arbitrary: st)
  case Nil
  then show ?case by simp
next
  case (Cons d ds)
  show ?case
    using steady_trans[OF dispatchDecision_steady[of st E d] Cons.IH[of "dispatchDecision E d st"]]
    by simp
qed

lemma GetFullDecision_quiet: "quiet s (snd (GetFullDecision E ctx s))"
proof -
  obtain r s1 where a: "callAI E ctx s = (r, s1)" by (metis surj_pair)
  have "quiet s s1" using call_quiet(11)[of s E ctx] a by simp
  then show ?thesis
    using a by (cases r) (auto simp: GetFullDecision_def split: prod.splits option.splits)
qed

lemma runCycleDecide_steady: "steady s (snd (runCycleDecide E ctx rcd s))"
proof -
  obtain r s1 where g: "GetFullDecision E ctx s = (r, s1)" by (metis surj_pair)
  have q1: "steady s s1" using quiet_steady[OF GetFullDecision_quiet[of s E ctx]] g by simp
  show ?thesis
  proof (cases r)
    case (Inl err)
    then show ?thesis
      using g steady_trans[OF q1 quiet_steady[OF call_quiet(12)]]
      by (simp add: runCycleDecide_def)
  next
    case (Inr decisions)
    obtain rcd1 s2 where f: "fold (dispatchDecision E) (sortDecisionsByPriority decisions) (rcd, s1)
        = (rcd1, s2)" by (metis surj_pair)
    have "steady s1 s2"
      using fold_dispatchDecision_steady[of "(rcd, s1)" E "sortDecisionsByPriority decisions"] f
      by simp
    then have "steady s (callLogDecision E rcd1 s2)"
      using steady_trans[OF q1] steady_trans[OF _ quiet_steady[OF call_quiet(12)]] by blast
    then show ?thesis using g Inr f by (simp add: runCycleDecide_def)
  qed
qed


text \<open>The refresh of the positions: every live key enters both maps.\<close>

lemma trackPnL_dom: "dom (map_of (trackPnL k p m)) = insert k (dom (map_of m))"
  by (auto simp: trackPnL_def Let_def map_of_map_entry update_conv' dom_def split: option.splits if_splits)

lemma trackPosition_effect:
  "dom (map_of (at_positionPnLTracking (snd (snd (trackPosition E pos acc)))))
     = insert (vp_symbol pos @ ''_'' @ vp_side pos)
         (dom (map_of (at_positionPnLTracking (snd (snd acc)))))"
  "dom (map_of (at_positionFirstSeenTime (snd (snd (trackPosition E pos acc)))))
     = insert (vp_symbol pos @ ''_'' @ vp_side pos)
         (dom (map_of (at_positionFirstSeenTime (snd (snd acc)))))"
  "breakerKept (snd (snd acc)) (snd (snd (trackPosition E pos acc)))"
  "map (\<lambda>p. pos_Symbol p @ ''_'' @ pos_Side p) (fst (trackPosition E pos acc))
     = map (\<lambda>p. pos_Symbol p @ ''_'' @ pos_Side p) (fst acc) @ [vp_symbol pos @ ''_'' @ vp_side pos]"
proof -
  obtain infos margin s where acc: "acc = (infos, margin, s)" by (metis prod_cases3)
  show "dom (map_of (at_positionPnLTracking (snd (snd (trackPosition E pos acc)))))
     = insert (vp_symbol pos @ ''_'' @ vp_side pos)
         (dom (map_of (at_positionPnLTracking (snd (snd acc)))))"
    unfolding acc by (simp add: trackPosition_def Let_def trackPnL_dom)
  show "dom (map_of (at_positionFirstSeenTime (snd (snd (trackPosition E pos acc)))))
     = insert (vp_symbol pos @ ''_'' @ vp_side pos)
         (dom (map_of (at_positionFirstSeenTime (snd (snd acc)))))"
    unfolding acc by (auto simp: trackPosition_def Let_def update_conv')
  show "breakerKept (snd (snd acc)) (snd (snd (trackPosition E pos acc)))"
    unfolding acc by (simp add: trackPosition_def Let_def breakerKept_def)
  show "map (\<lambda>p. pos_Symbol p @ ''_'' @ pos_Side p) (fst (trackPosition E pos acc))
     = map (\<lambda>p. pos_Symbol p @ ''_'' @ pos_Side p) (fst acc) @ [vp_symbol pos @ ''_'' @ vp_side pos]"
    unfolding acc by (simp add: trackPosition_def Let_def)
qed

lemma fold_trackPosition_effect:
  "dom (map_of (at_positionPnLTracking (snd (snd (fold (trackPosition E) ps acc)))))
     = dom (map_of (at_positionPnLTracking (snd (snd acc))))
       \<union> set (map (\<lambda>pos. vp_symbol pos @ ''_'' @ vp_side pos) ps)
   \<and> dom (map_of (at_positionFirstSeenTime (snd (snd (fold (trackPosition E) ps acc)))))
     = dom (map_of (at_positionFirstSeenTime (snd (snd acc))))
       \<union> set (map (\<lambda>pos. vp_symbol pos @ ''_'' @ vp_side pos) ps)
   \<and> breakerKept (snd (snd acc)) (snd (snd (fold (trackPosition E) ps acc)))
   \<and> map (\<lambda>p. pos_Symbol p @ ''_'' @ pos_Side p) (fst (fold (trackPosition E) ps acc))
     = map (\<lambda>p. pos_Symbol p @ ''_'' @ pos_Side p) (fst acc)
       @ map (\<lambda>pos. vp_symbol pos @ ''_'' @ vp_side pos) ps"
proof (induction ps arbitrary: acc)
  case Nil
  then show ?case by (simp add: breakerKept_def)
next
  case (Cons p ps)
  show ?case
    using Cons.IH[of "trackPosition E p acc"] trackPosition_effect[where E = E and pos = p and acc = acc]
    by (auto simp: breakerKept_def)
qed

lemma fold_forgetClosedKey_effect:
  "dom (map_of (at_positionPnLTracking (fold (forgetClosedKey cur) keys s)))
     = dom (map_of (at_positionPnLTracking s)) - (set keys - set cur)
   \<and> dom (map_of (at_positionFirstSeenTime (fold (forgetClosedKey cur) keys s)))
     = dom (map_of (at_positionFirstSeenTime s)) - (set keys - set cur)
   \<and> breakerKept s (fold (forgetClosedKey cur) keys s)"
proof (induction keys arbitrary: s)
  case Nil
  then show ?case by (simp add: breakerKept_def)
next
  case (Cons k keys)
  show ?case
    using Cons.IH[of "forgetClosedKey cur k s"]
    by (auto simp: forgetClosedKey_def breakerKept_def delete_conv' split: if_splits)
qed

lemma forgetClosedSymbols_quiet: "quiet s (forgetClosedSymbols syms s)"
  by (simp add: forgetClosedSymbols_def quiet_def breakerKept_def)

text \<open>
  The state in which \<open>buildTradingContext\<close> leaves the two maps, from the trader after
  the read of the positions.
\<close>

lemma refresh_maps:
  assumes "fold (trackPosition E) positions ([], 0, s2) = (infos, margin, s3)"
    and "s4 = fold (forgetClosedKey (map (\<lambda>pos. vp_symbol pos @ ''_'' @ vp_side pos) positions))
                (map fst (at_positionFirstSeenTime s3)) s3"
  shows "breakerKept s2 s4"
    and "map (\<lambda>p. pos_Symbol p @ ''_'' @ pos_Side p) infos
           = map (\<lambda>pos. vp_symbol pos @ ''_'' @ vp_side pos) positions"
    and "trackedKeysSeen s2 \<Longrightarrow>
           dom (map_of (at_positionPnLTracking s4))
             \<subseteq> set (map (\<lambda>pos. vp_symbol pos @ ''_'' @ vp_side pos) positions)"
    and "trackedKeysSeen s2 \<Longrightarrow> trackedKeysSeen s4"
proof -
  let ?K = "set (map (\<lambda>pos. vp_symbol pos @ ''_'' @ vp_side pos) positions)"
  have t: "dom (map_of (at_positionPnLTracking s3)) = dom (map_of (at_positionPnLTracking s2)) \<union> ?K"
    and f: "dom (map_of (at_positionFirstSeenTime s3)) = dom (map_of (at_positionFirstSeenTime s2)) \<union> ?K"
    and b: "breakerKept s2 s3"
    and i: "map (\<lambda>p. pos_Symbol p @ ''_'' @ pos_Side p) infos
           = map (\<lambda>pos. vp_symbol pos @ ''_'' @ vp_side pos) positions"
    using fold_trackPosition_effect[where E = E and ps = positions and acc = "([], 0, s2)"] assms(1) by simp_all
  have ks: "set (map fst (at_positionFirstSeenTime s3)) = dom (map_of (at_positionFirstSeenTime s3))"
    by (simp add: dom_map_of_conv_image_fst)
  have t4: "dom (map_of (at_positionPnLTracking s4))
      = dom (map_of (at_positionPnLTracking s3)) - (dom (map_of (at_positionFirstSeenTime s3)) - ?K)"
    and f4: "dom (map_of (at_positionFirstSeenTime s4))
      = dom (map_of (at_positionFirstSeenTime s3)) - (dom (map_of (at_positionFirstSeenTime s3)) - ?K)"
    and b4: "breakerKept s3 s4"
    using fold_forgetClosedKey_effect
      [where cur = "map (\<lambda>pos. vp_symbol pos @ ''_'' @ vp_side pos) positions"
         and keys = "map fst (at_positionFirstSeenTime s3)" and s = s3]
    unfolding assms(2) ks by simp_all
  show "breakerKept s2 s4" using b b4 by (simp add: breakerKept_def)
  show "map (\<lambda>p. pos_Symbol p @ ''_'' @ pos_Side p) infos
           = map (\<lambda>pos. vp_symbol pos @ ''_'' @ vp_side pos) positions" by (rule i)
  show "trackedKeysSeen s2 \<Longrightarrow> dom (map_of (at_positionPnLTracking s4)) \<subseteq> ?K"
    unfolding t4 t f trackedKeysSeen_def by blast
  show "trackedKeysSeen s2 \<Longrightarrow> trackedKeysSeen s4"
    unfolding trackedKeysSeen_def t4 f4 t f by blast
qed


lemma quiet_inv: "quiet a b \<Longrightarrow> trackedKeysSeen a \<Longrightarrow> trackedKeysSeen b"
  by (simp add: quiet_def trackedKeysSeen_def)

lemma buildTradingContext_result:
  shows "breakerKept s (snd (buildTradingContext E s))"
    and "trackedKeysSeen s \<Longrightarrow> trackedKeysSeen (snd (buildTradingContext E s))"
    and "trackedKeysSeen s \<Longrightarrow> buildTradingContext E s = (Inr ctx, s')
          \<Longrightarrow> dom (map_of (at_positionPnLTracking s'))
                \<subseteq> set (map (\<lambda>p. pos_Symbol p @ ''_'' @ pos_Side p) (ctx_Positions ctx))"
proof -
  obtain rb s1 where b: "callGetBalance E s = (rb, s1)" by (metis surj_pair)
  have q1: "quiet s s1" using call_quiet(1)[of s E] b by simp
  obtain rp s2 where p: "callGetPositions E s1 = (rp, s2)" by (metis surj_pair)
  have q2: "quiet s s2" using quiet_trans[OF q1 call_quiet(2)[of s1 E]] p by simp
  have "breakerKept s (snd (buildTradingContext E s))
    \<and> (trackedKeysSeen s \<longrightarrow> trackedKeysSeen (snd (buildTradingContext E s)))
    \<and> (trackedKeysSeen s \<and> buildTradingContext E s = (Inr ctx, s')
          \<longrightarrow> dom (map_of (at_positionPnLTracking s'))
                \<subseteq> set (map (\<lambda>p. pos_Symbol p @ ''_'' @ pos_Side p) (ctx_Positions ctx)))"
  proof (cases rb)
    case (Inl e)
    then show ?thesis using b q1 quiet_inv[OF q1]
      by (auto simp: buildTradingContext_def quiet_def)
  next
    case rbr: (Inr balance)
    show ?thesis
    proof (cases rp)
      case (Inl e)
      then show ?thesis using b p rbr q2 quiet_inv[OF q2]
        by (auto simp: buildTradingContext_def quiet_def Let_def)
    next
      case rpr: (Inr positions)
      obtain infos margin s3 where f: "fold (trackPosition E) positions ([], 0, s2) = (infos, margin, s3)"
        by (metis prod_cases3)
      let ?keys = "map (\<lambda>pos. vp_symbol pos @ ''_'' @ vp_side pos) positions"
      define s4 where "s4 = fold (forgetClosedKey ?keys) (map fst (at_positionFirstSeenTime s3)) s3"
      note m = refresh_maps[OF f s4_def]
      define s5 where "s5 = forgetClosedSymbols (map vp_symbol positions) s4"
      have q5: "quiet s4 s5" unfolding s5_def by (rule forgetClosedSymbols_quiet)
      obtain rc s6 where c: "callGetMergedCoinPool E s5 = (rc, s6)" by (metis surj_pair)
      have q6: "quiet s4 s6" using quiet_trans[OF q5 call_quiet(10)[of s5 E]] c by simp
      have r: "snd (buildTradingContext E s) = s6"
        using b p rbr rpr f c
        by (cases rc) (simp_all add: buildTradingContext_def Let_def s4_def s5_def)
      have k: "breakerKept s s6"
        using q2 m(1) q6 by (simp add: quiet_def breakerKept_def)
      have i: "trackedKeysSeen s \<Longrightarrow> trackedKeysSeen s6"
        using quiet_inv[OF q2] m(4) quiet_inv[OF q6] by blast
      have l: "trackedKeysSeen s \<Longrightarrow> dom (map_of (at_positionPnLTracking s6)) \<subseteq> set ?keys"
        using quiet_inv[OF q2] m(3) q6 by (simp add: quiet_def)
      have x: "buildTradingContext E s = (Inr ctx, s')
          \<Longrightarrow> s' = s6 \<and> ctx_Positions ctx = infos"
        using b p rbr rpr f c
        by (cases rc) (auto simp: buildTradingContext_def Let_def s4_def s5_def)
      show ?thesis
        using r k i l x m(2) by auto
    qed
  qed
  then show "breakerKept s (snd (buildTradingContext E s))"
    and "trackedKeysSeen s \<Longrightarrow> trackedKeysSeen (snd (buildTradingContext E s))"
    and "trackedKeysSeen s \<Longrightarrow> buildTradingContext E s = (Inr ctx, s')
          \<Longrightarrow> dom (map_of (at_positionPnLTracking s'))
                \<subseteq> set (map (\<lambda>p. pos_Symbol p @ ''_'' @ pos_Side p) (ctx_Positions ctx))"
    by blast+
qed

lemma buildTradingContext_steady: "steady s (snd (buildTradingContext E s))"
  using buildTradingContext_result(1,2)[of s E] by (simp add: steady_def)

text \<open>The loss detection finds nothing to look at when every tracked key is live.\<close>

lemma fold_checkClosedPosition_live:
  "\<forall>e \<in> set es. fst e \<in> set keys \<Longrightarrow> fold (checkClosedPosition E keys dec) es s = s"
proof (induction es arbitrary: s)
  case Nil
  then show ?case by simp
next
  case (Cons e es)
  then show ?case by (cases e) (simp add: checkClosedPosition_def)
qed

lemma checkStopLossTriggered_live:
  assumes "dom (map_of (at_positionPnLTracking s))
      \<subseteq> set (map (\<lambda>p. pos_Symbol p @ ''_'' @ pos_Side p) (ctx_Positions ctx))"
  shows "checkStopLossTriggered E ctx s =
      (if cfg_EnableExponentialBackoff (at_config s)
       then s\<lparr>at_lastTotalEquity := acc_TotalEquity (ctx_Account ctx)\<rparr> else s)"
proof -
  have "\<forall>e \<in> set (at_positionPnLTracking s).
      fst e \<in> set (map (\<lambda>p. pos_Symbol p @ ''_'' @ pos_Side p) (ctx_Positions ctx))"
    using assms by (auto simp: dom_map_of_conv_image_fst)
  then have "fold (checkClosedPosition E
        (map (\<lambda>p. pos_Symbol p @ ''_'' @ pos_Side p) (ctx_Positions ctx))
        (at_lastTotalEquity s > 0 \<and> acc_TotalEquity (ctx_Account ctx) < at_lastTotalEquity s))
      (at_positionPnLTracking s) s = s"
    by (rule fold_checkClosedPosition_live)
  then show ?thesis
    by (simp add: checkStopLossTriggered_def Let_def)
qed

lemma runCycleProtect_steady:
  assumes "dom (map_of (at_positionPnLTracking s))
      \<subseteq> set (map (\<lambda>p. pos_Symbol p @ ''_'' @ pos_Side p) (ctx_Positions ctx))"
  shows "steady s (snd (runCycleProtect E ctx rcd s))"
proof -
  let ?s1 = "checkStopLossTriggered E ctx s"
  have q1: "quiet s ?s1"
    unfolding checkStopLossTriggered_live[OF assms] by (simp add: quiet_def breakerKept_def)
  obtain h rcd1 s2 where c: "checkTrailingStopAndPartialTP E ctx rcd False ?s1 = (h, rcd1, s2)"
    by (metis prod_cases3)
  have q2: "quiet s s2"
    using quiet_trans[OF q1 checkTrailingStopAndPartialTP_quiet[of ?s1 E ctx rcd False]] c by simp
  obtain r s3 where b: "(if h then buildTradingContext E s2 else (Inr ctx, s2)) = (r, s3)"
    by (metis surj_pair)
  have q3: "steady s s3"
    using b steady_trans[OF quiet_steady[OF q2] buildTradingContext_steady[of s2 E]]
      quiet_steady[OF q2]
    by (auto split: if_splits)
  show ?thesis
  proof (cases r)
    case (Inl err)
    then show ?thesis
      using c b steady_trans[OF q3 quiet_steady[OF call_quiet(12)]]
      by (simp add: runCycleProtect_def Let_def)
  next
    case (Inr ctx1)
    then show ?thesis
      using c b steady_trans[OF q3 runCycleDecide_steady]
      by (simp add: runCycleProtect_def Let_def)
  qed
qed

lemma runCycleResets_effect:
  "at_stopLossCount (runCycleResets E s) \<le> at_stopLossCount s
   \<and> at_lastStopLossTime (runCycleResets E s) = at_lastStopLossTime s
   \<and> at_backoffUntil (runCycleResets E s) = at_backoffUntil s
   \<and> at_positionPnLTracking (runCycleResets E s) = at_positionPnLTracking s
   \<and> at_positionFirstSeenTime (runCycleResets E s) = at_positionFirstSeenTime s"
  by (simp add: runCycleResets_def Let_def)

lemma runCycle_breaker:
  assumes "trackedKeysSeen s"
  shows "at_stopLossCount (snd (runCycle E s)) \<le> at_stopLossCount s
     \<and> at_lastStopLossTime (snd (runCycle E s)) = at_lastStopLossTime s
     \<and> at_backoffUntil (snd (runCycle E s)) = at_backoffUntil s
     \<and> trackedKeysSeen (snd (runCycle E s))"
proof -
  let ?s = "s\<lparr>at_callCount := at_callCount s + 1\<rparr>"
  let ?rcd = "\<lparr>rec_Success = True, rec_ErrorMessage = None, rec_Decisions = []\<rparr>"
  have q0: "quiet s ?s" by (simp add: quiet_def breakerKept_def)
  show ?thesis
  proof (cases "cfg_EnableExponentialBackoff (at_config ?s) \<and> time_Now E (at_world ?s) < at_backoffUntil ?s")
    case True
    have "quiet s (snd (runCycle E s))"
      using True quiet_trans[OF q0 call_quiet(12)] by (simp add: runCycle_def Let_def)
    then show ?thesis using assms by (simp add: quiet_def breakerKept_def trackedKeysSeen_def)
  next
    case nb: False
    show ?thesis
    proof (cases "time_Now E (at_world ?s) < at_stopUntil ?s")
      case True
      have "quiet s (snd (runCycle E s))"
        using nb True quiet_trans[OF q0 call_quiet(12)] by (simp add: runCycle_def Let_def)
      then show ?thesis using assms by (simp add: quiet_def breakerKept_def trackedKeysSeen_def)
    next
      case ns: False
      let ?r = "runCycleResets E ?s"
      have r: "at_stopLossCount ?r \<le> at_stopLossCount s
          \<and> at_lastStopLossTime ?r = at_lastStopLossTime s
          \<and> at_backoffUntil ?r = at_backoffUntil s"
        and ri: "trackedKeysSeen ?r"
        using runCycleResets_effect[of E ?s] assms by (simp_all add: trackedKeysSeen_def)
      obtain rb s3 where b: "buildTradingContext E ?r = (rb, s3)" by (metis surj_pair)
      have k3: "breakerKept ?r s3" and i3: "trackedKeysSeen s3"
        using buildTradingContext_result(1)[of ?r E] buildTradingContext_result(2)[OF ri, of E] b
        by simp_all
      show ?thesis
      proof (cases rb)
        case (Inl err)
        let ?l = "callLogDecision E (?rcd\<lparr>rec_Success := False,
            rec_ErrorMessage := Some (BuildContextFailed err)\<rparr>) s3"
        have e: "snd (runCycle E s) = ?l"
          using nb ns b Inl by (auto simp: runCycle_def Let_def)
        have "quiet s3 ?l" by (rule call_quiet(12))
        then show ?thesis
          unfolding e using r k3 i3 by (simp add: quiet_def breakerKept_def trackedKeysSeen_def)
      next
        case (Inr ctx)
        have e: "snd (runCycle E s) = snd (runCycleProtect E ctx ?rcd s3)"
          using nb ns b Inr by (auto simp: runCycle_def Let_def)
        have live: "dom (map_of (at_positionPnLTracking s3))
            \<subseteq> set (map (\<lambda>p. pos_Symbol p @ ''_'' @ pos_Side p) (ctx_Positions ctx))"
          using buildTradingContext_result(3)[OF ri, of E ctx s3] b Inr by simp
        have "steady s3 (snd (runCycleProtect E ctx ?rcd s3))"
          by (rule runCycleProtect_steady[OF live])
        then show ?thesis
          unfolding e using r k3 i3 by (simp add: steady_def breakerKept_def)
      qed
    qed
  qed
qed

text \<open>
  Claim C7. In every cycle of a trader whose tracked keys all have a first-seen time,
  \<open>stopLossCount\<close> is not raised and \<open>lastStopLossTime\<close> and \<open>backoffUntil\<close> stay as
  they are, whatever the equity and the prices, and the tracked keys of the trader after
  the cycle again all have a first-seen time; a trader whose tracking map is empty, as
  that of a new trader, is such a trader. So no cycle of a run raises the count or starts
  a pause: not for a key that vanished while the equity did not decrease, and not
  without the conditions on the equity and on the price. The reason is the order of the
  steps: the build of the context deletes the tracking of every key that is no longer
  live before the loss detection looks for tracked keys that are not live. The loss
  detection taken by itself, on any trader and any context in which the equity has not
  decreased, leaves the three fields as they are.
\<close>

theorem cycle_raises_no_stop_count:
  "(trackedKeysSeen s
     \<longrightarrow> at_stopLossCount (snd (runCycle E s)) \<le> at_stopLossCount s
         \<and> at_lastStopLossTime (snd (runCycle E s)) = at_lastStopLossTime s
         \<and> at_backoffUntil (snd (runCycle E s)) = at_backoffUntil s
         \<and> trackedKeysSeen (snd (runCycle E s)))
   \<and> (at_positionPnLTracking s = [] \<longrightarrow> trackedKeysSeen s)
   \<and> (\<not> (at_lastTotalEquity s > 0 \<and> acc_TotalEquity (ctx_Account ctx) < at_lastTotalEquity s)
     \<longrightarrow> at_stopLossCount (checkStopLossTriggered E ctx s) = at_stopLossCount s
         \<and> at_lastStopLossTime (checkStopLossTriggered E ctx s) = at_lastStopLossTime s
         \<and> at_backoffUntil (checkStopLossTriggered E ctx s) = at_backoffUntil s)"
  using runCycle_breaker[of s E] checkStopLossTriggered_no_decrease[of s ctx E]
  by (auto simp: trackedKeysSeen_def)

theorem cycle_raises_no_stop_count_witness:
  "trackedKeysSeen fallenTrader
   \<and> acc_TotalEquity (ctx_Account lossContext) < at_lastTotalEquity fallenTrader
   \<and> at_stopLossCount (snd (runCycle (simEnv []) fallenTrader)) \<le> at_stopLossCount fallenTrader
   \<and> at_backoffUntil (snd (runCycle (simEnv []) fallenTrader)) = at_backoffUntil fallenTrader
   \<and> snd (runCycle (simEnv []) fallenTrader)
       = fallenTrader\<lparr>at_callCount := 1, at_positionFirstSeenTime := [],
           at_positionPnLTracking := [], at_lastTotalEquity := 900, at_trace := quietTrace\<rparr>
   \<and> trackedKeysSeen simTrader
   \<and> at_stopLossCount (checkStopLossTriggered (simEnv []) lossContext
         (fallenTrader\<lparr>at_lastTotalEquity := 900\<rparr>)) = 0"
proof -
  have i: "trackedKeysSeen fallenTrader"
    by (simp add: trackedKeysSeen_def fallenTrader_def)
  have e: "acc_TotalEquity (ctx_Account lossContext) < at_lastTotalEquity fallenTrader"
    by (simp add: lossContext_def fallenTrader_def)
  have c: "at_stopLossCount (snd (runCycle (simEnv []) fallenTrader)) \<le> at_stopLossCount fallenTrader
      \<and> at_backoffUntil (snd (runCycle (simEnv []) fallenTrader)) = at_backoffUntil fallenTrader"
    using cycle_raises_no_stop_count[where s = fallenTrader and E = "simEnv []"] i by simp
  have r: "snd (runCycle (simEnv []) fallenTrader)
       = fallenTrader\<lparr>at_callCount := 1, at_positionFirstSeenTime := [],
           at_positionPnLTracking := [], at_lastTotalEquity := 900, at_trace := quietTrace\<rparr>"
    by (simp add: fallenTrader_def quietTrace_def cycle_defs sim_defs validateDecisions_def Let_def)
  have n: "trackedKeysSeen simTrader"
    using cycle_raises_no_stop_count[where s = simTrader] by (simp add: simTrader_def)
  have f: "at_stopLossCount (checkStopLossTriggered (simEnv []) lossContext
         (fallenTrader\<lparr>at_lastTotalEquity := 900\<rparr>)) = 0"
    using cycle_raises_no_stop_count
      [where s = "fallenTrader\<lparr>at_lastTotalEquity := 900\<rparr>" and ctx = lossContext
         and E = "simEnv []"]
    by (simp add: lossContext_def fallenTrader_def simTrader_def)
  from i e c r n f show ?thesis by simp
qed

end
